theory Spec2Isabelle
  imports Main "HOL-Library.Sublist"
begin

section \<open>The syntax tree handed to the visitor\<close>

text \<open>
  The visitor of \<^verbatim>\<open>src/src/diagnosticCodes.ts\<close> (class \<^verbatim>\<open>Visitor\<close>) works on the tree
  that \<^verbatim>\<open>@babel/parser\<close> returns and walks it with \<^verbatim>\<open>@babel/traverse\<close>. Both are
  external libraries: the parser is a parameter of the model, the walk is the pre-order
  walk over the children of each node in the order of Babel's visitor keys.

  A node carries its \<^verbatim>\<open>loc\<close> (lines counted from 1, columns from 0), which the type
  declarations of Babel allow to be absent. The node kinds that the visitor inspects are
  constructors of their own; every other kind is \<open>Other\<close> with its type name and its
  children in visiting order. The quasis of a template literal are kept as the list of
  their \<^verbatim>\<open>value.raw\<close> strings (a \<^verbatim>\<open>TemplateElement\<close> is a leaf that no check looks at);
  the elements of an array may be \<^verbatim>\<open>null\<close> (a hole).
\<close>

record SourceLocation =
  start_line :: nat
  start_column :: nat
  end_line :: nat
  end_column :: nat

datatype node =
    Identifier "SourceLocation option" string
  | StringLiteral "SourceLocation option" string
  | TemplateLiteral "SourceLocation option" "string list" "node list"
  | CallExpression "SourceLocation option" node "node list"
  | MemberExpression "SourceLocation option" node node bool
  | ExpressionStatement "SourceLocation option" node
  | ObjectExpression "SourceLocation option" "node list"
  | ObjectProperty "SourceLocation option" node node
  | ArrayExpression "SourceLocation option" "node option list"
  | Other string "SourceLocation option" "node list"

text \<open>The root that the parser returns: a \<^verbatim>\<open>File\<close> node around the program node.\<close>

datatype ast = File node

text \<open>Locations are written \<open>L l1 c1 l2 c2\<close>: from line \<open>l1\<close>, column \<open>c1\<close> to line \<open>l2\<close>, column \<open>c2\<close>.\<close>

definition L :: "nat \<Rightarrow> nat \<Rightarrow> nat \<Rightarrow> nat \<Rightarrow> SourceLocation option" where
  "L l1 c1 l2 c2 = Some \<lparr>start_line = l1, start_column = c1, end_line = l2, end_column = c2\<rparr>"

subsection \<open>Traversal\<close>

text \<open>
  The children of a node, each with the key of the parent under which it hangs, in the
  order in which \<^verbatim>\<open>traverse\<close> visits them; holes of an array are skipped.
\<close>

fun children :: "node \<Rightarrow> (node \<times> string) list" where
  "children (Identifier _ _) = []"
| "children (StringLiteral _ _) = []"
| "children (TemplateLiteral _ _ es) = map (\<lambda>e. (e, ''expressions'')) es"
| "children (CallExpression _ c as) = (c, ''callee'') # map (\<lambda>a. (a, ''arguments'')) as"
| "children (MemberExpression _ ob pr _) = [(ob, ''object''), (pr, ''property'')]"
| "children (ExpressionStatement _ e) = [(e, ''expression'')]"
| "children (ObjectExpression _ ps) = map (\<lambda>p. (p, ''properties'')) ps"
| "children (ObjectProperty _ k v) = [(k, ''key''), (v, ''value'')]"
| "children (ArrayExpression _ es) =
     concat (map (\<lambda>e. case e of None \<Rightarrow> [] | Some n \<Rightarrow> [(n, ''elements'')]) es)"
| "children (Other _ _ cs) = map (\<lambda>c. (c, ''children'')) cs"

lemma size_list_mem: "x \<in> set xs \<Longrightarrow> f x \<le> size_list f xs"
  by (induction xs) auto

lemma children_size: "(c, k) \<in> set (children n) \<Longrightarrow> size c < size n"
proof (cases n)
  case (ArrayExpression l es)
  assume "(c, k) \<in> set (children n)"
  with ArrayExpression have "Some c \<in> set es" by (auto split: option.splits)
  from size_list_mem[OF this, of "size_option size"] ArrayExpression show ?thesis by simp
qed (auto simp: less_Suc_eq_le dest: size_list_mem[where f=size])

text \<open>
  A \<^verbatim>\<open>NodePath\<close>: the node with its key, followed by the chain of its \<^verbatim>\<open>parentPath\<close>s,
  nearest first. \<open>paths anc c\<close> lists the paths of \<open>c\<close> and of all its descendants in the
  order in which their \<^verbatim>\<open>enter\<close> is called.
\<close>

type_synonym path = "(node \<times> string) list"

function paths :: "path \<Rightarrow> node \<times> string \<Rightarrow> path list" where
  "paths anc (n, k) = ((n, k) # anc) # concat (map (paths ((n, k) # anc)) (children n))"
  by pat_completeness auto
termination
  by (relation "measure (\<lambda>(anc, n, k). size n)") (auto simp: children_size)

declare paths.simps [simp del]

text \<open>\<^verbatim>\<open>traverse(ast, ...)\<close> enters the program node first; the root itself is not entered
  and is not part of any \<^verbatim>\<open>parentPath\<close> chain.\<close>

fun traversePaths :: "ast \<Rightarrow> path list" where
  "traversePaths (File program) = paths [] (program, ''program'')"

text \<open>\<^verbatim>\<open>path.findParent(cb)\<close>: the nearest proper ancestor path whose node satisfies \<open>cb\<close>.\<close>

fun findParent :: "(node \<Rightarrow> bool) \<Rightarrow> path \<Rightarrow> path option" where
  "findParent cb [] = None"
| "findParent cb [p] = None"
| "findParent cb (p # q # anc) = (if cb (fst q) then Some (q # anc) else findParent cb (q # anc))"

fun isArrayExpression :: "node \<Rightarrow> bool" where
  "isArrayExpression (ArrayExpression _ _) = True"
| "isArrayExpression _ = False"

fun isObjectExpression :: "node \<Rightarrow> bool" where
  "isObjectExpression (ObjectExpression _ _) = True"
| "isObjectExpression _ = False"

fun isObjectProperty :: "node \<Rightarrow> bool" where
  "isObjectProperty (ObjectProperty _ _ _) = True"
| "isObjectProperty _ = False"

fun isCallExpression :: "node \<Rightarrow> bool" where
  "isCallExpression (CallExpression _ _ _) = True"
| "isCallExpression _ = False"

subsection \<open>Strings\<close>

text \<open>A string is the list of its code units; \<open>str_includes\<close> and \<open>startsWith\<close> are the
  methods of JavaScript's \<^verbatim>\<open>String\<close> (\<open>str_includes s p\<close> is \<^verbatim>\<open>s.includes(p)\<close>).\<close>

definition PLACEHOLDER :: string where
  "PLACEHOLDER = ''TRIGGER_CHARACTER''"

fun startsWith :: "string \<Rightarrow> string \<Rightarrow> bool" where
  "startsWith s [] = True"
| "startsWith [] (c # p) = False"
| "startsWith (x # s) (c # p) = (x = c \<and> startsWith s p)"

fun str_includes :: "string \<Rightarrow> string \<Rightarrow> bool" where
  "str_includes [] p = (p = [])"
| "str_includes (x # s) p = (startsWith (x # s) p \<or> str_includes s p)"

text \<open>\<^verbatim>\<open>s.split('\n')\<close> and \<^verbatim>\<open>lines.join('\n')\<close>.\<close>

fun split_lines :: "string \<Rightarrow> string list" where
  "split_lines [] = [[]]"
| "split_lines (c # cs) =
     (if c = CHR 0x0A then [] # split_lines cs
      else (case split_lines cs of [] \<Rightarrow> [[c]] | l # ls \<Rightarrow> (c # l) # ls))"

fun join_lines :: "string list \<Rightarrow> string" where
  "join_lines [] = []"
| "join_lines [l] = l"
| "join_lines (l # m # ls) = l @ CHR 0x0A # join_lines (m # ls)"


section \<open>The context resolver\<close>

text \<open>A position as the language server protocol has it: line and character are
  unsigned integers, counted from 0.\<close>

record Position =
  line :: nat
  character :: nat

record VisitorSelection =
  sel_start :: Position
  sel_end :: Position

record CompletionState =
  databaseName :: "string option"
  collectionName :: "string option"
  streamProcessorName :: "string option"
  isObjectKey :: bool
  isIdentifierObjectValue :: bool
  isTextObjectValue :: bool
  isStage :: bool
  stageOperator :: "string option"
  isCollectionSymbol :: bool
  isStreamProcessorSymbol :: bool
  isUseCallExpression :: bool
  isGlobalSymbol :: bool
  isDbSymbol :: bool
  isSpSymbol :: bool
  isCollectionName :: bool
  isStreamProcessorName :: bool
  isAggregationCursor :: bool
  isFindCursor :: bool

text \<open>What a call can throw to its caller.\<close>

datatype js_error = TypeError | RangeError

definition getDefaultsForCompletion :: CompletionState where
  "getDefaultsForCompletion =
     \<lparr>databaseName = None, collectionName = None, streamProcessorName = None,
      isObjectKey = False, isIdentifierObjectValue = False, isTextObjectValue = False,
      isStage = False, stageOperator = None, isCollectionSymbol = False,
      isStreamProcessorSymbol = False, isUseCallExpression = False, isGlobalSymbol = False,
      isDbSymbol = False, isSpSymbol = False, isCollectionName = False,
      isStreamProcessorName = False, isAggregationCursor = False, isFindCursor = False\<rparr>"

subsection \<open>Injecting the placeholder\<close>

text \<open>
  A string of the engine has a longest length, \<open>2^29 - 24\<close> code units in V8; building a
  longer one throws a \<^verbatim>\<open>RangeError\<close>.
\<close>

definition maxStringLength :: int where
  "maxStringLength = 536870888"

definition newString :: "string \<Rightarrow> js_error + string" where
  "newString s = (if int (length s) > maxStringLength then Inl RangeError else Inr s)"

text \<open>
  \<^verbatim>\<open>_handleTriggerCharacter\<close>. With \<^verbatim>\<open>position.character === 0\<close> the line is read without
  a method call on it: a line beyond the text is \<^verbatim>\<open>undefined\<close>, and the template literal
  prints it as the word. The assignment to \<^verbatim>\<open>textLines[position.line]\<close> then extends the
  array by holes, which \<^verbatim>\<open>join\<close> writes as empty lines, as long as the line is an array
  index, that is below \<open>2^32 - 1\<close>; from there on it sets a property that \<^verbatim>\<open>join\<close> does
  not see, and the text comes back without the placeholder. With any other character
  \<^verbatim>\<open>textLines[position.line].slice\<close> is called, which throws a \<^verbatim>\<open>TypeError\<close> on a line
  beyond the text; \<^verbatim>\<open>slice\<close> itself clamps the character to the length of the line.
\<close>

definition handleTriggerCharacter :: "string \<Rightarrow> Position \<Rightarrow> js_error + string" where
  "handleTriggerCharacter textFromEditor position =
     (let textLines = split_lines textFromEditor in
      if character position = 0 then
        (if line position < length textLines
         then newString
                (join_lines (textLines[line position := PLACEHOLDER @ textLines ! line position]))
         else if int (line position) < 4294967295
         then newString
                (join_lines (textLines @ replicate (line position - length textLines) []
                               @ [PLACEHOLDER @ ''undefined'']))
         else newString (join_lines textLines))
      else if line position < length textLines then
        (let prefix = take (character position) (textLines ! line position);
             postfix = drop (character position) (textLines ! line position)
         in newString (join_lines (textLines[line position := prefix @ PLACEHOLDER @ postfix])))
      else Inl TypeError)"

subsection \<open>The checks\<close>

text \<open>
  Each check is a method of the visitor that may set fields of \<^verbatim>\<open>this._state\<close>; here it
  takes the state and returns it. The guards \<^verbatim>\<open>'field' in this._state\<close> hold for every
  state that starts from \<open>getDefaultsForCompletion\<close>. The callbacks handed to
  \<^verbatim>\<open>properties.find\<close> return nothing, so \<^verbatim>\<open>find\<close> runs them on every property.
\<close>

definition checkIsUseCallAsSimpleString :: "node \<Rightarrow> CompletionState \<Rightarrow> CompletionState" where
  "checkIsUseCallAsSimpleString node st =
     (if (case node of
            CallExpression _ (Identifier _ name) [StringLiteral _ v] \<Rightarrow>
              name = ''use'' \<and> str_includes v PLACEHOLDER
          | _ \<Rightarrow> False)
      then st\<lparr>isUseCallExpression := True\<rparr> else st)"

definition checkIsUseCallAsTemplate :: "node \<Rightarrow> CompletionState \<Rightarrow> CompletionState" where
  "checkIsUseCallAsTemplate node st =
     (if (case node of
            CallExpression _ (Identifier _ name) [TemplateLiteral _ [raw] _] \<Rightarrow>
              name = ''use'' \<and> raw \<noteq> [] \<and> str_includes raw PLACEHOLDER
          | _ \<Rightarrow> False)
      then st\<lparr>isUseCallExpression := True\<rparr> else st)"

definition checkIsUseCall :: "node \<Rightarrow> CompletionState \<Rightarrow> CompletionState" where
  "checkIsUseCall node st = checkIsUseCallAsTemplate node (checkIsUseCallAsSimpleString node st)"

definition checkIsGlobalSymbol :: "node \<Rightarrow> CompletionState \<Rightarrow> CompletionState" where
  "checkIsGlobalSymbol node st =
     (if (case node of
            ExpressionStatement _ (Identifier _ name) \<Rightarrow> str_includes name ''TRIGGER_CHARACTER''
          | _ \<Rightarrow> False)
      then st\<lparr>isGlobalSymbol := True\<rparr> else st)"

definition checkIsDbSymbol :: "node \<Rightarrow> CompletionState \<Rightarrow> CompletionState" where
  "checkIsDbSymbol node st =
     (if (case node of
            ExpressionStatement _ (MemberExpression _ (Identifier _ name) _ _) \<Rightarrow> name = ''db''
          | _ \<Rightarrow> False)
      then st\<lparr>isDbSymbol := True\<rparr> else st)"

definition checkIsSpSymbol :: "node \<Rightarrow> CompletionState \<Rightarrow> CompletionState" where
  "checkIsSpSymbol node st =
     (if (case node of
            ExpressionStatement _ (MemberExpression _ (Identifier _ name) _ _) \<Rightarrow> name = ''sp''
          | _ \<Rightarrow> False)
      then st\<lparr>isSpSymbol := True\<rparr> else st)"

text \<open>The three checks on the properties of an object literal.\<close>

definition isPlaceholderKey :: "node \<Rightarrow> bool" where
  "isPlaceholderKey item =
     (case item of
        ObjectProperty _ (Identifier _ name) _ \<Rightarrow> str_includes name PLACEHOLDER
      | _ \<Rightarrow> False)"

definition checkIsObjectKey :: "node \<Rightarrow> CompletionState \<Rightarrow> CompletionState" where
  "checkIsObjectKey node st =
     (case node of
        ObjectExpression _ properties \<Rightarrow>
          fold (\<lambda>item st. if isPlaceholderKey item then st\<lparr>isObjectKey := True\<rparr> else st)
            properties st
      | _ \<Rightarrow> st)"

definition checkIsIdentifierObjectValue :: "node \<Rightarrow> CompletionState \<Rightarrow> CompletionState" where
  "checkIsIdentifierObjectValue node st =
     (case node of
        ObjectExpression _ properties \<Rightarrow>
          fold (\<lambda>item st.
                  if (case item of
                        ObjectProperty _ _ (Identifier _ name) \<Rightarrow> str_includes name PLACEHOLDER
                      | _ \<Rightarrow> False)
                  then st\<lparr>isIdentifierObjectValue := True\<rparr> else st)
            properties st
      | _ \<Rightarrow> st)"

definition checkIsTextObjectValue :: "node \<Rightarrow> CompletionState \<Rightarrow> CompletionState" where
  "checkIsTextObjectValue node st =
     (case node of
        ObjectExpression _ properties \<Rightarrow>
          fold (\<lambda>item st.
                  if (case item of
                        ObjectProperty _ _ (StringLiteral _ v) \<Rightarrow> str_includes v PLACEHOLDER
                      | ObjectProperty _ _ (TemplateLiteral _ [raw] _) \<Rightarrow>
                          str_includes raw PLACEHOLDER
                      | _ \<Rightarrow> False)
                  then st\<lparr>isTextObjectValue := True\<rparr> else st)
            properties st
      | _ \<Rightarrow> st)"

text \<open>The two checks on an array literal. \<^verbatim>\<open>path.scope.traverse(item, ...)\<close> enters the
  nodes below \<open>item\<close>, not \<open>item\<close> itself; its visitor reads the node of each path only.\<close>

definition checkIsStage :: "node \<Rightarrow> CompletionState \<Rightarrow> CompletionState" where
  "checkIsStage node st =
     (case node of
        ArrayExpression _ elements \<Rightarrow>
          fold (\<lambda>item st.
                  case item of
                    Some (ObjectExpression _ properties) \<Rightarrow>
                      fold (\<lambda>item st. if isPlaceholderKey item then st\<lparr>isStage := True\<rparr> else st)
                        properties st
                  | _ \<Rightarrow> st)
            elements st
      | _ \<Rightarrow> st)"

definition scopeTraverse :: "node \<Rightarrow> path list" where
  "scopeTraverse item = concat (map (paths []) (children item))"

definition checkStageProperty :: "node \<Rightarrow> CompletionState \<Rightarrow> CompletionState" where
  "checkStageProperty item st =
     (case item of
        ObjectProperty _ (Identifier _ name) (ObjectExpression _ _) \<Rightarrow>
          fold (\<lambda>path st.
                  if isPlaceholderKey (fst (hd path)) then st\<lparr>stageOperator := Some name\<rparr> else st)
            (scopeTraverse item) st
      | _ \<Rightarrow> st)"

definition checkIsStageOperator :: "path \<Rightarrow> CompletionState \<Rightarrow> CompletionState" where
  "checkIsStageOperator path st =
     (case fst (hd path) of
        ArrayExpression _ elements \<Rightarrow>
          fold (\<lambda>item st.
                  case item of
                    Some (ObjectExpression _ properties) \<Rightarrow> fold checkStageProperty properties st
                  | _ \<Rightarrow> st)
            elements st
      | _ \<Rightarrow> st)"

text \<open>Naming a collection: \<^verbatim>\<open>db.name\<close>, \<^verbatim>\<open>db['name']\<close> and \<^verbatim>\<open>db.getCollection(...)\<close>.\<close>

definition checkIsCollectionNameAsMemberExpression ::
    "node \<Rightarrow> CompletionState \<Rightarrow> CompletionState" where
  "checkIsCollectionNameAsMemberExpression node st =
     (if (case node of
            MemberExpression _ (Identifier _ obj) (Identifier _ name) _ \<Rightarrow>
              obj = ''db'' \<and> str_includes name PLACEHOLDER
          | MemberExpression _ (Identifier _ obj) (StringLiteral _ v) _ \<Rightarrow>
              obj = ''db'' \<and> str_includes v PLACEHOLDER
          | _ \<Rightarrow> False)
      then st\<lparr>isCollectionName := True\<rparr> else st)"

definition checkGetCollectionAsSimpleString :: "node \<Rightarrow> CompletionState \<Rightarrow> CompletionState" where
  "checkGetCollectionAsSimpleString node st =
     (if (case node of
            CallExpression _ _ (StringLiteral _ v # _) \<Rightarrow> str_includes v PLACEHOLDER
          | _ \<Rightarrow> False)
      then st\<lparr>isCollectionName := True\<rparr> else st)"

definition checkGetCollectionAsTemplate :: "node \<Rightarrow> CompletionState \<Rightarrow> CompletionState" where
  "checkGetCollectionAsTemplate node st =
     (if (case node of
            CallExpression _ _ (TemplateLiteral _ [raw] _ # _) \<Rightarrow> str_includes raw PLACEHOLDER
          | _ \<Rightarrow> False)
      then st\<lparr>isCollectionName := True\<rparr> else st)"

definition checkIsCollectionNameAsCallExpression ::
    "node \<Rightarrow> CompletionState \<Rightarrow> CompletionState" where
  "checkIsCollectionNameAsCallExpression node st =
     (if (case node of
            CallExpression _ (MemberExpression _ (Identifier _ obj) (Identifier _ prop) _) [_] \<Rightarrow>
              obj = ''db'' \<and> prop = ''getCollection''
          | _ \<Rightarrow> False)
      then checkGetCollectionAsTemplate node (checkGetCollectionAsSimpleString node st)
      else st)"

text \<open>A member access chained off \<^verbatim>\<open>aggregate(...)\<close> or \<^verbatim>\<open>find(...)\<close>.\<close>

definition checkHasAggregationCall :: "node \<Rightarrow> CompletionState \<Rightarrow> CompletionState" where
  "checkHasAggregationCall node st =
     (if (case node of
            MemberExpression _
              (CallExpression _ (MemberExpression _ _ (Identifier _ prop) computed) _)
              (Identifier _ name) _ \<Rightarrow>
              str_includes name PLACEHOLDER \<and> \<not> computed \<and> prop = ''aggregate''
          | _ \<Rightarrow> False)
      then st\<lparr>isAggregationCursor := True\<rparr> else st)"

definition checkHasFindCall :: "node \<Rightarrow> CompletionState \<Rightarrow> CompletionState" where
  "checkHasFindCall node st =
     (if (case node of
            MemberExpression _
              (CallExpression _ (MemberExpression _ _ (Identifier _ prop) computed) _)
              (Identifier _ name) _ \<Rightarrow>
              str_includes name PLACEHOLDER \<and> \<not> computed \<and> prop = ''find''
          | _ \<Rightarrow> False)
      then st\<lparr>isFindCursor := True\<rparr> else st)"

text \<open>The database name: a \<^verbatim>\<open>use('name')\<close> call that ends at or before the start of the
  selection. The lines of \<^verbatim>\<open>loc\<close> count from 1, those of the selection from 0.\<close>

definition endsBeforeSelection :: "VisitorSelection \<Rightarrow> SourceLocation \<Rightarrow> bool" where
  "endsBeforeSelection selection l =
     (int (line (sel_start selection)) > int (end_line l) - 1 \<or>
      (int (line (sel_start selection)) = int (end_line l) - 1 \<and>
       character (sel_start selection) \<ge> end_column l))"

definition checkHasDatabaseName ::
    "VisitorSelection \<Rightarrow> node \<Rightarrow> CompletionState \<Rightarrow> CompletionState" where
  "checkHasDatabaseName selection node st =
     (case node of
        CallExpression (Some l) (Identifier _ name) [StringLiteral _ v] \<Rightarrow>
          if name = ''use'' \<and> endsBeforeSelection selection l
          then st\<lparr>databaseName := Some v\<rparr> else st
      | _ \<Rightarrow> st)"

text \<open>The collection that a member access hangs off.\<close>

definition checkHasCollectionNameMemberExpression ::
    "node \<Rightarrow> CompletionState \<Rightarrow> CompletionState" where
  "checkHasCollectionNameMemberExpression node st =
     (case node of
        MemberExpression _ (MemberExpression _ (Identifier _ obj) (Identifier _ name) _) _ _ \<Rightarrow>
          if obj = ''db'' then st\<lparr>collectionName := Some name\<rparr> else st
      | MemberExpression _ (MemberExpression _ (Identifier _ obj) (StringLiteral _ v) _) _ _ \<Rightarrow>
          if obj = ''db'' then st\<lparr>collectionName := Some v\<rparr> else st
      | _ \<Rightarrow> st)"

definition checkHasCollectionNameCallExpression ::
    "node \<Rightarrow> CompletionState \<Rightarrow> CompletionState" where
  "checkHasCollectionNameCallExpression node st =
     (case node of
        MemberExpression _
          (CallExpression _ (MemberExpression _ (Identifier _ obj) (Identifier _ prop) _)
             [StringLiteral _ v]) _ _ \<Rightarrow>
          if obj = ''db'' \<and> prop = ''getCollection'' then st\<lparr>collectionName := Some v\<rparr> else st
      | _ \<Rightarrow> st)"

definition checkHasCollectionName :: "node \<Rightarrow> CompletionState \<Rightarrow> CompletionState" where
  "checkHasCollectionName node st =
     checkHasCollectionNameCallExpression node (checkHasCollectionNameMemberExpression node st)"

text \<open>The token after the dot of a collection.\<close>

definition checkIsCollectionMemberExpression ::
    "node \<Rightarrow> CompletionState \<Rightarrow> CompletionState" where
  "checkIsCollectionMemberExpression node st =
     (if (case node of
            MemberExpression _ (MemberExpression _ (Identifier _ obj) _ _) (Identifier _ name) _ \<Rightarrow>
              obj = ''db'' \<and> str_includes name PLACEHOLDER
          | _ \<Rightarrow> False)
      then st\<lparr>isCollectionSymbol := True\<rparr> else st)"

definition checkIsCollectionCallExpression ::
    "node \<Rightarrow> CompletionState \<Rightarrow> CompletionState" where
  "checkIsCollectionCallExpression node st =
     (if (case node of
            MemberExpression _
              (CallExpression _ (MemberExpression _ (Identifier _ obj) (Identifier _ prop) _) _)
              (Identifier _ name) _ \<Rightarrow>
              obj = ''db'' \<and> prop = ''getCollection'' \<and> str_includes name PLACEHOLDER
          | _ \<Rightarrow> False)
      then st\<lparr>isCollectionSymbol := True\<rparr> else st)"

definition checkIsCollectionSymbol :: "node \<Rightarrow> CompletionState \<Rightarrow> CompletionState" where
  "checkIsCollectionSymbol node st =
     checkIsCollectionCallExpression node (checkIsCollectionMemberExpression node st)"

text \<open>The same for stream processors, under \<^verbatim>\<open>sp\<close> and \<^verbatim>\<open>sp.getProcessor(...)\<close>.\<close>

definition checkIsStreamProcessorNameAsMemberExpression ::
    "node \<Rightarrow> CompletionState \<Rightarrow> CompletionState" where
  "checkIsStreamProcessorNameAsMemberExpression node st =
     (if (case node of
            MemberExpression _ (Identifier _ obj) (Identifier _ name) _ \<Rightarrow>
              obj = ''sp'' \<and> str_includes name PLACEHOLDER
          | MemberExpression _ (Identifier _ obj) (StringLiteral _ v) _ \<Rightarrow>
              obj = ''sp'' \<and> str_includes v PLACEHOLDER
          | _ \<Rightarrow> False)
      then st\<lparr>isSpSymbol := True, isStreamProcessorName := True\<rparr> else st)"

definition checkGetStreamProcessorAsSimpleString ::
    "node \<Rightarrow> CompletionState \<Rightarrow> CompletionState" where
  "checkGetStreamProcessorAsSimpleString node st =
     (if (case node of
            CallExpression _ _ (StringLiteral _ v # _) \<Rightarrow> str_includes v PLACEHOLDER
          | _ \<Rightarrow> False)
      then st\<lparr>isStreamProcessorName := True\<rparr> else st)"

definition checkGetStreamProcessorAsTemplate ::
    "node \<Rightarrow> CompletionState \<Rightarrow> CompletionState" where
  "checkGetStreamProcessorAsTemplate node st =
     (if (case node of
            CallExpression _ _ (TemplateLiteral _ [raw] _ # _) \<Rightarrow> str_includes raw PLACEHOLDER
          | _ \<Rightarrow> False)
      then st\<lparr>isStreamProcessorName := True\<rparr> else st)"

definition checkIsStreamProcessorNameAsCallExpression ::
    "node \<Rightarrow> CompletionState \<Rightarrow> CompletionState" where
  "checkIsStreamProcessorNameAsCallExpression node st =
     (if (case node of
            CallExpression _ (MemberExpression _ (Identifier _ obj) (Identifier _ prop) _) [_] \<Rightarrow>
              obj = ''sp'' \<and> prop = ''getProcessor''
          | _ \<Rightarrow> False)
      then checkGetStreamProcessorAsTemplate node (checkGetStreamProcessorAsSimpleString node st)
      else st)"

definition checkHasStreamProcessorNameMemberExpression ::
    "node \<Rightarrow> CompletionState \<Rightarrow> CompletionState" where
  "checkHasStreamProcessorNameMemberExpression node st =
     (case node of
        MemberExpression _ (MemberExpression _ (Identifier _ obj) (Identifier _ name) _) _ _ \<Rightarrow>
          if obj = ''sp'' then st\<lparr>streamProcessorName := Some name\<rparr> else st
      | MemberExpression _ (MemberExpression _ (Identifier _ obj) (StringLiteral _ v) _) _ _ \<Rightarrow>
          if obj = ''sp'' then st\<lparr>streamProcessorName := Some v\<rparr> else st
      | _ \<Rightarrow> st)"

definition checkHasStreamProcessorNameCallExpression ::
    "node \<Rightarrow> CompletionState \<Rightarrow> CompletionState" where
  "checkHasStreamProcessorNameCallExpression node st =
     (case node of
        MemberExpression _
          (CallExpression _ (MemberExpression _ (Identifier _ obj) (Identifier _ prop) _)
             [StringLiteral _ v]) _ _ \<Rightarrow>
          if obj = ''sp'' \<and> prop = ''getProcessor''
          then st\<lparr>streamProcessorName := Some v\<rparr> else st
      | _ \<Rightarrow> st)"

definition checkHasStreamProcessorName :: "node \<Rightarrow> CompletionState \<Rightarrow> CompletionState" where
  "checkHasStreamProcessorName node st =
     checkHasStreamProcessorNameCallExpression node
       (checkHasStreamProcessorNameMemberExpression node st)"

definition checkIsStreamProcessorMemberExpression ::
    "node \<Rightarrow> CompletionState \<Rightarrow> CompletionState" where
  "checkIsStreamProcessorMemberExpression node st =
     (if (case node of
            MemberExpression _ (MemberExpression _ (Identifier _ obj) _ _) (Identifier _ name) _ \<Rightarrow>
              obj = ''sp'' \<and> str_includes name PLACEHOLDER
          | _ \<Rightarrow> False)
      then st\<lparr>isStreamProcessorSymbol := True\<rparr> else st)"

definition checkIsStreamProcessorCallExpression ::
    "node \<Rightarrow> CompletionState \<Rightarrow> CompletionState" where
  "checkIsStreamProcessorCallExpression node st =
     (if (case node of
            MemberExpression _
              (CallExpression _ (MemberExpression _ (Identifier _ obj) (Identifier _ prop) _) _)
              (Identifier _ name) _ \<Rightarrow>
              obj = ''sp'' \<and> prop = ''getProcessor'' \<and> str_includes name PLACEHOLDER
          | _ \<Rightarrow> False)
      then st\<lparr>isStreamProcessorSymbol := True\<rparr> else st)"

definition checkIsStreamProcessorSymbol :: "node \<Rightarrow> CompletionState \<Rightarrow> CompletionState" where
  "checkIsStreamProcessorSymbol node st =
     checkIsStreamProcessorCallExpression node (checkIsStreamProcessorMemberExpression node st)"

subsection \<open>The visitor\<close>

text \<open>The five \<^verbatim>\<open>_visit...\<close> methods return at once on a node of another type; every
  check they call is written so that it changes nothing on such a node.\<close>

definition visitCallExpression ::
    "VisitorSelection \<Rightarrow> path \<Rightarrow> CompletionState \<Rightarrow> CompletionState" where
  "visitCallExpression selection path st =
     (let node = fst (hd path) in
      if isCallExpression node then
        checkHasDatabaseName selection node
          (checkIsStreamProcessorNameAsCallExpression node
            (checkIsCollectionNameAsCallExpression node
              (checkIsUseCall node st)))
      else st)"

fun isMemberExpression :: "node \<Rightarrow> bool" where
  "isMemberExpression (MemberExpression _ _ _ _) = True"
| "isMemberExpression _ = False"

fun isExpressionStatement :: "node \<Rightarrow> bool" where
  "isExpressionStatement (ExpressionStatement _ _) = True"
| "isExpressionStatement _ = False"

definition visitMemberExpression :: "path \<Rightarrow> CompletionState \<Rightarrow> CompletionState" where
  "visitMemberExpression path st =
     (let node = fst (hd path) in
      if isMemberExpression node then
        checkHasStreamProcessorName node
          (checkIsStreamProcessorNameAsMemberExpression node
            (checkIsStreamProcessorSymbol node
              (checkHasCollectionName node
                (checkIsCollectionNameAsMemberExpression node
                  (checkIsCollectionSymbol node
                    (checkHasFindCall node
                      (checkHasAggregationCall node st)))))))
      else st)"

definition visitExpressionStatement :: "path \<Rightarrow> CompletionState \<Rightarrow> CompletionState" where
  "visitExpressionStatement path st =
     (let node = fst (hd path) in
      if isExpressionStatement node then
        checkIsSpSymbol node (checkIsDbSymbol node (checkIsGlobalSymbol node st))
      else st)"

definition visitObjectExpression :: "path \<Rightarrow> CompletionState \<Rightarrow> CompletionState" where
  "visitObjectExpression path st =
     (let node = fst (hd path) in
      if isObjectExpression node then
        checkIsTextObjectValue node (checkIsIdentifierObjectValue node (checkIsObjectKey node st))
      else st)"

definition visitArrayExpression :: "path \<Rightarrow> CompletionState \<Rightarrow> CompletionState" where
  "visitArrayExpression path st =
     (let node = fst (hd path) in
      if isArrayExpression node then checkIsStageOperator path (checkIsStage node st)
      else st)"

text \<open>The \<^verbatim>\<open>enter\<close> callback of \<^verbatim>\<open>parseAST\<close>.\<close>

definition enter :: "VisitorSelection \<Rightarrow> path \<Rightarrow> CompletionState \<Rightarrow> CompletionState" where
  "enter selection path st =
     visitArrayExpression path
       (visitObjectExpression path
         (visitExpressionStatement path
           (visitMemberExpression path
             (visitCallExpression selection path st))))"

text \<open>\<^verbatim>\<open>parseAST\<close>: the parser is the parameter \<open>parse\<close>, which gives \<open>None\<close> where
  \<^verbatim>\<open>parser.parse\<close> throws; the state is then left as it is.\<close>

definition parseAST ::
    "(string \<Rightarrow> ast option) \<Rightarrow> string \<Rightarrow> VisitorSelection \<Rightarrow> CompletionState \<Rightarrow> CompletionState"
  where
  "parseAST parse textFromEditor selection st =
     (case parse textFromEditor of
        None \<Rightarrow> st
      | Some ast \<Rightarrow> fold (enter selection) (traversePaths ast) st)"

definition parseASTForCompletion ::
    "(string \<Rightarrow> ast option) \<Rightarrow> string \<Rightarrow> Position \<Rightarrow> js_error + CompletionState" where
  "parseASTForCompletion parse textFromEditor position =
     (let selection = \<lparr>sel_start = position, sel_end = \<lparr>line = 0, character = 0\<rparr>\<rparr> in
      case handleTriggerCharacter textFromEditor position of
        Inl e \<Rightarrow> Inl e
      | Inr injected \<Rightarrow> Inr (parseAST parse injected selection getDefaultsForCompletion))"

section \<open>The reference extractor\<close>

text \<open>The \<^verbatim>\<open>location\<close> of a reference: the \<^verbatim>\<open>loc\<close> of its node with the lines counted
  from 0 (\<^verbatim>\<open>loc.start.line - 1\<close>, a subtraction of numbers).\<close>

record Location =
  loc_start_line :: int
  loc_start_character :: nat
  loc_end_line :: int
  loc_end_character :: nat

definition location :: "SourceLocation \<Rightarrow> Location" where
  "location l =
     \<lparr>loc_start_line = int (start_line l) - 1, loc_start_character = start_column l,
      loc_end_line = int (end_line l) - 1, loc_end_character = end_column l\<rparr>"

datatype FieldContext = FieldFind | FieldAggregate | FieldUpdate | FieldOther

datatype OperatorContext = CtxStage | CtxQuery | CtxAggregation | CtxOther

datatype MethodTarget = TargetDb | TargetCollection | TargetCursor | TargetOther

record CollectionReference =
  coll_collectionName :: string
  coll_databaseName :: "string option"
  coll_location :: Location

record FieldReference =
  fieldName :: string
  field_collectionName :: "string option"
  field_databaseName :: "string option"
  field_location :: Location
  field_context :: FieldContext

record OperatorReference =
  operator :: string
  op_location :: Location
  op_context :: OperatorContext

text \<open>The field \<^verbatim>\<open>method\<close> of a method reference is \<open>method_name\<close>.\<close>

record MethodReference =
  method_name :: string
  target :: MethodTarget
  method_location :: Location

text \<open>The list \<^verbatim>\<open>fields\<close> is the field \<open>fieldRefs\<close>, and the \<^verbatim>\<open>databaseName\<close> of the
  references is \<open>refs_databaseName\<close>.\<close>

record DiagnosticReferences =
  collections :: "CollectionReference list"
  fieldRefs :: "FieldReference list"
  operators :: "OperatorReference list"
  methods :: "MethodReference list"
  refs_databaseName :: "string option"

text \<open>The variables of \<^verbatim>\<open>parseASTForDiagnostics\<close> that its three visitors write.\<close>

record DiagState =
  references :: DiagnosticReferences
  currentDatabase :: "string option"
  currentCollection :: "string option"

definition emptyReferences :: DiagnosticReferences where
  "emptyReferences =
     \<lparr>collections = [], fieldRefs = [], operators = [], methods = [], refs_databaseName = None\<rparr>"

subsection \<open>The visitor of call expressions\<close>

definition diagCallExpression :: "path \<Rightarrow> DiagState \<Rightarrow> DiagState" where
  "diagCallExpression path st =
     (case fst (hd path) of
        CallExpression _ (Identifier _ name) [StringLiteral _ v] \<Rightarrow>
          if name = ''use''
          then st\<lparr>currentDatabase := Some v,
                  references := (references st)\<lparr>refs_databaseName := Some v\<rparr>\<rparr>
          else st
      | _ \<Rightarrow> st)"

subsection \<open>The visitor of member expressions\<close>

text \<open>\<^verbatim>\<open>parent.type === 'CallExpression' && parent.callee === node\<close>: in the tree of the
  parser a node is the callee of its parent exactly when it hangs under the key
  \<^verbatim>\<open>callee\<close>. The parent of the program node is the root, which is no call.\<close>

definition isCalleeOfParent :: "path \<Rightarrow> bool" where
  "isCalleeOfParent path =
     (case path of
        (node, key) # (CallExpression _ _ _, _) # _ \<Rightarrow> key = ''callee''
      | _ \<Rightarrow> False)"

definition pushCollection :: "string \<Rightarrow> SourceLocation \<Rightarrow> DiagState \<Rightarrow> DiagState" where
  "pushCollection name l st =
     st\<lparr>currentCollection := Some name,
        references := (references st)\<lparr>collections := collections (references st) @
          [\<lparr>coll_collectionName = name, coll_databaseName = currentDatabase st,
            coll_location = location l\<rparr>]\<rparr>\<rparr>"

definition pushMethod :: "string \<Rightarrow> MethodTarget \<Rightarrow> SourceLocation \<Rightarrow> DiagState \<Rightarrow> DiagState"
  where
  "pushMethod name tgt l st =
     st\<lparr>references := (references st)\<lparr>methods := methods (references st) @
          [\<lparr>method_name = name, target = tgt, method_location = location l\<rparr>]\<rparr>\<rparr>"

text \<open>The first block: a member of \<^verbatim>\<open>db\<close>. An empty \<^verbatim>\<open>collectionName\<close> is falsy, like
  \<^verbatim>\<open>null\<close>.\<close>

definition diagDbMember :: "path \<Rightarrow> DiagState \<Rightarrow> DiagState" where
  "diagDbMember path st =
     (case fst (hd path) of
        MemberExpression l (Identifier _ obj) property _ \<Rightarrow>
          if obj = ''db'' then
            (let collectionName =
                   (case property of
                      Identifier _ name \<Rightarrow> Some name
                    | StringLiteral _ v \<Rightarrow> Some v
                    | _ \<Rightarrow> None);
                 st1 = (case (collectionName, l) of
                          (Some name, Some lc) \<Rightarrow> if name \<noteq> [] then pushCollection name lc st else st
                        | _ \<Rightarrow> st)
             in if isCalleeOfParent path then
                  (case (property, l) of
                     (Identifier _ name, Some lc) \<Rightarrow> pushMethod name TargetDb lc st1
                   | _ \<Rightarrow> st1)
                else st1)
          else st
      | _ \<Rightarrow> st)"

text \<open>The second block: a member of a member of \<^verbatim>\<open>db\<close>.\<close>

definition diagCollectionMethod :: "path \<Rightarrow> DiagState \<Rightarrow> DiagState" where
  "diagCollectionMethod path st =
     (case fst (hd path) of
        MemberExpression (Some lc) (MemberExpression _ (Identifier _ obj) _ _) (Identifier _ name) _ \<Rightarrow>
          if obj = ''db'' \<and> isCalleeOfParent path then pushMethod name TargetCollection lc st
          else st
      | _ \<Rightarrow> st)"

definition diagMemberExpression :: "path \<Rightarrow> DiagState \<Rightarrow> DiagState" where
  "diagMemberExpression path st = diagCollectionMethod path (diagDbMember path st)"

subsection \<open>The visitor of object properties\<close>

text \<open>
  The loop that counts the object literals between the key and the array found by
  \<^verbatim>\<open>findParent\<close>. It compares the node of \<open>currentPath\<close> with that of \<open>parentArray\<close>; both
  are on the one chain of parent paths, where the nodes are the same exactly when the
  paths are.
\<close>

fun countDepth :: "path \<Rightarrow> path \<Rightarrow> nat \<Rightarrow> nat" where
  "countDepth [] parentArray depth = depth"
| "countDepth (p # anc) parentArray depth =
     (if p # anc = parentArray then depth
      else countDepth anc parentArray (if isObjectExpression (fst p) then depth + 1 else depth))"

definition accumulatorStages :: "string list" where
  "accumulatorStages =
     [''$group'', ''$project'', ''$addFields'', ''$set'', ''$bucket'', ''$bucketAuto'',
      ''$facet'', ''$setWindowFields'']"

definition isAccumulatorStage :: "node \<Rightarrow> bool" where
  "isAccumulatorStage n =
     (case n of
        ObjectProperty _ (Identifier _ stageName) _ \<Rightarrow> stageName \<in> set accumulatorStages
      | _ \<Rightarrow> False)"

definition operatorContext :: "path \<Rightarrow> OperatorContext" where
  "operatorContext path =
     (case findParent isArrayExpression path of
        Some parentArray \<Rightarrow>
          (let depth = countDepth path parentArray 0 in
           if depth = 1 then CtxStage
           else (case findParent isAccumulatorStage path of
                   Some stageContext \<Rightarrow> CtxAggregation
                 | None \<Rightarrow> CtxQuery))
      | None \<Rightarrow>
          (case findParent isObjectProperty path of
             Some parentProp \<Rightarrow> CtxQuery
           | None \<Rightarrow> CtxOther))"

definition fieldContext :: "path \<Rightarrow> FieldContext" where
  "fieldContext path =
     (case findParent isCallExpression path of
        Some ((CallExpression _ (MemberExpression _ _ (Identifier _ methodName) _) _, _) # _) \<Rightarrow>
          if methodName \<in> set [''find'', ''findOne''] then FieldFind
          else if methodName = ''aggregate'' then FieldAggregate
          else if methodName \<in> set [''update'', ''updateOne'', ''updateMany'', ''replaceOne'']
          then FieldUpdate
          else FieldOther
      | _ \<Rightarrow> FieldOther)"

definition diagObjectProperty :: "path \<Rightarrow> DiagState \<Rightarrow> DiagState" where
  "diagObjectProperty path st =
     (case fst (hd path) of
        ObjectProperty (Some lc) (Identifier _ keyName) _ \<Rightarrow>
          if startsWith keyName ''$'' then
            st\<lparr>references := (references st)\<lparr>operators := operators (references st) @
              [\<lparr>operator = keyName, op_location = location lc,
                op_context = operatorContext path\<rparr>]\<rparr>\<rparr>
          else
            st\<lparr>references := (references st)\<lparr>fieldRefs := fieldRefs (references st) @
              [\<lparr>fieldName = keyName, field_collectionName = currentCollection st,
                field_databaseName = currentDatabase st, field_location = location lc,
                field_context = fieldContext path\<rparr>]\<rparr>\<rparr>
      | _ \<Rightarrow> st)"

subsection \<open>The extraction\<close>

text \<open>Each of the three visitors fires on the nodes of its own type only.\<close>

definition enterDiag :: "path \<Rightarrow> DiagState \<Rightarrow> DiagState" where
  "enterDiag path st =
     diagObjectProperty path (diagMemberExpression path (diagCallExpression path st))"

definition parseASTForDiagnostics :: "(string \<Rightarrow> ast option) \<Rightarrow> string \<Rightarrow> DiagnosticReferences"
  where
  "parseASTForDiagnostics parse textFromEditor =
     (case parse textFromEditor of
        None \<Rightarrow> emptyReferences
      | Some ast \<Rightarrow>
          references (fold enterDiag (traversePaths ast)
            \<lparr>references = emptyReferences, currentDatabase = None, currentCollection = None\<rparr>))"

section \<open>Example texts and their trees\<close>

text \<open>
  The trees that \<^verbatim>\<open>@babel/parser\<close> (with \<^verbatim>\<open>sourceType: 'module'\<close>) returns for the
  one-line texts of the examples below, each headed by its text: the program node, its
  expression statements (a statement includes its semicolon) and their expressions, every
  node with its \<^verbatim>\<open>loc\<close>. A number is a \<^verbatim>\<open>NumericLiteral\<close>, a node kind of no interest
  to the visitor.
\<close>

text \<open>\<^verbatim>\<open>db.TRIGGER_CHARACTER\<close>\<close>

definition ast_db_dot :: ast where
  "ast_db_dot =
     File
       (Other ''Program'' (L 1 0 1 20)
          [ExpressionStatement (L 1 0 1 20)
              (MemberExpression (L 1 0 1 20)
                 (Identifier (L 1 0 1 2) ''db'')
                 (Identifier (L 1 3 1 20) ''TRIGGER_CHARACTER'') False)])"

text \<open>\<^verbatim>\<open>db.orders.aggregate([{$match: {TRIGGER_CHARACTERqty: {$gt: 5}}}])\<close>\<close>

definition ast_match_key :: ast where
  "ast_match_key =
     File
       (Other ''Program'' (L 1 0 1 65)
          [ExpressionStatement (L 1 0 1 65)
              (CallExpression (L 1 0 1 65)
                 (MemberExpression (L 1 0 1 19)
                    (MemberExpression (L 1 0 1 9)
                       (Identifier (L 1 0 1 2) ''db'')
                       (Identifier (L 1 3 1 9) ''orders'') False)
                    (Identifier (L 1 10 1 19) ''aggregate'') False)
                 [ArrayExpression (L 1 20 1 64)
                     [Some (ObjectExpression (L 1 21 1 63)
                         [ObjectProperty (L 1 22 1 62)
                             (Identifier (L 1 22 1 28) ''$match'')
                             (ObjectExpression (L 1 30 1 62)
                                [ObjectProperty (L 1 31 1 61)
                                    (Identifier (L 1 31 1 51) ''TRIGGER_CHARACTERqty'')
                                    (ObjectExpression (L 1 53 1 61)
                                       [ObjectProperty (L 1 54 1 60)
                                           (Identifier (L 1 54 1 57) ''$gt'')
                                           (Other ''NumericLiteral'' (L 1 59 1 60) [])])])])]])])"

text \<open>\<^verbatim>\<open>db.orders.aggregate([{$match: {qty: {$gt: TRIGGER_CHARACTER5}}}])\<close>\<close>

definition ast_match_value :: ast where
  "ast_match_value =
     File
       (Other ''Program'' (L 1 0 1 65)
          [ExpressionStatement (L 1 0 1 65)
              (CallExpression (L 1 0 1 65)
                 (MemberExpression (L 1 0 1 19)
                    (MemberExpression (L 1 0 1 9)
                       (Identifier (L 1 0 1 2) ''db'')
                       (Identifier (L 1 3 1 9) ''orders'') False)
                    (Identifier (L 1 10 1 19) ''aggregate'') False)
                 [ArrayExpression (L 1 20 1 64)
                     [Some (ObjectExpression (L 1 21 1 63)
                         [ObjectProperty (L 1 22 1 62)
                             (Identifier (L 1 22 1 28) ''$match'')
                             (ObjectExpression (L 1 30 1 62)
                                [ObjectProperty (L 1 31 1 61)
                                    (Identifier (L 1 31 1 34) ''qty'')
                                    (ObjectExpression (L 1 36 1 61)
                                       [ObjectProperty (L 1 37 1 60)
                                           (Identifier (L 1 37 1 40) ''$gt'')
                                           (Identifier (L 1 42 1 60) ''TRIGGER_CHARACTER5'')])])])]])])"

text \<open>\<^verbatim>\<open>db.orders.aggregate([{$match: {qty: {$gt: 5}}}])\<close>\<close>

definition ast_pipeline :: ast where
  "ast_pipeline =
     File
       (Other ''Program'' (L 1 0 1 48)
          [ExpressionStatement (L 1 0 1 48)
              (CallExpression (L 1 0 1 48)
                 (MemberExpression (L 1 0 1 19)
                    (MemberExpression (L 1 0 1 9)
                       (Identifier (L 1 0 1 2) ''db'')
                       (Identifier (L 1 3 1 9) ''orders'') False)
                    (Identifier (L 1 10 1 19) ''aggregate'') False)
                 [ArrayExpression (L 1 20 1 47)
                     [Some (ObjectExpression (L 1 21 1 46)
                         [ObjectProperty (L 1 22 1 45)
                             (Identifier (L 1 22 1 28) ''$match'')
                             (ObjectExpression (L 1 30 1 45)
                                [ObjectProperty (L 1 31 1 44)
                                    (Identifier (L 1 31 1 34) ''qty'')
                                    (ObjectExpression (L 1 36 1 44)
                                       [ObjectProperty (L 1 37 1 43)
                                           (Identifier (L 1 37 1 40) ''$gt'')
                                           (Other ''NumericLiteral'' (L 1 42 1 43) [])])])])]])])"

text \<open>\<^verbatim>\<open>use('a'); db.x.find(TRIGGER_CHARACTER); use('b'); db.y.find();\<close>\<close>

definition ast_use_between :: ast where
  "ast_use_between =
     File
       (Other ''Program'' (L 1 0 1 62)
          [ExpressionStatement (L 1 0 1 9)
              (CallExpression (L 1 0 1 8)
                 (Identifier (L 1 0 1 3) ''use'')
                 [StringLiteral (L 1 4 1 7) ''a'']),
           ExpressionStatement (L 1 10 1 39)
              (CallExpression (L 1 10 1 38)
                 (MemberExpression (L 1 10 1 19)
                    (MemberExpression (L 1 10 1 14)
                       (Identifier (L 1 10 1 12) ''db'')
                       (Identifier (L 1 13 1 14) ''x'') False)
                    (Identifier (L 1 15 1 19) ''find'') False)
                 [Identifier (L 1 20 1 37) ''TRIGGER_CHARACTER'']),
           ExpressionStatement (L 1 40 1 49)
              (CallExpression (L 1 40 1 48)
                 (Identifier (L 1 40 1 43) ''use'')
                 [StringLiteral (L 1 44 1 47) ''b'']),
           ExpressionStatement (L 1 50 1 62)
              (CallExpression (L 1 50 1 61)
                 (MemberExpression (L 1 50 1 59)
                    (MemberExpression (L 1 50 1 54)
                       (Identifier (L 1 50 1 52) ''db'')
                       (Identifier (L 1 53 1 54) ''y'') False)
                    (Identifier (L 1 55 1 59) ''find'') False) [])])"

text \<open>\<^verbatim>\<open>use('a'); db.x.find(); use('b'); db.y.find();TRIGGER_CHARACTER\<close>\<close>

definition ast_use_after :: ast where
  "ast_use_after =
     File
       (Other ''Program'' (L 1 0 1 62)
          [ExpressionStatement (L 1 0 1 9)
              (CallExpression (L 1 0 1 8)
                 (Identifier (L 1 0 1 3) ''use'')
                 [StringLiteral (L 1 4 1 7) ''a'']),
           ExpressionStatement (L 1 10 1 22)
              (CallExpression (L 1 10 1 21)
                 (MemberExpression (L 1 10 1 19)
                    (MemberExpression (L 1 10 1 14)
                       (Identifier (L 1 10 1 12) ''db'')
                       (Identifier (L 1 13 1 14) ''x'') False)
                    (Identifier (L 1 15 1 19) ''find'') False) []),
           ExpressionStatement (L 1 23 1 32)
              (CallExpression (L 1 23 1 31)
                 (Identifier (L 1 23 1 26) ''use'')
                 [StringLiteral (L 1 27 1 30) ''b'']),
           ExpressionStatement (L 1 33 1 45)
              (CallExpression (L 1 33 1 44)
                 (MemberExpression (L 1 33 1 42)
                    (MemberExpression (L 1 33 1 37)
                       (Identifier (L 1 33 1 35) ''db'')
                       (Identifier (L 1 36 1 37) ''y'') False)
                    (Identifier (L 1 38 1 42) ''find'') False) []),
           ExpressionStatement (L 1 45 1 62)
              (Identifier (L 1 45 1 62) ''TRIGGER_CHARACTER'')])"

text \<open>\<^verbatim>\<open>db['aTRIGGER_CHARACTER']\<close>\<close>

definition ast_db_string :: ast where
  "ast_db_string =
     File
       (Other ''Program'' (L 1 0 1 24)
          [ExpressionStatement (L 1 0 1 24)
              (MemberExpression (L 1 0 1 24)
                 (Identifier (L 1 0 1 2) ''db'')
                 (StringLiteral (L 1 3 1 23) ''aTRIGGER_CHARACTER'') True)])"

text \<open>\<^verbatim>\<open>use('aTRIGGER_CHARACTER')\<close>\<close>

definition ast_use_string :: ast where
  "ast_use_string =
     File
       (Other ''Program'' (L 1 0 1 25)
          [ExpressionStatement (L 1 0 1 25)
              (CallExpression (L 1 0 1 25)
                 (Identifier (L 1 0 1 3) ''use'')
                 [StringLiteral (L 1 4 1 24) ''aTRIGGER_CHARACTER''])])"

text \<open>\<^verbatim>\<open>db.getCollection('aTRIGGER_CHARACTER')\<close>\<close>

definition ast_getCollection :: ast where
  "ast_getCollection =
     File
       (Other ''Program'' (L 1 0 1 38)
          [ExpressionStatement (L 1 0 1 38)
              (CallExpression (L 1 0 1 38)
                 (MemberExpression (L 1 0 1 16)
                    (Identifier (L 1 0 1 2) ''db'')
                    (Identifier (L 1 3 1 16) ''getCollection'') False)
                 [StringLiteral (L 1 17 1 37) ''aTRIGGER_CHARACTER''])])"

text \<open>\<^verbatim>\<open>use('shop'); db.orders.find({status: 'A'})\<close>\<close>

definition ast_shop :: ast where
  "ast_shop =
     File
       (Other ''Program'' (L 1 0 1 42)
          [ExpressionStatement (L 1 0 1 12)
              (CallExpression (L 1 0 1 11)
                 (Identifier (L 1 0 1 3) ''use'')
                 [StringLiteral (L 1 4 1 10) ''shop'']),
           ExpressionStatement (L 1 13 1 42)
              (CallExpression (L 1 13 1 42)
                 (MemberExpression (L 1 13 1 27)
                    (MemberExpression (L 1 13 1 22)
                       (Identifier (L 1 13 1 15) ''db'')
                       (Identifier (L 1 16 1 22) ''orders'') False)
                    (Identifier (L 1 23 1 27) ''find'') False)
                 [ObjectExpression (L 1 28 1 41)
                     [ObjectProperty (L 1 29 1 40)
                         (Identifier (L 1 29 1 35) ''status'')
                         (StringLiteral (L 1 37 1 40) ''A'')]])])"

text \<open>\<^verbatim>\<open>db.runCommand()\<close>\<close>

definition ast_runCommand :: ast where
  "ast_runCommand =
     File
       (Other ''Program'' (L 1 0 1 15)
          [ExpressionStatement (L 1 0 1 15)
              (CallExpression (L 1 0 1 15)
                 (MemberExpression (L 1 0 1 13)
                    (Identifier (L 1 0 1 2) ''db'')
                    (Identifier (L 1 3 1 13) ''runCommand'') False) [])])"

text \<open>\<^verbatim>\<open>db['']\<close>\<close>

definition ast_db_empty :: ast where
  "ast_db_empty =
     File
       (Other ''Program'' (L 1 0 1 6)
          [ExpressionStatement (L 1 0 1 6)
              (MemberExpression (L 1 0 1 6)
                 (Identifier (L 1 0 1 2) ''db'')
                 (StringLiteral (L 1 3 1 5) '''') True)])"


text \<open>The path of the call \<^verbatim>\<open>db.getCollection('aTRIGGER_CHARACTER')\<close> in its tree: the
  third path entered, after those of the program and of the statement.\<close>

definition path_getCollection :: path where
  "path_getCollection = traversePaths ast_getCollection ! 2"

text \<open>The path of the member expression \<^verbatim>\<open>db.runCommand\<close> in the tree of
  \<^verbatim>\<open>db.runCommand()\<close>.\<close>

definition path_runCommand :: path where
  "path_runCommand =
     [(MemberExpression (L 1 0 1 13) (Identifier (L 1 0 1 2) ''db'')
         (Identifier (L 1 3 1 13) ''runCommand'') False, ''callee''),
      (CallExpression (L 1 0 1 15)
         (MemberExpression (L 1 0 1 13) (Identifier (L 1 0 1 2) ''db'')
            (Identifier (L 1 3 1 13) ''runCommand'') False) [], ''expression''),
      (ExpressionStatement (L 1 0 1 15)
         (CallExpression (L 1 0 1 15)
            (MemberExpression (L 1 0 1 13) (Identifier (L 1 0 1 2) ''db'')
               (Identifier (L 1 3 1 13) ''runCommand'') False) []), ''children''),
      (Other ''Program'' (L 1 0 1 15)
         [ExpressionStatement (L 1 0 1 15)
            (CallExpression (L 1 0 1 15)
               (MemberExpression (L 1 0 1 13) (Identifier (L 1 0 1 2) ''db'')
                  (Identifier (L 1 3 1 13) ''runCommand'') False) [])], ''program'')]"

text \<open>The text \<^verbatim>\<open>db['']\<close>, whose two adjacent quotes are written as characters.\<close>

definition text_db_empty :: string where
  "text_db_empty = ''db['' @ [CHR 0x27, CHR 0x27] @ '']''"

text \<open>An assignment is an \<^verbatim>\<open>AssignmentExpression\<close>, one more node kind of no interest to
  the visitor, with its left and right side below it.\<close>

text \<open>\<^verbatim>\<open>db.orders.aggregate([{$match: {qty: {TRIGGER_CHARACTER$gt: 5}}}])\<close>\<close>

definition ast_match_deep :: ast where
  "ast_match_deep =
     File
       (Other ''Program'' (L 1 0 1 65)
          [ExpressionStatement (L 1 0 1 65)
              (CallExpression (L 1 0 1 65)
                 (MemberExpression (L 1 0 1 19)
                    (MemberExpression (L 1 0 1 9)
                       (Identifier (L 1 0 1 2) ''db'')
                       (Identifier (L 1 3 1 9) ''orders'') False)
                    (Identifier (L 1 10 1 19) ''aggregate'') False)
                 [ArrayExpression (L 1 20 1 64)
                     [Some (ObjectExpression (L 1 21 1 63)
                         [ObjectProperty (L 1 22 1 62)
                             (Identifier (L 1 22 1 28) ''$match'')
                             (ObjectExpression (L 1 30 1 62)
                                [ObjectProperty (L 1 31 1 61)
                                    (Identifier (L 1 31 1 34) ''qty'')
                                    (ObjectExpression (L 1 36 1 61)
                                       [ObjectProperty (L 1 37 1 60)
                                           (Identifier (L 1 37 1 57) ''TRIGGER_CHARACTER$gt'')
                                           (Other ''NumericLiteral'' (L 1 59 1 60) [])])])])]])])"

text \<open>\<^verbatim>\<open>db.orders.aggregate([{'$match': {TRIGGER_CHARACTERqty: {$gt: 5}}}])\<close>\<close>

definition ast_match_quoted :: ast where
  "ast_match_quoted =
     File
       (Other ''Program'' (L 1 0 1 67)
          [ExpressionStatement (L 1 0 1 67)
              (CallExpression (L 1 0 1 67)
                 (MemberExpression (L 1 0 1 19)
                    (MemberExpression (L 1 0 1 9)
                       (Identifier (L 1 0 1 2) ''db'')
                       (Identifier (L 1 3 1 9) ''orders'') False)
                    (Identifier (L 1 10 1 19) ''aggregate'') False)
                 [ArrayExpression (L 1 20 1 66)
                     [Some (ObjectExpression (L 1 21 1 65)
                         [ObjectProperty (L 1 22 1 64)
                             (StringLiteral (L 1 22 1 30) ''$match'')
                             (ObjectExpression (L 1 32 1 64)
                                [ObjectProperty (L 1 33 1 63)
                                    (Identifier (L 1 33 1 53) ''TRIGGER_CHARACTERqty'')
                                    (ObjectExpression (L 1 55 1 63)
                                       [ObjectProperty (L 1 56 1 62)
                                           (Identifier (L 1 56 1 59) ''$gt'')
                                           (Other ''NumericLiteral'' (L 1 61 1 62) [])])])])]])])"

text \<open>\<^verbatim>\<open>db.c.aggregate([{$group: {total: {$sum: 1}}}])\<close>\<close>

definition ast_group :: ast where
  "ast_group =
     File
       (Other ''Program'' (L 1 0 1 46)
          [ExpressionStatement (L 1 0 1 46)
              (CallExpression (L 1 0 1 46)
                 (MemberExpression (L 1 0 1 14)
                    (MemberExpression (L 1 0 1 4)
                       (Identifier (L 1 0 1 2) ''db'')
                       (Identifier (L 1 3 1 4) ''c'') False)
                    (Identifier (L 1 5 1 14) ''aggregate'') False)
                 [ArrayExpression (L 1 15 1 45)
                     [Some (ObjectExpression (L 1 16 1 44)
                         [ObjectProperty (L 1 17 1 43)
                             (Identifier (L 1 17 1 23) ''$group'')
                             (ObjectExpression (L 1 25 1 43)
                                [ObjectProperty (L 1 26 1 42)
                                    (Identifier (L 1 26 1 31) ''total'')
                                    (ObjectExpression (L 1 33 1 42)
                                       [ObjectProperty (L 1 34 1 41)
                                           (Identifier (L 1 34 1 38) ''$sum'')
                                           (Other ''NumericLiteral'' (L 1 40 1 41) [])])])])]])])"

text \<open>\<^verbatim>\<open>db.c.aggregate([{'$group': {total: {$sum: 1}}}])\<close>\<close>

definition ast_group_quoted :: ast where
  "ast_group_quoted =
     File
       (Other ''Program'' (L 1 0 1 48)
          [ExpressionStatement (L 1 0 1 48)
              (CallExpression (L 1 0 1 48)
                 (MemberExpression (L 1 0 1 14)
                    (MemberExpression (L 1 0 1 4)
                       (Identifier (L 1 0 1 2) ''db'')
                       (Identifier (L 1 3 1 4) ''c'') False)
                    (Identifier (L 1 5 1 14) ''aggregate'') False)
                 [ArrayExpression (L 1 15 1 47)
                     [Some (ObjectExpression (L 1 16 1 46)
                         [ObjectProperty (L 1 17 1 45)
                             (StringLiteral (L 1 17 1 25) ''$group'')
                             (ObjectExpression (L 1 27 1 45)
                                [ObjectProperty (L 1 28 1 44)
                                    (Identifier (L 1 28 1 33) ''total'')
                                    (ObjectExpression (L 1 35 1 44)
                                       [ObjectProperty (L 1 36 1 43)
                                           (Identifier (L 1 36 1 40) ''$sum'')
                                           (Other ''NumericLiteral'' (L 1 42 1 43) [])])])])]])])"

text \<open>\<^verbatim>\<open>db.c.find({$where: 1, qty: {$gt: 5}})\<close>\<close>

definition ast_find_where :: ast where
  "ast_find_where =
     File
       (Other ''Program'' (L 1 0 1 37)
          [ExpressionStatement (L 1 0 1 37)
              (CallExpression (L 1 0 1 37)
                 (MemberExpression (L 1 0 1 9)
                    (MemberExpression (L 1 0 1 4)
                       (Identifier (L 1 0 1 2) ''db'')
                       (Identifier (L 1 3 1 4) ''c'') False)
                    (Identifier (L 1 5 1 9) ''find'') False)
                 [ObjectExpression (L 1 10 1 36)
                     [ObjectProperty (L 1 11 1 20)
                         (Identifier (L 1 11 1 17) ''$where'')
                         (Other ''NumericLiteral'' (L 1 19 1 20) []),
                      ObjectProperty (L 1 22 1 35)
                         (Identifier (L 1 22 1 25) ''qty'')
                         (ObjectExpression (L 1 27 1 35)
                            [ObjectProperty (L 1 28 1 34)
                                (Identifier (L 1 28 1 31) ''$gt'')
                                (Other ''NumericLiteral'' (L 1 33 1 34) [])])]])])"

text \<open>\<^verbatim>\<open>x = sp.aTRIGGER_CHARACTER\<close>\<close>

definition ast_assign_sp_member :: ast where
  "ast_assign_sp_member =
     File
       (Other ''Program'' (L 1 0 1 25)
          [ExpressionStatement (L 1 0 1 25)
              (Other ''AssignmentExpression'' (L 1 0 1 25)
                 [Identifier (L 1 0 1 1) ''x'',
                  MemberExpression (L 1 4 1 25)
                     (Identifier (L 1 4 1 6) ''sp'')
                     (Identifier (L 1 7 1 25) ''aTRIGGER_CHARACTER'') False])])"

text \<open>\<^verbatim>\<open>x = sp.getProcessor('aTRIGGER_CHARACTER')\<close>\<close>

definition ast_assign_sp_call :: ast where
  "ast_assign_sp_call =
     File
       (Other ''Program'' (L 1 0 1 41)
          [ExpressionStatement (L 1 0 1 41)
              (Other ''AssignmentExpression'' (L 1 0 1 41)
                 [Identifier (L 1 0 1 1) ''x'',
                  CallExpression (L 1 4 1 41)
                     (MemberExpression (L 1 4 1 19)
                        (Identifier (L 1 4 1 6) ''sp'')
                        (Identifier (L 1 7 1 19) ''getProcessor'') False)
                     [StringLiteral (L 1 20 1 40) ''aTRIGGER_CHARACTER'']])])"

text \<open>The paths of the member expression and of the call in the two assignments, and of
  the pipeline array in the tree with the cursor at the key \<^verbatim>\<open>$gt\<close>.\<close>

definition path_assign_sp_member :: path where
  "path_assign_sp_member = traversePaths ast_assign_sp_member ! 4"

definition path_assign_sp_call :: path where
  "path_assign_sp_call = traversePaths ast_assign_sp_call ! 4"

definition path_match_deep :: path where
  "path_match_deep = traversePaths ast_match_deep ! 8"

text \<open>
  A parser that knows the example texts only: it gives the tree of each, gives nothing on
  the one text of the table that is no program (an identifier followed by another
  expression, on which \<^verbatim>\<open>@babel/parser\<close> throws a \<^verbatim>\<open>SyntaxError\<close>), and fails on every
  other text.
\<close>

definition babelSamples :: "string \<Rightarrow> ast option" where
  "babelSamples textFromEditor =
     (case map_of
        [(''db.TRIGGER_CHARACTER'', Some ast_db_dot),
         (''db.orders.aggregate([{$match: {TRIGGER_CHARACTERqty: {$gt: 5}}}])'',
          Some ast_match_key),
         (''db.orders.aggregate([{$match: {qty: {TRIGGER_CHARACTER$gt: 5}}}])'',
          Some ast_match_deep),
         (''db.orders.aggregate([{$match: {qty: {$gt: TRIGGER_CHARACTER5}}}])'',
          Some ast_match_value),
         (''db.orders.aggregate([{'$match': {TRIGGER_CHARACTERqty: {$gt: 5}}}])'',
          Some ast_match_quoted),
         (''db.orders.aggregate([{$match: {qty: {$gt: 5}}}])'', Some ast_pipeline),
         (''db.c.aggregate([{$group: {total: {$sum: 1}}}])'', Some ast_group),
         (''db.c.aggregate([{'$group': {total: {$sum: 1}}}])'', Some ast_group_quoted),
         (''db.c.find({$where: 1, qty: {$gt: 5}})'', Some ast_find_where),
         (''use('a');TRIGGER_CHARACTER db.x.find(); use('b'); db.y.find();'', None),
         (''use('a'); db.x.find(TRIGGER_CHARACTER); use('b'); db.y.find();'',
          Some ast_use_between),
         (''use('a'); db.x.find(); use('b'); db.y.find();TRIGGER_CHARACTER'',
          Some ast_use_after),
         (''db['aTRIGGER_CHARACTER']'', Some ast_db_string),
         (''use('aTRIGGER_CHARACTER')'', Some ast_use_string),
         (''db.getCollection('aTRIGGER_CHARACTER')'', Some ast_getCollection),
         (''use('shop'); db.orders.find({status: 'A'})'', Some ast_shop),
         (''db.runCommand()'', Some ast_runCommand),
         (''x = sp.aTRIGGER_CHARACTER'', Some ast_assign_sp_member),
         (''x = sp.getProcessor('aTRIGGER_CHARACTER')'', Some ast_assign_sp_call),
         (text_db_empty, Some ast_db_empty)] textFromEditor of
        Some result \<Rightarrow> result
      | None \<Rightarrow> None)"

section \<open>Notions used in the statements\<close>

text \<open>The targets of the method references.\<close>

definition targetsDbOrCollection :: "DiagState \<Rightarrow> bool" where
  "targetsDbOrCollection st \<longleftrightarrow>
     (\<forall>m \<in> set (methods (references st)). target m = TargetDb \<or> target m = TargetCollection)"

text \<open>
  The classification of an operator key in the words of the specification. The enclosing
  nodes of a key are the nodes above its property. The nesting depth counts the object
  literals from the key up to, and not including, the nearest enclosing array.
\<close>

definition enclosing :: "path \<Rightarrow> node list" where
  "enclosing path = map fst (tl path)"

definition insideArray :: "path \<Rightarrow> bool" where
  "insideArray path \<longleftrightarrow>
     (\<exists>n \<in> set (enclosing path). case n of ArrayExpression _ _ \<Rightarrow> True | _ \<Rightarrow> False)"

definition hasEnclosingProperty :: "path \<Rightarrow> bool" where
  "hasEnclosingProperty path \<longleftrightarrow>
     (\<exists>n \<in> set (enclosing path). case n of ObjectProperty _ _ _ \<Rightarrow> True | _ \<Rightarrow> False)"

definition nestingDepth :: "path \<Rightarrow> nat" where
  "nestingDepth path =
     length (filter (\<lambda>n. case n of ObjectExpression _ _ \<Rightarrow> True | _ \<Rightarrow> False)
       (takeWhile (\<lambda>n. case n of ArrayExpression _ _ \<Rightarrow> False | _ \<Rightarrow> True) (map fst path)))"

definition accumulatorBearingStages :: "string set" where
  "accumulatorBearingStages =
     {''$group'', ''$project'', ''$addFields'', ''$set'', ''$bucket'', ''$bucketAuto'',
      ''$facet'', ''$setWindowFields''}"

text \<open>
  The key of an object property can be read in two ways: as the name that the property
  has, written as an identifier or as a string, or as the name of an identifier key only.
  The classification takes the reading as a parameter.
\<close>

definition propertyKeyNames :: "node \<Rightarrow> string list" where
  "propertyKeyNames n =
     (case n of
        ObjectProperty _ (Identifier _ name) _ \<Rightarrow> [name]
      | ObjectProperty _ (StringLiteral _ v) _ \<Rightarrow> [v]
      | _ \<Rightarrow> [])"

definition identifierKeyNames :: "node \<Rightarrow> string list" where
  "identifierKeyNames n =
     (case n of
        ObjectProperty _ (Identifier _ name) _ \<Rightarrow> [name]
      | _ \<Rightarrow> [])"

definition spec_operatorContext :: "(node \<Rightarrow> string list) \<Rightarrow> path \<Rightarrow> OperatorContext" where
  "spec_operatorContext keyNames path =
     (if insideArray path then
        (if nestingDepth path = 1 then CtxStage
         else if \<exists>n \<in> set (enclosing path). \<exists>k \<in> set (keyNames n). k \<in> accumulatorBearingStages
         then CtxAggregation
         else CtxQuery)
      else if hasEnclosingProperty path then CtxQuery
      else CtxOther)"

text \<open>The paths that give an operator reference: an object property with a location
  whose key is an identifier that starts with a dollar.\<close>

definition dollarPrefixed :: "string \<Rightarrow> bool" where
  "dollarPrefixed name \<longleftrightarrow> (case name of [] \<Rightarrow> False | c # _ \<Rightarrow> c = CHR ''$'')"

definition operatorKey :: "path \<Rightarrow> (string \<times> SourceLocation) option" where
  "operatorKey path =
     (case fst (hd path) of
        ObjectProperty (Some lc) (Identifier _ keyName) _ \<Rightarrow>
          if dollarPrefixed keyName then Some (keyName, lc) else None
      | _ \<Rightarrow> None)"

definition spec_operatorReferences ::
    "(node \<Rightarrow> string list) \<Rightarrow> path \<Rightarrow> OperatorReference list" where
  "spec_operatorReferences keyNames path =
     (case operatorKey path of
        None \<Rightarrow> []
      | Some (keyName, lc) \<Rightarrow>
          [\<lparr>operator = keyName, op_location = location lc,
            op_context = spec_operatorContext keyNames path\<rparr>])"

text \<open>
  The database name in the words of the specification: the argument of the last call, in
  visiting order, of \<^verbatim>\<open>use\<close> with a single string literal as argument whose end lies
  at or before the cursor.
\<close>

definition endsAtOrBefore :: "SourceLocation \<Rightarrow> Position \<Rightarrow> bool" where
  "endsAtOrBefore l cursor \<longleftrightarrow>
     int (end_line l) - 1 < int (line cursor) \<or>
     (int (end_line l) - 1 = int (line cursor) \<and> end_column l \<le> character cursor)"

definition useDatabaseName :: "Position \<Rightarrow> node \<Rightarrow> string option" where
  "useDatabaseName cursor n =
     (case n of
        CallExpression (Some l) (Identifier _ name) [StringLiteral _ v] \<Rightarrow>
          if name = ''use'' \<and> endsAtOrBefore l cursor then Some v else None
      | _ \<Rightarrow> None)"

definition spec_databaseName :: "Position \<Rightarrow> ast \<Rightarrow> string option" where
  "spec_databaseName cursor ast =
     (case List.map_filter (\<lambda>p. useDatabaseName cursor (fst (hd p))) (traversePaths ast) of
        [] \<Rightarrow> None
      | vs \<Rightarrow> Some (last vs))"

text \<open>
  The stage that holds the cursor, in the words of the specification. A name includes the
  placeholder when the placeholder is a contiguous part of it. A node holds a placeholder
  key when it is, or has at any depth below it, an object property whose key is an
  identifier that includes the placeholder. A property of an object element of an array
  names a stage that holds the cursor when its key is an identifier, its value an object
  literal, and a node below it holds a placeholder key. The candidates of a tree are the
  names of these properties, array by array.
\<close>

function holdsPlaceholderKey :: "node \<Rightarrow> bool" where
  "holdsPlaceholderKey n \<longleftrightarrow>
     (case n of
        ObjectProperty _ (Identifier _ name) _ \<Rightarrow> sublist PLACEHOLDER name
      | _ \<Rightarrow> False) \<or>
     (\<exists>c \<in> set (children n). holdsPlaceholderKey (fst c))"
  by pat_completeness auto
termination
  by (relation "measure size") (auto simp: children_size)

declare holdsPlaceholderKey.simps [simp del]

definition stageNames :: "node \<Rightarrow> string list" where
  "stageNames item =
     (case item of
        ObjectProperty _ (Identifier _ name) (ObjectExpression _ _) \<Rightarrow>
          if \<exists>c \<in> set (children item). holdsPlaceholderKey (fst c) then [name] else []
      | _ \<Rightarrow> [])"

definition arrayStageNames :: "node \<Rightarrow> string list" where
  "arrayStageNames n =
     (case n of
        ArrayExpression _ elements \<Rightarrow>
          concat (map (\<lambda>item. case item of
                                Some (ObjectExpression _ properties) \<Rightarrow>
                                  concat (map stageNames properties)
                              | _ \<Rightarrow> []) elements)
      | _ \<Rightarrow> [])"

definition stageCandidates :: "ast \<Rightarrow> string list" where
  "stageCandidates ast = concat (map (\<lambda>p. arrayStageNames (fst (hd p))) (traversePaths ast))"

text \<open>Two auxiliary notions of the proofs: writing the last of a list of names, if there
  is one, into the state, and the last of a list with a default.\<close>

definition setStage :: "string list \<Rightarrow> CompletionState \<Rightarrow> CompletionState" where
  "setStage ks st = (case ks of [] \<Rightarrow> st | _ \<Rightarrow> st\<lparr>stageOperator := Some (last ks)\<rparr>)"

definition lastOr :: "'a list \<Rightarrow> 'a option \<Rightarrow> 'a option" where
  "lastOr ks d = (case ks of [] \<Rightarrow> d | _ \<Rightarrow> Some (last ks))"

text \<open>No identifier of the tree includes the placeholder: the placeholder, which occurs
  once in the injected text, lies inside a string or a template literal.\<close>

function noIdentifierPlaceholder :: "node \<Rightarrow> bool" where
  "noIdentifierPlaceholder n \<longleftrightarrow>
     (case n of Identifier _ name \<Rightarrow> \<not> str_includes name PLACEHOLDER | _ \<Rightarrow> True) \<and>
     (\<forall>c \<in> set (children n). noIdentifierPlaceholder (fst c))"
  by pat_completeness auto
termination
  by (relation "measure size") (auto simp: children_size)

declare noIdentifierPlaceholder.simps [simp del]

text \<open>
  The forms that name a collection or a stream processor: the property access
  \<^verbatim>\<open>root.name\<close> and the computed access \<^verbatim>\<open>root['name']\<close>, and the call of the accessor
  with a single string literal or with a template literal of a single quasi.
\<close>

inductive accessForm :: "string \<Rightarrow> string \<Rightarrow> node \<Rightarrow> bool"
  for root name where
    member:
      "accessForm root name (MemberExpression l (Identifier ol root) (Identifier pl name) c)"
  | computed:
      "accessForm root name (MemberExpression l (Identifier ol root) (StringLiteral pl name) c)"

code_pred accessForm .

inductive accessorCallForm :: "string \<Rightarrow> string \<Rightarrow> string \<Rightarrow> node \<Rightarrow> bool"
  for root accessor name where
    call:
      "accessorCallForm root accessor name
         (CallExpression l
            (MemberExpression ml (Identifier ol root) (Identifier al accessor) c)
            [StringLiteral sl name])"
  | template:
      "accessorCallForm root accessor name
         (CallExpression l
            (MemberExpression ml (Identifier ol root) (Identifier al accessor) c)
            [TemplateLiteral ql [name] es])"

code_pred accessorCallForm .

definition namingForm :: "string \<Rightarrow> string \<Rightarrow> string \<Rightarrow> node \<Rightarrow> bool" where
  "namingForm root accessor name n \<longleftrightarrow>
     accessForm root name n \<or> accessorCallForm root accessor name n"

section \<open>The injected text\<close>

text \<open>Splitting into lines and joining them again gives the text back.\<close>

lemma split_lines_nonempty: "split_lines s \<noteq> []"
  by (induction s) (simp_all split: list.split)

lemma length_split_lines: "length (split_lines s) \<le> length s + 1"
  by (induction s) (auto split: list.split)

lemma join_split_lines: "join_lines (split_lines s) = s"
proof (induction s)
  case Nil
  then show ?case by simp
next
  case (Cons c cs)
  obtain l ls where ls: "split_lines cs = l # ls"
    using split_lines_nonempty [of cs] by (cases "split_lines cs") auto
  with Cons show ?case by (cases ls) auto
qed

lemma length_join_lines_snoc: "length xs + length l \<le> length (join_lines (xs @ [l]))"
proof (induction xs)
  case Nil
  then show ?case by simp
next
  case (Cons a xs)
  then show ?case by (cases xs) simp_all
qed

text \<open>
  With character 0 and a line beyond the text the placeholder is not always injected: a
  line that is no array index leaves the text as it is, and a line from \<open>2^29 - 24\<close> on
  that is an array index makes the joined text too long for a string. With another
  character a line beyond the text throws a \<^verbatim>\<open>TypeError\<close>, and this is the only way to
  one.
\<close>

lemma handleTriggerCharacter_not_an_index:
  assumes "character position = 0" and "4294967295 \<le> line position"
    and "length textFromEditor \<le> 536870888"
  shows "handleTriggerCharacter textFromEditor position = Inr textFromEditor"
proof -
  have "length (split_lines textFromEditor) \<le> line position"
    using length_split_lines [of textFromEditor] assms(2,3) by simp
  with assms show ?thesis
    by (simp add: handleTriggerCharacter_def newString_def maxStringLength_def
        join_split_lines)
qed

lemma handleTriggerCharacter_RangeError:
  assumes "character position = 0" and "length (split_lines textFromEditor) \<le> line position"
    and "536870888 \<le> line position" and "line position < 4294967295"
  shows "handleTriggerCharacter textFromEditor position = Inl RangeError"
proof -
  let ?ls = "split_lines textFromEditor @
    replicate (line position - length (split_lines textFromEditor)) []"
  have "length ?ls + length (PLACEHOLDER @ ''undefined'') \<le>
      length (join_lines (?ls @ [PLACEHOLDER @ ''undefined'']))"
    by (rule length_join_lines_snoc)
  moreover have "length ?ls = line position"
    using assms(2) by simp
  ultimately have "536870888 < length (join_lines (split_lines textFromEditor @
      replicate (line position - length (split_lines textFromEditor)) [] @
      [PLACEHOLDER @ ''undefined'']))"
    using assms(3) by (simp add: PLACEHOLDER_def)
  with assms show ?thesis
    by (simp add: handleTriggerCharacter_def newString_def maxStringLength_def)
qed

lemma handleTriggerCharacter_TypeError:
  "handleTriggerCharacter textFromEditor position = Inl TypeError \<longleftrightarrow>
   character position \<noteq> 0 \<and> length (split_lines textFromEditor) \<le> line position"
  by (auto simp: handleTriggerCharacter_def newString_def Let_def)

section \<open>Parse failure\<close>

lemma completion_parse_failure:
  assumes "handleTriggerCharacter textFromEditor position = Inr injected"
    and "parse injected = None"
  shows "parseASTForCompletion parse textFromEditor position = Inr getDefaultsForCompletion"
  using assms by (simp add: parseASTForCompletion_def parseAST_def)

lemma diagnostics_parse_failure:
  assumes "parse textFromEditor = None"
  shows "parseASTForDiagnostics parse textFromEditor = emptyReferences"
  using assms by (simp add: parseASTForDiagnostics_def)

text \<open>
  Claim C1. On a text that fails to parse both operations give their default result and
  never throw. The two lemmas above are the part that holds: once the text handed to the
  parser exists, a parse failure leaves the defaults, and the references are empty.
  \<^verbatim>\<open>parseASTForCompletion\<close> however throws before it parses when the line of the
  position lies beyond the text and the character is not 0: on the text \<^verbatim>\<open>db.\<close>, which
  is no program, at line 1, character 1, the caller gets a \<^verbatim>\<open>TypeError\<close>, whatever the
  parser does.
\<close>

theorem completion_throws_beyond_last_line:
  "parseASTForCompletion parse ''db.'' \<lparr>line = 1, character = 1\<rparr> = Inl TypeError"
proof -
  have "handleTriggerCharacter ''db.'' \<lparr>line = 1, character = 1\<rparr> = Inl TypeError"
    by code_simp
  then show ?thesis by (simp add: parseASTForCompletion_def)
qed

section \<open>The cursor after \<^verbatim>\<open>db.\<close>\<close>

lemma inject_db_dot:
  "handleTriggerCharacter ''db.'' \<lparr>line = 0, character = 3\<rparr> = Inr ''db.TRIGGER_CHARACTER''"
  by code_simp

lemma traverse_db_dot:
  "fold (enter \<lparr>sel_start = \<lparr>line = 0, character = 3\<rparr>, sel_end = \<lparr>line = 0, character = 0\<rparr>\<rparr>)
     (traversePaths ast_db_dot) getDefaultsForCompletion
   = getDefaultsForCompletion\<lparr>isDbSymbol := True, isCollectionName := True\<rparr>"
  by code_simp

lemma samples_db_dot: "babelSamples ''db.TRIGGER_CHARACTER'' = Some ast_db_dot"
  by code_simp

text \<open>
  Claim C5, as amended. For the text \<^verbatim>\<open>db.\<close> with the cursor at line 0, character 3,
  the parser sees \<^verbatim>\<open>db.TRIGGER_CHARACTER\<close>; on its tree the resolver returns the default
  state with \<open>isDbSymbol\<close> and \<open>isCollectionName\<close> set: \<open>collectionName\<close> is absent
  and \<open>isCollectionSymbol\<close> is false.
\<close>

theorem db_dot_names_collection:
  assumes "parse ''db.TRIGGER_CHARACTER'' = Some ast_db_dot"
  shows "parseASTForCompletion parse ''db.'' \<lparr>line = 0, character = 3\<rparr> =
    Inr (getDefaultsForCompletion\<lparr>isDbSymbol := True, isCollectionName := True\<rparr>)"
  using assms by (simp add: parseASTForCompletion_def parseAST_def inject_db_dot traverse_db_dot)

theorem db_dot_names_collection_witness:
  "parseASTForCompletion babelSamples ''db.'' \<lparr>line = 0, character = 3\<rparr> =
    Inr (getDefaultsForCompletion\<lparr>isDbSymbol := True, isCollectionName := True\<rparr>)"
  using db_dot_names_collection [of babelSamples] samples_db_dot by simp

text \<open>Claim C5 as stated asks for \<open>isCollectionSymbol = true\<close>; the call returns a state in
  which it is false.\<close>

theorem db_dot_isCollectionSymbol_counterexample:
  "map_sum id isCollectionSymbol
     (parseASTForCompletion babelSamples ''db.'' \<lparr>line = 0, character = 3\<rparr>) = Inr False"
proof -
  have "parseASTForCompletion babelSamples ''db.'' \<lparr>line = 0, character = 3\<rparr> =
      Inr (getDefaultsForCompletion\<lparr>isDbSymbol := True, isCollectionName := True\<rparr>)"
    by (simp add: parseASTForCompletion_def parseAST_def inject_db_dot traverse_db_dot
          samples_db_dot)
  then show ?thesis by (simp add: getDefaultsForCompletion_def)
qed

section \<open>The example of a namespace switch followed by a query\<close>

lemma samples_shop: "babelSamples ''use('shop'); db.orders.find({status: 'A'})'' = Some ast_shop"
  by code_simp

lemma traverse_shop:
  "references (fold enterDiag (traversePaths ast_shop)
     \<lparr>references = emptyReferences, currentDatabase = None, currentCollection = None\<rparr>)
   = \<lparr>collections =
        [\<lparr>coll_collectionName = ''orders'', coll_databaseName = Some ''shop'',
          coll_location = \<lparr>loc_start_line = 0, loc_start_character = 13,
                           loc_end_line = 0, loc_end_character = 22\<rparr>\<rparr>],
      fieldRefs =
        [\<lparr>fieldName = ''status'', field_collectionName = Some ''orders'',
          field_databaseName = Some ''shop'',
          field_location = \<lparr>loc_start_line = 0, loc_start_character = 29,
                            loc_end_line = 0, loc_end_character = 40\<rparr>,
          field_context = FieldFind\<rparr>],
      operators = [],
      methods =
        [\<lparr>method_name = ''find'', target = TargetCollection,
          method_location = \<lparr>loc_start_line = 0, loc_start_character = 13,
                             loc_end_line = 0, loc_end_character = 27\<rparr>\<rparr>],
      refs_databaseName = Some ''shop''\<rparr>"
  by code_simp

lemma field_reference_at_visit:
  assumes "fst (hd p) = ObjectProperty (Some lc) (Identifier kl keyName) v"
    and "\<not> startsWith keyName ''$''"
  shows "fieldRefs (references (enterDiag p st)) = fieldRefs (references st) @
           [\<lparr>fieldName = keyName, field_collectionName = currentCollection st,
             field_databaseName = currentDatabase st, field_location = location lc,
             field_context = fieldContext p\<rparr>]"
  using assms
  by (simp add: enterDiag_def diagObjectProperty_def diagMemberExpression_def
        diagCollectionMethod_def diagDbMember_def diagCallExpression_def)

text \<open>
  Claim C8. For the document \<^verbatim>\<open>use('shop'); db.orders.find({status: 'A'})\<close> the
  extraction returns exactly one collection reference (\<^verbatim>\<open>orders\<close> in \<^verbatim>\<open>shop\<close>), one
  field reference (\<^verbatim>\<open>status\<close>, context find, collection \<^verbatim>\<open>orders\<close>, database
  \<^verbatim>\<open>shop\<close>), one method reference (\<^verbatim>\<open>find\<close> on a collection) and no operator. A field
  record takes the current database and collection from the state in which its node is
  entered.
\<close>

theorem extract_use_then_find:
  assumes "parse ''use('shop'); db.orders.find({status: 'A'})'' = Some ast_shop"
  shows "parseASTForDiagnostics parse ''use('shop'); db.orders.find({status: 'A'})'' =
    \<lparr>collections =
        [\<lparr>coll_collectionName = ''orders'', coll_databaseName = Some ''shop'',
          coll_location = \<lparr>loc_start_line = 0, loc_start_character = 13,
                           loc_end_line = 0, loc_end_character = 22\<rparr>\<rparr>],
      fieldRefs =
        [\<lparr>fieldName = ''status'', field_collectionName = Some ''orders'',
          field_databaseName = Some ''shop'',
          field_location = \<lparr>loc_start_line = 0, loc_start_character = 29,
                            loc_end_line = 0, loc_end_character = 40\<rparr>,
          field_context = FieldFind\<rparr>],
      operators = [],
      methods =
        [\<lparr>method_name = ''find'', target = TargetCollection,
          method_location = \<lparr>loc_start_line = 0, loc_start_character = 13,
                             loc_end_line = 0, loc_end_character = 27\<rparr>\<rparr>],
      refs_databaseName = Some ''shop''\<rparr>
    \<and> (fst (hd p) = ObjectProperty (Some lc) (Identifier kl keyName) v \<and>
         \<not> startsWith keyName ''$'' \<longrightarrow>
       fieldRefs (references (enterDiag p st)) = fieldRefs (references st) @
         [\<lparr>fieldName = keyName, field_collectionName = currentCollection st,
           field_databaseName = currentDatabase st, field_location = location lc,
           field_context = fieldContext p\<rparr>])"
  using assms
  by (simp add: parseASTForDiagnostics_def traverse_shop field_reference_at_visit)

theorem extract_use_then_find_witness:
  "parseASTForDiagnostics babelSamples ''use('shop'); db.orders.find({status: 'A'})'' =
    \<lparr>collections =
        [\<lparr>coll_collectionName = ''orders'', coll_databaseName = Some ''shop'',
          coll_location = \<lparr>loc_start_line = 0, loc_start_character = 13,
                           loc_end_line = 0, loc_end_character = 22\<rparr>\<rparr>],
      fieldRefs =
        [\<lparr>fieldName = ''status'', field_collectionName = Some ''orders'',
          field_databaseName = Some ''shop'',
          field_location = \<lparr>loc_start_line = 0, loc_start_character = 29,
                            loc_end_line = 0, loc_end_character = 40\<rparr>,
          field_context = FieldFind\<rparr>],
      operators = [],
      methods =
        [\<lparr>method_name = ''find'', target = TargetCollection,
          method_location = \<lparr>loc_start_line = 0, loc_start_character = 13,
                             loc_end_line = 0, loc_end_character = 27\<rparr>\<rparr>],
      refs_databaseName = Some ''shop''\<rparr>
    \<and> fieldRefs (references (enterDiag
          [(ObjectProperty (L 1 29 1 40) (Identifier (L 1 29 1 35) ''status'')
              (StringLiteral (L 1 37 1 40) ''A''), ''properties'')]
          \<lparr>references = emptyReferences, currentDatabase = Some ''shop'',
            currentCollection = Some ''orders''\<rparr>)) =
        [\<lparr>fieldName = ''status'', field_collectionName = Some ''orders'',
          field_databaseName = Some ''shop'',
          field_location = \<lparr>loc_start_line = 0, loc_start_character = 29,
                            loc_end_line = 0, loc_end_character = 40\<rparr>,
          field_context = FieldOther\<rparr>]"
proof -
  have ctx: "fieldContext [x] = FieldOther" for x
    by (simp add: fieldContext_def)
  show ?thesis
    using extract_use_then_find [of babelSamples
        "[(ObjectProperty (L 1 29 1 40) (Identifier (L 1 29 1 35) ''status'')
            (StringLiteral (L 1 37 1 40) ''A''), ''properties'')]"
        "\<lparr>start_line = 1, start_column = 29, end_line = 1, end_column = 40\<rparr>"
        "L 1 29 1 35" "''status''" "StringLiteral (L 1 37 1 40) ''A''"
        "\<lparr>references = emptyReferences, currentDatabase = Some ''shop'',
            currentCollection = Some ''orders''\<rparr>"]
      samples_shop
    by (simp add: L_def ctx emptyReferences_def location_def)
qed

section \<open>What each visitor of the extraction changes\<close>

lemma diagCallExpression_frame [simp]:
  "collections (references (diagCallExpression p st)) = collections (references st)"
  "fieldRefs (references (diagCallExpression p st)) = fieldRefs (references st)"
  "operators (references (diagCallExpression p st)) = operators (references st)"
  "methods (references (diagCallExpression p st)) = methods (references st)"
  "currentCollection (diagCallExpression p st) = currentCollection st"
  by (simp_all add: diagCallExpression_def split: node.split list.split)

lemma diagObjectProperty_frame [simp]:
  "collections (references (diagObjectProperty p st)) = collections (references st)"
  "methods (references (diagObjectProperty p st)) = methods (references st)"
  "currentCollection (diagObjectProperty p st) = currentCollection st"
  "currentDatabase (diagObjectProperty p st) = currentDatabase st"
  by (simp_all add: diagObjectProperty_def split: node.split option.split)

lemma pushMethod_frame [simp]:
  "collections (references (pushMethod name tgt l st)) = collections (references st)"
  "fieldRefs (references (pushMethod name tgt l st)) = fieldRefs (references st)"
  "operators (references (pushMethod name tgt l st)) = operators (references st)"
  "methods (references (pushMethod name tgt l st)) = methods (references st) @
     [\<lparr>method_name = name, target = tgt, method_location = location l\<rparr>]"
  "currentCollection (pushMethod name tgt l st) = currentCollection st"
  "currentDatabase (pushMethod name tgt l st) = currentDatabase st"
  by (simp_all add: pushMethod_def)

lemma pushCollection_frame [simp]:
  "collections (references (pushCollection name l st)) = collections (references st) @
     [\<lparr>coll_collectionName = name, coll_databaseName = currentDatabase st,
       coll_location = location l\<rparr>]"
  "fieldRefs (references (pushCollection name l st)) = fieldRefs (references st)"
  "operators (references (pushCollection name l st)) = operators (references st)"
  "methods (references (pushCollection name l st)) = methods (references st)"
  "currentCollection (pushCollection name l st) = Some name"
  "currentDatabase (pushCollection name l st) = currentDatabase st"
  by (simp_all add: pushCollection_def)

lemma diagCollectionMethod_frame [simp]:
  "collections (references (diagCollectionMethod p st)) = collections (references st)"
  "fieldRefs (references (diagCollectionMethod p st)) = fieldRefs (references st)"
  "operators (references (diagCollectionMethod p st)) = operators (references st)"
  "currentCollection (diagCollectionMethod p st) = currentCollection st"
  "currentDatabase (diagCollectionMethod p st) = currentDatabase st"
  by (simp_all add: diagCollectionMethod_def split: node.split option.split)

lemma diagDbMember_frame [simp]:
  "fieldRefs (references (diagDbMember p st)) = fieldRefs (references st)"
  "operators (references (diagDbMember p st)) = operators (references st)"
  "currentDatabase (diagDbMember p st) = currentDatabase st"
  by (simp_all add: diagDbMember_def Let_def split: node.split option.split)


lemma diagCollectionMethod_targets:
  "targetsDbOrCollection st \<Longrightarrow> targetsDbOrCollection (diagCollectionMethod p st)"
  by (auto simp: targetsDbOrCollection_def diagCollectionMethod_def
      split: node.split option.split)

lemma diagDbMember_targets:
  "targetsDbOrCollection st \<Longrightarrow> targetsDbOrCollection (diagDbMember p st)"
  by (auto simp: targetsDbOrCollection_def diagDbMember_def Let_def
      split: node.split option.split)

lemma enterDiag_targets:
  "targetsDbOrCollection st \<Longrightarrow> targetsDbOrCollection (enterDiag p st)"
proof -
  assume "targetsDbOrCollection st"
  then have "targetsDbOrCollection (diagCallExpression p st)"
    by (simp add: targetsDbOrCollection_def)
  then have "targetsDbOrCollection (diagMemberExpression p (diagCallExpression p st))"
    unfolding diagMemberExpression_def
    by (intro diagCollectionMethod_targets diagDbMember_targets)
  then show ?thesis
    by (simp add: targetsDbOrCollection_def enterDiag_def)
qed

lemma fold_enterDiag_targets:
  "targetsDbOrCollection st \<Longrightarrow> targetsDbOrCollection (fold enterDiag ps st)"
  by (induction ps arbitrary: st) (simp_all add: enterDiag_targets)

text \<open>
  Claim C9. Every method reference that the extraction returns has the target \<open>db\<close> or
  the target \<open>collection\<close>, on every text and whatever the parser returns for it; the
  targets \<open>cursor\<close> and \<open>other\<close> of the type are never produced.
\<close>

theorem method_targets_db_or_collection:
  "\<forall>m \<in> set (methods (parseASTForDiagnostics parse textFromEditor)).
     target m = TargetDb \<or> target m = TargetCollection"
proof (cases "parse textFromEditor")
  case None
  then show ?thesis by (simp add: parseASTForDiagnostics_def emptyReferences_def)
next
  case (Some ast)
  have "targetsDbOrCollection
      \<lparr>references = emptyReferences, currentDatabase = None, currentCollection = None\<rparr>"
    by (simp add: targetsDbOrCollection_def emptyReferences_def)
  from fold_enterDiag_targets [OF this, of "traversePaths ast"] Some show ?thesis
    by (simp add: parseASTForDiagnostics_def targetsDbOrCollection_def)
qed

lemma samples_runCommand: "babelSamples ''db.runCommand()'' = Some ast_runCommand"
  by code_simp

lemma traverse_runCommand:
  "references (fold enterDiag (traversePaths ast_runCommand)
     \<lparr>references = emptyReferences, currentDatabase = None, currentCollection = None\<rparr>)
   = \<lparr>collections =
        [\<lparr>coll_collectionName = ''runCommand'', coll_databaseName = None,
          coll_location = \<lparr>loc_start_line = 0, loc_start_character = 0,
                           loc_end_line = 0, loc_end_character = 13\<rparr>\<rparr>],
      fieldRefs = [], operators = [],
      methods =
        [\<lparr>method_name = ''runCommand'', target = TargetDb,
          method_location = \<lparr>loc_start_line = 0, loc_start_character = 0,
                             loc_end_line = 0, loc_end_character = 13\<rparr>\<rparr>],
      refs_databaseName = None\<rparr>"
  by code_simp

theorem method_targets_db_or_collection_witness:
  "methods (parseASTForDiagnostics babelSamples ''db.runCommand()'') \<noteq> [] \<and>
   (target (hd (methods (parseASTForDiagnostics babelSamples ''db.runCommand()''))) = TargetDb \<or>
    target (hd (methods (parseASTForDiagnostics babelSamples ''db.runCommand()''))) =
      TargetCollection)"
proof -
  have ne: "methods (parseASTForDiagnostics babelSamples ''db.runCommand()'') \<noteq> []"
    by (simp add: parseASTForDiagnostics_def samples_runCommand traverse_runCommand)
  then have "hd (methods (parseASTForDiagnostics babelSamples ''db.runCommand()''))
      \<in> set (methods (parseASTForDiagnostics babelSamples ''db.runCommand()''))"
    by simp
  with method_targets_db_or_collection [of babelSamples "''db.runCommand()''"] ne
  show ?thesis by blast
qed

section \<open>Parent paths\<close>

lemma paths_nonempty: "p \<in> set (paths anc c) \<Longrightarrow> p \<noteq> []"
proof (induction anc c arbitrary: p rule: paths.induct)
  case (1 anc n k)
  then show ?case by (subst (asm) paths.simps) auto
qed

lemma traversePaths_nonempty: "p \<in> set (traversePaths ast) \<Longrightarrow> p \<noteq> []"
  by (cases ast) (auto dest: paths_nonempty)

lemma findParent_None:
  "findParent cb p = None \<longleftrightarrow> (\<forall>q \<in> set (tl p). \<not> cb (fst q))"
  by (induction cb p rule: findParent.induct) auto

lemma findParent_Some:
  "findParent cb p = Some pa \<Longrightarrow>
     \<exists>pre. tl p = pre @ pa \<and> pa \<noteq> [] \<and> cb (fst (hd pa)) \<and> (\<forall>q \<in> set pre. \<not> cb (fst q))"
proof (induction cb p rule: findParent.induct)
  case (3 cb p q anc)
  show ?case
  proof (cases "cb (fst q)")
    case True
    with 3 show ?thesis by auto
  next
    case False
    with 3 obtain pre where "tl (q # anc) = pre @ pa" "pa \<noteq> []" "cb (fst (hd pa))"
      "\<forall>q \<in> set pre. \<not> cb (fst q)" by auto
    with False show ?thesis by (intro exI[of _ "q # pre"]) auto
  qed
qed auto

lemma countDepth_prefix:
  "pa \<noteq> [] \<Longrightarrow> countDepth (pre @ pa) pa d =
     d + length (filter (\<lambda>p. isObjectExpression (fst p)) pre)"
  by (induction pre arbitrary: d) (cases pa; simp)+

section \<open>The context of an operator\<close>

lemma kind_tests:
  "(case n of ArrayExpression _ _ \<Rightarrow> True | _ \<Rightarrow> False) = isArrayExpression n"
  "(case n of ArrayExpression _ _ \<Rightarrow> False | _ \<Rightarrow> True) = (\<not> isArrayExpression n)"
  "(case n of ObjectExpression _ _ \<Rightarrow> True | _ \<Rightarrow> False) = isObjectExpression n"
  "(case n of ObjectProperty _ _ _ \<Rightarrow> True | _ \<Rightarrow> False) = isObjectProperty n"
  by (cases n; simp)+

lemma isAccumulatorStage_keys:
  "isAccumulatorStage n \<longleftrightarrow> (\<exists>k \<in> set (identifierKeyNames n). k \<in> accumulatorBearingStages)"
  by (simp add: isAccumulatorStage_def identifierKeyNames_def accumulatorStages_def
      accumulatorBearingStages_def split: node.split)

lemma startsWith_dollar: "startsWith name ''$'' = dollarPrefixed name"
  by (cases name) (simp_all add: dollarPrefixed_def)

lemma nestingDepth_alt:
  "nestingDepth path =
     length (filter (\<lambda>p. isObjectExpression (fst p))
       (takeWhile (\<lambda>p. \<not> isArrayExpression (fst p)) path))"
  by (simp add: nestingDepth_def kind_tests takeWhile_map filter_map comp_def)

lemma spec_operatorContext_alt:
  "spec_operatorContext identifierKeyNames path =
     (if \<exists>a \<in> set (tl path). isArrayExpression (fst a) then
        (if nestingDepth path = 1 then CtxStage
         else if \<exists>q \<in> set (tl path). isAccumulatorStage (fst q) then CtxAggregation
         else CtxQuery)
      else if \<exists>q \<in> set (tl path). isObjectProperty (fst q) then CtxQuery
      else CtxOther)"
  by (simp add: spec_operatorContext_def insideArray_def hasEnclosingProperty_def
      enclosing_def kind_tests isAccumulatorStage_keys)

lemma operatorContext_spec:
  assumes "p \<noteq> []" and "\<not> isArrayExpression (fst (hd p))"
  shows "operatorContext p = spec_operatorContext identifierKeyNames p"
proof (cases "findParent isArrayExpression p")
  case None
  then have noarr: "\<forall>q \<in> set (tl p). \<not> isArrayExpression (fst q)"
    by (simp add: findParent_None)
  show ?thesis
  proof (cases "findParent isObjectProperty p")
    case None
    then have "\<forall>q \<in> set (tl p). \<not> isObjectProperty (fst q)"
      by (simp add: findParent_None)
    with None \<open>findParent isArrayExpression p = None\<close> noarr show ?thesis
      by (simp add: operatorContext_def spec_operatorContext_alt)
  next
    case (Some a)
    then have "\<not> (\<forall>q \<in> set (tl p). \<not> isObjectProperty (fst q))"
      using findParent_None[of isObjectProperty p] by simp
    with Some \<open>findParent isArrayExpression p = None\<close> noarr show ?thesis
      by (simp add: operatorContext_def spec_operatorContext_alt)
  qed
next
  case (Some pa)
  from findParent_Some[OF this] obtain pre where pre: "tl p = pre @ pa" "pa \<noteq> []"
    "isArrayExpression (fst (hd pa))" "\<forall>q \<in> set pre. \<not> isArrayExpression (fst q)" by blast
  from assms obtain h where p: "p = h # pre @ pa" "\<not> isArrayExpression (fst h)"
    using pre(1) by (cases p) auto
  obtain a rest where pa: "pa = a # rest" "isArrayExpression (fst a)"
    using pre(2,3) by (cases pa) auto
  have depth: "countDepth p pa 0 = nestingDepth p"
    using countDepth_prefix[OF pre(2), of "h # pre" 0] p pre(4) pa
    by (simp add: nestingDepth_alt takeWhile_append2)
  have ex: "\<exists>a \<in> set (tl p). isArrayExpression (fst a)"
    using p pa by auto
  show ?thesis
  proof (cases "findParent isAccumulatorStage p")
    case None
    then have "\<not> (\<exists>q \<in> set (tl p). isAccumulatorStage (fst q))"
      by (simp add: findParent_None)
    with None Some depth ex show ?thesis
      by (simp add: operatorContext_def spec_operatorContext_alt)
  next
    case (Some s)
    then have "\<exists>q \<in> set (tl p). isAccumulatorStage (fst q)"
      using findParent_None[of isAccumulatorStage p] by auto
    with Some \<open>findParent isArrayExpression p = Some pa\<close> depth ex show ?thesis
      by (simp add: operatorContext_def spec_operatorContext_alt)
  qed
qed

lemma operatorKey_not_array:
  "operatorKey p = Some kl \<Longrightarrow> \<not> isArrayExpression (fst (hd p))"
  by (auto simp: operatorKey_def split: node.splits option.splits if_splits)

lemma diagObjectProperty_operators:
  "operators (references (diagObjectProperty p st)) =
     operators (references st) @
       (case operatorKey p of
          None \<Rightarrow> []
        | Some (keyName, lc) \<Rightarrow>
            [\<lparr>operator = keyName, op_location = location lc, op_context = operatorContext p\<rparr>])"
  by (simp add: diagObjectProperty_def operatorKey_def startsWith_dollar
      split: node.split option.split)

lemma enterDiag_operators:
  "operators (references (enterDiag p st)) =
     operators (references st) @
       (case operatorKey p of
          None \<Rightarrow> []
        | Some (keyName, lc) \<Rightarrow>
            [\<lparr>operator = keyName, op_location = location lc, op_context = operatorContext p\<rparr>])"
  by (simp add: enterDiag_def diagObjectProperty_operators diagMemberExpression_def)

lemma enterDiag_operators_spec:
  assumes "p \<noteq> []"
  shows "operators (references (enterDiag p st)) =
     operators (references st) @ spec_operatorReferences identifierKeyNames p"
proof (cases "operatorKey p")
  case None
  then show ?thesis by (simp add: enterDiag_operators spec_operatorReferences_def)
next
  case (Some kl)
  from operatorKey_not_array[OF this] assms
  have "operatorContext p = spec_operatorContext identifierKeyNames p"
    by (rule operatorContext_spec[rotated])
  with Some show ?thesis
    by (simp add: enterDiag_operators spec_operatorReferences_def split: prod.split)
qed

lemma fold_enterDiag_operators:
  assumes "\<forall>p \<in> set ps. p \<noteq> []"
  shows "operators (references (fold enterDiag ps st)) =
     operators (references st) @ concat (map (spec_operatorReferences identifierKeyNames) ps)"
  using assms by (induction ps arbitrary: st) (simp_all add: enterDiag_operators_spec)

lemma samples_pipeline:
  "babelSamples ''db.orders.aggregate([{$match: {qty: {$gt: 5}}}])'' = Some ast_pipeline"
  by code_simp

lemma samples_group:
  "babelSamples ''db.c.aggregate([{$group: {total: {$sum: 1}}}])'' = Some ast_group"
  by code_simp

lemma samples_group_quoted:
  "babelSamples ''db.c.aggregate([{'$group': {total: {$sum: 1}}}])'' = Some ast_group_quoted"
  by code_simp

lemma samples_find_where:
  "babelSamples ''db.c.find({$where: 1, qty: {$gt: 5}})'' = Some ast_find_where"
  by code_simp

lemma traverse_pipeline:
  "map (\<lambda>r. (operator r, op_context r))
     (operators (references (fold enterDiag (traversePaths ast_pipeline)
        \<lparr>references = emptyReferences, currentDatabase = None, currentCollection = None\<rparr>)))
   = [(''$match'', CtxStage), (''$gt'', CtxQuery)]"
  by code_simp

lemma spec_group:
  "map (\<lambda>r. (operator r, op_context r))
     (concat (map (spec_operatorReferences identifierKeyNames) (traversePaths ast_group)))
   = [(''$group'', CtxStage), (''$sum'', CtxAggregation)]"
  by code_simp

lemma spec_find_where:
  "map (\<lambda>r. (operator r, op_context r))
     (concat (map (spec_operatorReferences identifierKeyNames) (traversePaths ast_find_where)))
   = [(''$where'', CtxOther), (''$gt'', CtxQuery)]"
  by code_simp

text \<open>
  Claim C3, as amended. The operator references of a text are those of its dollar-prefixed
  identifier keys in visiting order, each classified by its nesting depth below the
  nearest enclosing array: \<open>stage\<close> at depth exactly 1; otherwise \<open>aggregation\<close> when
  some enclosing object property has an identifier as key that is one of the
  accumulator-bearing stages, and \<open>query\<close> when none has; outside every array \<open>query\<close>
  below an object property and \<open>other\<close> without one. (Depth 0, a key of an object
  pattern directly in an array, goes the way of a depth above 1.) In
  \<^verbatim>\<open>db.orders.aggregate([{$match: {qty: {$gt: 5}}}])\<close> the key \<^verbatim>\<open>$match\<close> is a stage and
  \<^verbatim>\<open>$gt\<close> a query operator.
\<close>

theorem operator_context_by_depth:
  "(parse textFromEditor = Some ast \<longrightarrow>
      operators (parseASTForDiagnostics parse textFromEditor) =
        concat (map (spec_operatorReferences identifierKeyNames) (traversePaths ast)))
   \<and> (parse ''db.orders.aggregate([{$match: {qty: {$gt: 5}}}])'' = Some ast_pipeline \<longrightarrow>
      map (\<lambda>r. (operator r, op_context r))
        (operators (parseASTForDiagnostics parse
           ''db.orders.aggregate([{$match: {qty: {$gt: 5}}}])'')) =
        [(''$match'', CtxStage), (''$gt'', CtxQuery)])"
proof (intro conjI impI)
  assume "parse textFromEditor = Some ast"
  moreover have "\<forall>p \<in> set (traversePaths ast). p \<noteq> []"
    by (simp add: traversePaths_nonempty)
  ultimately show "operators (parseASTForDiagnostics parse textFromEditor) =
      concat (map (spec_operatorReferences identifierKeyNames) (traversePaths ast))"
    by (simp add: parseASTForDiagnostics_def fold_enterDiag_operators emptyReferences_def)
next
  assume "parse ''db.orders.aggregate([{$match: {qty: {$gt: 5}}}])'' = Some ast_pipeline"
  then show "map (\<lambda>r. (operator r, op_context r))
      (operators (parseASTForDiagnostics parse
         ''db.orders.aggregate([{$match: {qty: {$gt: 5}}}])'')) =
      [(''$match'', CtxStage), (''$gt'', CtxQuery)]"
    by (simp add: parseASTForDiagnostics_def traverse_pipeline)
qed

theorem operator_context_by_depth_witness:
  "map (\<lambda>r. (operator r, op_context r))
     (operators (parseASTForDiagnostics babelSamples
        ''db.orders.aggregate([{$match: {qty: {$gt: 5}}}])'')) =
     [(''$match'', CtxStage), (''$gt'', CtxQuery)]
   \<and> map (\<lambda>r. (operator r, op_context r))
     (operators (parseASTForDiagnostics babelSamples
        ''db.c.aggregate([{$group: {total: {$sum: 1}}}])'')) =
     [(''$group'', CtxStage), (''$sum'', CtxAggregation)]
   \<and> map (\<lambda>r. (operator r, op_context r))
     (operators (parseASTForDiagnostics babelSamples ''db.c.find({$where: 1, qty: {$gt: 5}})'')) =
     [(''$where'', CtxOther), (''$gt'', CtxQuery)]"
proof -
  from operator_context_by_depth [of babelSamples
      "''db.c.aggregate([{$group: {total: {$sum: 1}}}])''" ast_group] samples_group
  have group: "operators (parseASTForDiagnostics babelSamples
        ''db.c.aggregate([{$group: {total: {$sum: 1}}}])'') =
      concat (map (spec_operatorReferences identifierKeyNames) (traversePaths ast_group))"
    by blast
  from operator_context_by_depth [of babelSamples
      "''db.c.find({$where: 1, qty: {$gt: 5}})''" ast_find_where] samples_find_where
  have find: "operators (parseASTForDiagnostics babelSamples
        ''db.c.find({$where: 1, qty: {$gt: 5}})'') =
      concat (map (spec_operatorReferences identifierKeyNames) (traversePaths ast_find_where))"
    by blast
  from operator_context_by_depth [of babelSamples
      "''db.orders.aggregate([{$match: {qty: {$gt: 5}}}])''" ast_pipeline] samples_pipeline
  have "map (\<lambda>r. (operator r, op_context r))
     (operators (parseASTForDiagnostics babelSamples
        ''db.orders.aggregate([{$match: {qty: {$gt: 5}}}])'')) =
     [(''$match'', CtxStage), (''$gt'', CtxQuery)]"
    by blast
  then show ?thesis
    unfolding group find spec_group spec_find_where by simp
qed

lemma traverse_group_quoted:
  "map (\<lambda>r. (operator r, op_context r))
     (operators (references (fold enterDiag (traversePaths ast_group_quoted)
        \<lparr>references = emptyReferences, currentDatabase = None, currentCollection = None\<rparr>)))
   = [(''$sum'', CtxQuery)]"
  by code_simp

lemma spec_group_quoted:
  "map (\<lambda>r. (operator r, op_context r))
     (concat (map (spec_operatorReferences propertyKeyNames) (traversePaths ast_group_quoted)))
   = [(''$sum'', CtxAggregation)]"
  by code_simp

text \<open>Claim C3 as stated takes the key of an enclosing property however it is written.
  In \<^verbatim>\<open>db.c.aggregate([{'$group': {total: {$sum: 1}}}])\<close> the key \<^verbatim>\<open>$group\<close> is a string;
  the key \<^verbatim>\<open>$sum\<close> below it, at depth 3, is classified \<open>query\<close>, where the claim gives
  \<open>aggregation\<close>.\<close>

theorem quoted_stage_key_counterexample:
  "map op_context
     (operators (parseASTForDiagnostics babelSamples
        ''db.c.aggregate([{'$group': {total: {$sum: 1}}}])'')) = [CtxQuery]
   \<and> map op_context
     (concat (map (spec_operatorReferences propertyKeyNames) (traversePaths ast_group_quoted))) =
     [CtxAggregation]"
proof -
  have "map snd (map (\<lambda>r. (operator r, op_context r))
      (operators (parseASTForDiagnostics babelSamples
         ''db.c.aggregate([{'$group': {total: {$sum: 1}}}])''))) = [CtxQuery]"
    unfolding parseASTForDiagnostics_def samples_group_quoted option.case traverse_group_quoted
    by simp
  moreover have "map snd (map (\<lambda>r. (operator r, op_context r))
      (concat (map (spec_operatorReferences propertyKeyNames)
         (traversePaths ast_group_quoted)))) = [CtxAggregation]"
    unfolding spec_group_quoted by simp
  ultimately show ?thesis by (simp add: comp_def)
qed

section \<open>Collection references\<close>

lemma diagDbMember_grows:
  "\<exists>zs. collections (references (diagDbMember p st)) = collections (references st) @ zs"
  "\<exists>zs. methods (references (diagDbMember p st)) = methods (references st) @ zs"
  by (simp_all add: diagDbMember_def Let_def split: node.split option.split)

lemma diagCollectionMethod_grows:
  "\<exists>zs. methods (references (diagCollectionMethod p st)) = methods (references st) @ zs"
  by (simp add: diagCollectionMethod_def split: node.split option.split)

lemma enterDiag_grows:
  "set (collections (references st)) \<subseteq> set (collections (references (enterDiag p st)))"
  "set (methods (references st)) \<subseteq> set (methods (references (enterDiag p st)))"
proof -
  obtain zs where "collections (references (diagDbMember p (diagCallExpression p st))) =
      collections (references (diagCallExpression p st)) @ zs"
    using diagDbMember_grows(1) by blast
  then show "set (collections (references st)) \<subseteq> set (collections (references (enterDiag p st)))"
    by (simp add: enterDiag_def diagMemberExpression_def)
  obtain ys where ys: "methods (references (diagDbMember p (diagCallExpression p st))) =
      methods (references (diagCallExpression p st)) @ ys"
    using diagDbMember_grows(2) by blast
  obtain xs where "methods (references (diagCollectionMethod p
        (diagDbMember p (diagCallExpression p st)))) =
      methods (references (diagDbMember p (diagCallExpression p st))) @ xs"
    using diagCollectionMethod_grows by blast
  with ys show "set (methods (references st)) \<subseteq> set (methods (references (enterDiag p st)))"
    by (simp add: enterDiag_def diagMemberExpression_def)
qed

lemma fold_enterDiag_grows:
  "set (collections (references st)) \<subseteq> set (collections (references (fold enterDiag ps st)))"
  "set (methods (references st)) \<subseteq> set (methods (references (fold enterDiag ps st)))"
proof (induction ps arbitrary: st)
  case Nil
  { case 1 show ?case by simp }
  { case 2 show ?case by simp }
next
  case (Cons p ps)
  { case 1 show ?case using Cons(1)[of "enterDiag p st"] enterDiag_grows(1)[of st p] by auto }
  { case 2 show ?case using Cons(2)[of "enterDiag p st"] enterDiag_grows(2)[of st p] by auto }
qed

lemma diagDbMember_collection:
  assumes "fst (hd p) = MemberExpression (Some lc) (Identifier ol ''db'') property computed"
    and "property = Identifier pl name \<or> property = StringLiteral pl name"
    and "name \<noteq> []"
  shows "\<lparr>coll_collectionName = name, coll_databaseName = currentDatabase st,
           coll_location = location lc\<rparr> \<in> set (collections (references (diagDbMember p st)))"
    and "currentCollection (diagDbMember p st) = Some name"
    and "isCalleeOfParent p \<Longrightarrow> property = Identifier pl name \<Longrightarrow>
         \<lparr>method_name = name, target = TargetDb, method_location = location lc\<rparr>
           \<in> set (methods (references (diagDbMember p st)))"
  using assms by (auto simp: diagDbMember_def Let_def)

lemma enterDiag_collection:
  assumes "fst (hd p) = MemberExpression (Some lc) (Identifier ol ''db'') property computed"
    and "property = Identifier pl name \<or> property = StringLiteral pl name"
    and "name \<noteq> []"
  shows "\<exists>db. \<lparr>coll_collectionName = name, coll_databaseName = db,
           coll_location = location lc\<rparr> \<in> set (collections (references (enterDiag p st)))"
    and "currentCollection (enterDiag p st) = Some name"
    and "isCalleeOfParent p \<Longrightarrow> property = Identifier pl name \<Longrightarrow>
         \<lparr>method_name = name, target = TargetDb, method_location = location lc\<rparr>
           \<in> set (methods (references (enterDiag p st)))"
proof -
  let ?st = "diagCallExpression p st"
  from diagDbMember_collection(1)[OF assms, of ?st]
  show "\<exists>db. \<lparr>coll_collectionName = name, coll_databaseName = db,
           coll_location = location lc\<rparr> \<in> set (collections (references (enterDiag p st)))"
    by (auto simp: enterDiag_def diagMemberExpression_def)
  from diagDbMember_collection(2)[OF assms, of ?st]
  show "currentCollection (enterDiag p st) = Some name"
    by (simp add: enterDiag_def diagMemberExpression_def)
  assume "isCalleeOfParent p" "property = Identifier pl name"
  from diagDbMember_collection(3)[OF assms this, of ?st]
  have "\<lparr>method_name = name, target = TargetDb, method_location = location lc\<rparr>
      \<in> set (methods (references (diagDbMember p ?st)))" .
  moreover obtain xs where "methods (references (diagCollectionMethod p (diagDbMember p ?st))) =
      methods (references (diagDbMember p ?st)) @ xs"
    using diagCollectionMethod_grows by blast
  ultimately show "\<lparr>method_name = name, target = TargetDb, method_location = location lc\<rparr>
           \<in> set (methods (references (enterDiag p st)))"
    by (simp add: enterDiag_def diagMemberExpression_def)
qed

text \<open>
  Claim C10, as amended. For every member expression that is entered, has a location, has
  the bare identifier \<^verbatim>\<open>db\<close> as object and an identifier or string literal with a
  non-empty name as property, the extraction returns a collection reference with that
  name and the location of the member expression, and the current collection is that name
  once the node has been entered. This holds also when the member expression is the
  callee of a call: with an identifier as property it gives a method reference with
  target \<open>db\<close> as well, so \<^verbatim>\<open>db.runCommand()\<close> yields the collection reference
  \<^verbatim>\<open>runCommand\<close> and the method reference \<^verbatim>\<open>runCommand\<close>.
\<close>

theorem db_member_collection_reference:
  assumes "parse textFromEditor = Some ast"
    and "p \<in> set (traversePaths ast)"
    and "fst (hd p) = MemberExpression (Some lc) (Identifier ol ''db'') property computed"
    and "property = Identifier pl name \<or> property = StringLiteral pl name"
    and "name \<noteq> []"
  shows "(\<exists>db. \<lparr>coll_collectionName = name, coll_databaseName = db, coll_location = location lc\<rparr>
            \<in> set (collections (parseASTForDiagnostics parse textFromEditor)))
    \<and> (isCalleeOfParent p \<and> property = Identifier pl name \<longrightarrow>
         \<lparr>method_name = name, target = TargetDb, method_location = location lc\<rparr>
            \<in> set (methods (parseASTForDiagnostics parse textFromEditor)))
    \<and> currentCollection (enterDiag p st) = Some name
    \<and> (parse ''db.runCommand()'' = Some ast_runCommand \<longrightarrow>
         collections (parseASTForDiagnostics parse ''db.runCommand()'') =
           [\<lparr>coll_collectionName = ''runCommand'', coll_databaseName = None,
             coll_location = \<lparr>loc_start_line = 0, loc_start_character = 0,
                              loc_end_line = 0, loc_end_character = 13\<rparr>\<rparr>] \<and>
         methods (parseASTForDiagnostics parse ''db.runCommand()'') =
           [\<lparr>method_name = ''runCommand'', target = TargetDb,
             method_location = \<lparr>loc_start_line = 0, loc_start_character = 0,
                                loc_end_line = 0, loc_end_character = 13\<rparr>\<rparr>])"
proof -
  let ?st0 = "\<lparr>references = emptyReferences, currentDatabase = None, currentCollection = None\<rparr>"
  from assms(2) obtain xs ys where split: "traversePaths ast = xs @ p # ys"
    by (auto simp: in_set_conv_decomp)
  let ?st1 = "fold enterDiag xs ?st0"
  have res: "parseASTForDiagnostics parse textFromEditor =
      references (fold enterDiag ys (enterDiag p ?st1))"
    using assms(1) split by (simp add: parseASTForDiagnostics_def)
  from enterDiag_collection(1)[OF assms(3-5), of ?st1] obtain db where
    "\<lparr>coll_collectionName = name, coll_databaseName = db, coll_location = location lc\<rparr>
       \<in> set (collections (references (enterDiag p ?st1)))" by blast
  with fold_enterDiag_grows(1)[of "enterDiag p ?st1" ys] res
  have c: "\<exists>db. \<lparr>coll_collectionName = name, coll_databaseName = db, coll_location = location lc\<rparr>
            \<in> set (collections (parseASTForDiagnostics parse textFromEditor))"
    by auto
  have m: "\<lparr>method_name = name, target = TargetDb, method_location = location lc\<rparr>
            \<in> set (methods (parseASTForDiagnostics parse textFromEditor))"
    if "isCalleeOfParent p" "property = Identifier pl name"
    using enterDiag_collection(3)[OF assms(3-5) that, of ?st1]
      fold_enterDiag_grows(2)[of "enterDiag p ?st1" ys] res
    by auto
  have e: "collections (parseASTForDiagnostics parse ''db.runCommand()'') =
           [\<lparr>coll_collectionName = ''runCommand'', coll_databaseName = None,
             coll_location = \<lparr>loc_start_line = 0, loc_start_character = 0,
                              loc_end_line = 0, loc_end_character = 13\<rparr>\<rparr>] \<and>
         methods (parseASTForDiagnostics parse ''db.runCommand()'') =
           [\<lparr>method_name = ''runCommand'', target = TargetDb,
             method_location = \<lparr>loc_start_line = 0, loc_start_character = 0,
                                loc_end_line = 0, loc_end_character = 13\<rparr>\<rparr>]"
    if "parse ''db.runCommand()'' = Some ast_runCommand"
    using that by (simp add: parseASTForDiagnostics_def traverse_runCommand)
  from c m e enterDiag_collection(2)[OF assms(3-5), of st] show ?thesis by blast
qed

lemma paths_runCommand: "path_runCommand \<in> set (traversePaths ast_runCommand)"
  by code_simp

theorem db_member_collection_reference_witness:
  "collections (parseASTForDiagnostics babelSamples ''db.runCommand()'') =
     [\<lparr>coll_collectionName = ''runCommand'', coll_databaseName = None,
       coll_location = \<lparr>loc_start_line = 0, loc_start_character = 0,
                        loc_end_line = 0, loc_end_character = 13\<rparr>\<rparr>]
   \<and> methods (parseASTForDiagnostics babelSamples ''db.runCommand()'') =
     [\<lparr>method_name = ''runCommand'', target = TargetDb,
       method_location = \<lparr>loc_start_line = 0, loc_start_character = 0,
                          loc_end_line = 0, loc_end_character = 13\<rparr>\<rparr>]
   \<and> \<lparr>method_name = ''runCommand'', target = TargetDb,
        method_location = location
          \<lparr>start_line = 1, start_column = 0, end_line = 1, end_column = 13\<rparr>\<rparr>
       \<in> set (methods (parseASTForDiagnostics babelSamples ''db.runCommand()''))
   \<and> currentCollection (enterDiag path_runCommand
        \<lparr>references = emptyReferences, currentDatabase = None, currentCollection = None\<rparr>) =
       Some ''runCommand''"
proof -
  have node: "fst (hd path_runCommand) =
      MemberExpression (Some \<lparr>start_line = 1, start_column = 0, end_line = 1, end_column = 13\<rparr>)
        (Identifier (L 1 0 1 2) ''db'') (Identifier (L 1 3 1 13) ''runCommand'') False"
    by (simp add: path_runCommand_def L_def)
  have callee: "isCalleeOfParent path_runCommand"
    by (simp add: path_runCommand_def isCalleeOfParent_def)
  from db_member_collection_reference [where parse = babelSamples
      and textFromEditor = "''db.runCommand()''" and ast = ast_runCommand
      and p = path_runCommand
      and lc = "\<lparr>start_line = 1, start_column = 0, end_line = 1, end_column = 13\<rparr>"
      and ol = "L 1 0 1 2" and property = "Identifier (L 1 3 1 13) ''runCommand''"
      and computed = False and pl = "L 1 3 1 13" and name = "''runCommand''"
      and st = "\<lparr>references = emptyReferences, currentDatabase = None,
                 currentCollection = None\<rparr>"]
    samples_runCommand paths_runCommand node callee
  show ?thesis by (simp add: location_def)
qed

lemma samples_db_empty: "babelSamples text_db_empty = Some ast_db_empty"
  by code_simp

text \<open>Claim C10 as stated covers every string literal; for the empty one,
  \<^verbatim>\<open>db['']\<close>, the name is falsy and no collection reference is returned.\<close>

theorem empty_collection_name_counterexample:
  "collections (parseASTForDiagnostics babelSamples text_db_empty) = []"
proof -
  have "references (fold enterDiag (traversePaths ast_db_empty)
     \<lparr>references = emptyReferences, currentDatabase = None, currentCollection = None\<rparr>)
     = emptyReferences"
    by code_simp
  then show ?thesis
    by (simp add: parseASTForDiagnostics_def samples_db_empty emptyReferences_def)
qed

section \<open>What each check of the resolver leaves alone\<close>

text \<open>The checks are many and each writes one or two fields. The lemmas of this section
  say, check by check, which of the fields that the theorems below speak about are left as
  they were.\<close>

lemma checkIsUseCallAsSimpleString_frame [simp]:
  "databaseName (checkIsUseCallAsSimpleString n st) = databaseName st"
  "stageOperator (checkIsUseCallAsSimpleString n st) = stageOperator st"
  "isObjectKey (checkIsUseCallAsSimpleString n st) = isObjectKey st"
  "isIdentifierObjectValue (checkIsUseCallAsSimpleString n st) = isIdentifierObjectValue st"
  "isStage (checkIsUseCallAsSimpleString n st) = isStage st"
  "isCollectionSymbol (checkIsUseCallAsSimpleString n st) = isCollectionSymbol st"
  "isStreamProcessorSymbol (checkIsUseCallAsSimpleString n st) = isStreamProcessorSymbol st"
  "isGlobalSymbol (checkIsUseCallAsSimpleString n st) = isGlobalSymbol st"
  "isCollectionName (checkIsUseCallAsSimpleString n st) = isCollectionName st"
  "isStreamProcessorName (checkIsUseCallAsSimpleString n st) = isStreamProcessorName st"
  "isAggregationCursor (checkIsUseCallAsSimpleString n st) = isAggregationCursor st"
  "isFindCursor (checkIsUseCallAsSimpleString n st) = isFindCursor st"
  "isSpSymbol (checkIsUseCallAsSimpleString n st) = isSpSymbol st"
  by (simp_all add: checkIsUseCallAsSimpleString_def)

lemma checkIsUseCallAsTemplate_frame [simp]:
  "databaseName (checkIsUseCallAsTemplate n st) = databaseName st"
  "stageOperator (checkIsUseCallAsTemplate n st) = stageOperator st"
  "isObjectKey (checkIsUseCallAsTemplate n st) = isObjectKey st"
  "isIdentifierObjectValue (checkIsUseCallAsTemplate n st) = isIdentifierObjectValue st"
  "isStage (checkIsUseCallAsTemplate n st) = isStage st"
  "isCollectionSymbol (checkIsUseCallAsTemplate n st) = isCollectionSymbol st"
  "isStreamProcessorSymbol (checkIsUseCallAsTemplate n st) = isStreamProcessorSymbol st"
  "isGlobalSymbol (checkIsUseCallAsTemplate n st) = isGlobalSymbol st"
  "isCollectionName (checkIsUseCallAsTemplate n st) = isCollectionName st"
  "isStreamProcessorName (checkIsUseCallAsTemplate n st) = isStreamProcessorName st"
  "isAggregationCursor (checkIsUseCallAsTemplate n st) = isAggregationCursor st"
  "isFindCursor (checkIsUseCallAsTemplate n st) = isFindCursor st"
  "isSpSymbol (checkIsUseCallAsTemplate n st) = isSpSymbol st"
  by (simp_all add: checkIsUseCallAsTemplate_def)

lemma checkIsUseCall_frame [simp]:
  "databaseName (checkIsUseCall n st) = databaseName st"
  "stageOperator (checkIsUseCall n st) = stageOperator st"
  "isObjectKey (checkIsUseCall n st) = isObjectKey st"
  "isIdentifierObjectValue (checkIsUseCall n st) = isIdentifierObjectValue st"
  "isStage (checkIsUseCall n st) = isStage st"
  "isCollectionSymbol (checkIsUseCall n st) = isCollectionSymbol st"
  "isStreamProcessorSymbol (checkIsUseCall n st) = isStreamProcessorSymbol st"
  "isGlobalSymbol (checkIsUseCall n st) = isGlobalSymbol st"
  "isCollectionName (checkIsUseCall n st) = isCollectionName st"
  "isStreamProcessorName (checkIsUseCall n st) = isStreamProcessorName st"
  "isAggregationCursor (checkIsUseCall n st) = isAggregationCursor st"
  "isFindCursor (checkIsUseCall n st) = isFindCursor st"
  "isSpSymbol (checkIsUseCall n st) = isSpSymbol st"
  by (simp_all add: checkIsUseCall_def)

lemma checkIsGlobalSymbol_frame [simp]:
  "databaseName (checkIsGlobalSymbol n st) = databaseName st"
  "stageOperator (checkIsGlobalSymbol n st) = stageOperator st"
  "isObjectKey (checkIsGlobalSymbol n st) = isObjectKey st"
  "isIdentifierObjectValue (checkIsGlobalSymbol n st) = isIdentifierObjectValue st"
  "isStage (checkIsGlobalSymbol n st) = isStage st"
  "isCollectionSymbol (checkIsGlobalSymbol n st) = isCollectionSymbol st"
  "isStreamProcessorSymbol (checkIsGlobalSymbol n st) = isStreamProcessorSymbol st"
  "isCollectionName (checkIsGlobalSymbol n st) = isCollectionName st"
  "isStreamProcessorName (checkIsGlobalSymbol n st) = isStreamProcessorName st"
  "isAggregationCursor (checkIsGlobalSymbol n st) = isAggregationCursor st"
  "isFindCursor (checkIsGlobalSymbol n st) = isFindCursor st"
  "isSpSymbol (checkIsGlobalSymbol n st) = isSpSymbol st"
  by (simp_all add: checkIsGlobalSymbol_def)

lemma checkIsDbSymbol_frame [simp]:
  "databaseName (checkIsDbSymbol n st) = databaseName st"
  "stageOperator (checkIsDbSymbol n st) = stageOperator st"
  "isObjectKey (checkIsDbSymbol n st) = isObjectKey st"
  "isIdentifierObjectValue (checkIsDbSymbol n st) = isIdentifierObjectValue st"
  "isStage (checkIsDbSymbol n st) = isStage st"
  "isCollectionSymbol (checkIsDbSymbol n st) = isCollectionSymbol st"
  "isStreamProcessorSymbol (checkIsDbSymbol n st) = isStreamProcessorSymbol st"
  "isGlobalSymbol (checkIsDbSymbol n st) = isGlobalSymbol st"
  "isCollectionName (checkIsDbSymbol n st) = isCollectionName st"
  "isStreamProcessorName (checkIsDbSymbol n st) = isStreamProcessorName st"
  "isAggregationCursor (checkIsDbSymbol n st) = isAggregationCursor st"
  "isFindCursor (checkIsDbSymbol n st) = isFindCursor st"
  "isSpSymbol (checkIsDbSymbol n st) = isSpSymbol st"
  by (simp_all add: checkIsDbSymbol_def)

lemma checkIsSpSymbol_frame [simp]:
  "databaseName (checkIsSpSymbol n st) = databaseName st"
  "stageOperator (checkIsSpSymbol n st) = stageOperator st"
  "isObjectKey (checkIsSpSymbol n st) = isObjectKey st"
  "isIdentifierObjectValue (checkIsSpSymbol n st) = isIdentifierObjectValue st"
  "isStage (checkIsSpSymbol n st) = isStage st"
  "isCollectionSymbol (checkIsSpSymbol n st) = isCollectionSymbol st"
  "isStreamProcessorSymbol (checkIsSpSymbol n st) = isStreamProcessorSymbol st"
  "isGlobalSymbol (checkIsSpSymbol n st) = isGlobalSymbol st"
  "isCollectionName (checkIsSpSymbol n st) = isCollectionName st"
  "isStreamProcessorName (checkIsSpSymbol n st) = isStreamProcessorName st"
  "isAggregationCursor (checkIsSpSymbol n st) = isAggregationCursor st"
  "isFindCursor (checkIsSpSymbol n st) = isFindCursor st"
  by (simp_all add: checkIsSpSymbol_def)

lemma checkIsCollectionNameAsMemberExpression_frame [simp]:
  "databaseName (checkIsCollectionNameAsMemberExpression n st) = databaseName st"
  "stageOperator (checkIsCollectionNameAsMemberExpression n st) = stageOperator st"
  "isObjectKey (checkIsCollectionNameAsMemberExpression n st) = isObjectKey st"
  "isIdentifierObjectValue (checkIsCollectionNameAsMemberExpression n st) = isIdentifierObjectValue st"
  "isStage (checkIsCollectionNameAsMemberExpression n st) = isStage st"
  "isCollectionSymbol (checkIsCollectionNameAsMemberExpression n st) = isCollectionSymbol st"
  "isStreamProcessorSymbol (checkIsCollectionNameAsMemberExpression n st) = isStreamProcessorSymbol st"
  "isGlobalSymbol (checkIsCollectionNameAsMemberExpression n st) = isGlobalSymbol st"
  "isStreamProcessorName (checkIsCollectionNameAsMemberExpression n st) = isStreamProcessorName st"
  "isAggregationCursor (checkIsCollectionNameAsMemberExpression n st) = isAggregationCursor st"
  "isFindCursor (checkIsCollectionNameAsMemberExpression n st) = isFindCursor st"
  "isSpSymbol (checkIsCollectionNameAsMemberExpression n st) = isSpSymbol st"
  by (simp_all add: checkIsCollectionNameAsMemberExpression_def)

lemma checkGetCollectionAsSimpleString_frame [simp]:
  "databaseName (checkGetCollectionAsSimpleString n st) = databaseName st"
  "stageOperator (checkGetCollectionAsSimpleString n st) = stageOperator st"
  "isObjectKey (checkGetCollectionAsSimpleString n st) = isObjectKey st"
  "isIdentifierObjectValue (checkGetCollectionAsSimpleString n st) = isIdentifierObjectValue st"
  "isStage (checkGetCollectionAsSimpleString n st) = isStage st"
  "isCollectionSymbol (checkGetCollectionAsSimpleString n st) = isCollectionSymbol st"
  "isStreamProcessorSymbol (checkGetCollectionAsSimpleString n st) = isStreamProcessorSymbol st"
  "isGlobalSymbol (checkGetCollectionAsSimpleString n st) = isGlobalSymbol st"
  "isStreamProcessorName (checkGetCollectionAsSimpleString n st) = isStreamProcessorName st"
  "isAggregationCursor (checkGetCollectionAsSimpleString n st) = isAggregationCursor st"
  "isFindCursor (checkGetCollectionAsSimpleString n st) = isFindCursor st"
  "isSpSymbol (checkGetCollectionAsSimpleString n st) = isSpSymbol st"
  by (simp_all add: checkGetCollectionAsSimpleString_def)

lemma checkGetCollectionAsTemplate_frame [simp]:
  "databaseName (checkGetCollectionAsTemplate n st) = databaseName st"
  "stageOperator (checkGetCollectionAsTemplate n st) = stageOperator st"
  "isObjectKey (checkGetCollectionAsTemplate n st) = isObjectKey st"
  "isIdentifierObjectValue (checkGetCollectionAsTemplate n st) = isIdentifierObjectValue st"
  "isStage (checkGetCollectionAsTemplate n st) = isStage st"
  "isCollectionSymbol (checkGetCollectionAsTemplate n st) = isCollectionSymbol st"
  "isStreamProcessorSymbol (checkGetCollectionAsTemplate n st) = isStreamProcessorSymbol st"
  "isGlobalSymbol (checkGetCollectionAsTemplate n st) = isGlobalSymbol st"
  "isStreamProcessorName (checkGetCollectionAsTemplate n st) = isStreamProcessorName st"
  "isAggregationCursor (checkGetCollectionAsTemplate n st) = isAggregationCursor st"
  "isFindCursor (checkGetCollectionAsTemplate n st) = isFindCursor st"
  "isSpSymbol (checkGetCollectionAsTemplate n st) = isSpSymbol st"
  by (simp_all add: checkGetCollectionAsTemplate_def)

lemma checkIsCollectionNameAsCallExpression_frame [simp]:
  "databaseName (checkIsCollectionNameAsCallExpression n st) = databaseName st"
  "stageOperator (checkIsCollectionNameAsCallExpression n st) = stageOperator st"
  "isObjectKey (checkIsCollectionNameAsCallExpression n st) = isObjectKey st"
  "isIdentifierObjectValue (checkIsCollectionNameAsCallExpression n st) = isIdentifierObjectValue st"
  "isStage (checkIsCollectionNameAsCallExpression n st) = isStage st"
  "isCollectionSymbol (checkIsCollectionNameAsCallExpression n st) = isCollectionSymbol st"
  "isStreamProcessorSymbol (checkIsCollectionNameAsCallExpression n st) = isStreamProcessorSymbol st"
  "isGlobalSymbol (checkIsCollectionNameAsCallExpression n st) = isGlobalSymbol st"
  "isStreamProcessorName (checkIsCollectionNameAsCallExpression n st) = isStreamProcessorName st"
  "isAggregationCursor (checkIsCollectionNameAsCallExpression n st) = isAggregationCursor st"
  "isFindCursor (checkIsCollectionNameAsCallExpression n st) = isFindCursor st"
  "isSpSymbol (checkIsCollectionNameAsCallExpression n st) = isSpSymbol st"
  by (simp_all add: checkIsCollectionNameAsCallExpression_def)

lemma checkHasAggregationCall_frame [simp]:
  "databaseName (checkHasAggregationCall n st) = databaseName st"
  "stageOperator (checkHasAggregationCall n st) = stageOperator st"
  "isObjectKey (checkHasAggregationCall n st) = isObjectKey st"
  "isIdentifierObjectValue (checkHasAggregationCall n st) = isIdentifierObjectValue st"
  "isStage (checkHasAggregationCall n st) = isStage st"
  "isCollectionSymbol (checkHasAggregationCall n st) = isCollectionSymbol st"
  "isStreamProcessorSymbol (checkHasAggregationCall n st) = isStreamProcessorSymbol st"
  "isGlobalSymbol (checkHasAggregationCall n st) = isGlobalSymbol st"
  "isCollectionName (checkHasAggregationCall n st) = isCollectionName st"
  "isStreamProcessorName (checkHasAggregationCall n st) = isStreamProcessorName st"
  "isFindCursor (checkHasAggregationCall n st) = isFindCursor st"
  "isSpSymbol (checkHasAggregationCall n st) = isSpSymbol st"
  by (simp_all add: checkHasAggregationCall_def)

lemma checkHasFindCall_frame [simp]:
  "databaseName (checkHasFindCall n st) = databaseName st"
  "stageOperator (checkHasFindCall n st) = stageOperator st"
  "isObjectKey (checkHasFindCall n st) = isObjectKey st"
  "isIdentifierObjectValue (checkHasFindCall n st) = isIdentifierObjectValue st"
  "isStage (checkHasFindCall n st) = isStage st"
  "isCollectionSymbol (checkHasFindCall n st) = isCollectionSymbol st"
  "isStreamProcessorSymbol (checkHasFindCall n st) = isStreamProcessorSymbol st"
  "isGlobalSymbol (checkHasFindCall n st) = isGlobalSymbol st"
  "isCollectionName (checkHasFindCall n st) = isCollectionName st"
  "isStreamProcessorName (checkHasFindCall n st) = isStreamProcessorName st"
  "isAggregationCursor (checkHasFindCall n st) = isAggregationCursor st"
  "isSpSymbol (checkHasFindCall n st) = isSpSymbol st"
  by (simp_all add: checkHasFindCall_def)

lemma checkHasDatabaseName_frame [simp]:
  "stageOperator (checkHasDatabaseName sel n st) = stageOperator st"
  "isObjectKey (checkHasDatabaseName sel n st) = isObjectKey st"
  "isIdentifierObjectValue (checkHasDatabaseName sel n st) = isIdentifierObjectValue st"
  "isStage (checkHasDatabaseName sel n st) = isStage st"
  "isCollectionSymbol (checkHasDatabaseName sel n st) = isCollectionSymbol st"
  "isStreamProcessorSymbol (checkHasDatabaseName sel n st) = isStreamProcessorSymbol st"
  "isGlobalSymbol (checkHasDatabaseName sel n st) = isGlobalSymbol st"
  "isCollectionName (checkHasDatabaseName sel n st) = isCollectionName st"
  "isStreamProcessorName (checkHasDatabaseName sel n st) = isStreamProcessorName st"
  "isAggregationCursor (checkHasDatabaseName sel n st) = isAggregationCursor st"
  "isFindCursor (checkHasDatabaseName sel n st) = isFindCursor st"
  "isSpSymbol (checkHasDatabaseName sel n st) = isSpSymbol st"
  by (simp_all add: checkHasDatabaseName_def split: node.split list.split option.split)

lemma checkHasCollectionNameMemberExpression_frame [simp]:
  "databaseName (checkHasCollectionNameMemberExpression n st) = databaseName st"
  "stageOperator (checkHasCollectionNameMemberExpression n st) = stageOperator st"
  "isObjectKey (checkHasCollectionNameMemberExpression n st) = isObjectKey st"
  "isIdentifierObjectValue (checkHasCollectionNameMemberExpression n st) = isIdentifierObjectValue st"
  "isStage (checkHasCollectionNameMemberExpression n st) = isStage st"
  "isCollectionSymbol (checkHasCollectionNameMemberExpression n st) = isCollectionSymbol st"
  "isStreamProcessorSymbol (checkHasCollectionNameMemberExpression n st) = isStreamProcessorSymbol st"
  "isGlobalSymbol (checkHasCollectionNameMemberExpression n st) = isGlobalSymbol st"
  "isCollectionName (checkHasCollectionNameMemberExpression n st) = isCollectionName st"
  "isStreamProcessorName (checkHasCollectionNameMemberExpression n st) = isStreamProcessorName st"
  "isAggregationCursor (checkHasCollectionNameMemberExpression n st) = isAggregationCursor st"
  "isFindCursor (checkHasCollectionNameMemberExpression n st) = isFindCursor st"
  "isSpSymbol (checkHasCollectionNameMemberExpression n st) = isSpSymbol st"
  by (simp_all add: checkHasCollectionNameMemberExpression_def split: node.split list.split option.split)

lemma checkHasCollectionNameCallExpression_frame [simp]:
  "databaseName (checkHasCollectionNameCallExpression n st) = databaseName st"
  "stageOperator (checkHasCollectionNameCallExpression n st) = stageOperator st"
  "isObjectKey (checkHasCollectionNameCallExpression n st) = isObjectKey st"
  "isIdentifierObjectValue (checkHasCollectionNameCallExpression n st) = isIdentifierObjectValue st"
  "isStage (checkHasCollectionNameCallExpression n st) = isStage st"
  "isCollectionSymbol (checkHasCollectionNameCallExpression n st) = isCollectionSymbol st"
  "isStreamProcessorSymbol (checkHasCollectionNameCallExpression n st) = isStreamProcessorSymbol st"
  "isGlobalSymbol (checkHasCollectionNameCallExpression n st) = isGlobalSymbol st"
  "isCollectionName (checkHasCollectionNameCallExpression n st) = isCollectionName st"
  "isStreamProcessorName (checkHasCollectionNameCallExpression n st) = isStreamProcessorName st"
  "isAggregationCursor (checkHasCollectionNameCallExpression n st) = isAggregationCursor st"
  "isFindCursor (checkHasCollectionNameCallExpression n st) = isFindCursor st"
  "isSpSymbol (checkHasCollectionNameCallExpression n st) = isSpSymbol st"
  by (simp_all add: checkHasCollectionNameCallExpression_def split: node.split list.split option.split)

lemma checkHasCollectionName_frame [simp]:
  "databaseName (checkHasCollectionName n st) = databaseName st"
  "stageOperator (checkHasCollectionName n st) = stageOperator st"
  "isObjectKey (checkHasCollectionName n st) = isObjectKey st"
  "isIdentifierObjectValue (checkHasCollectionName n st) = isIdentifierObjectValue st"
  "isStage (checkHasCollectionName n st) = isStage st"
  "isCollectionSymbol (checkHasCollectionName n st) = isCollectionSymbol st"
  "isStreamProcessorSymbol (checkHasCollectionName n st) = isStreamProcessorSymbol st"
  "isGlobalSymbol (checkHasCollectionName n st) = isGlobalSymbol st"
  "isCollectionName (checkHasCollectionName n st) = isCollectionName st"
  "isStreamProcessorName (checkHasCollectionName n st) = isStreamProcessorName st"
  "isAggregationCursor (checkHasCollectionName n st) = isAggregationCursor st"
  "isFindCursor (checkHasCollectionName n st) = isFindCursor st"
  "isSpSymbol (checkHasCollectionName n st) = isSpSymbol st"
  by (simp_all add: checkHasCollectionName_def)

lemma checkIsCollectionMemberExpression_frame [simp]:
  "databaseName (checkIsCollectionMemberExpression n st) = databaseName st"
  "stageOperator (checkIsCollectionMemberExpression n st) = stageOperator st"
  "isObjectKey (checkIsCollectionMemberExpression n st) = isObjectKey st"
  "isIdentifierObjectValue (checkIsCollectionMemberExpression n st) = isIdentifierObjectValue st"
  "isStage (checkIsCollectionMemberExpression n st) = isStage st"
  "isStreamProcessorSymbol (checkIsCollectionMemberExpression n st) = isStreamProcessorSymbol st"
  "isGlobalSymbol (checkIsCollectionMemberExpression n st) = isGlobalSymbol st"
  "isCollectionName (checkIsCollectionMemberExpression n st) = isCollectionName st"
  "isStreamProcessorName (checkIsCollectionMemberExpression n st) = isStreamProcessorName st"
  "isAggregationCursor (checkIsCollectionMemberExpression n st) = isAggregationCursor st"
  "isFindCursor (checkIsCollectionMemberExpression n st) = isFindCursor st"
  "isSpSymbol (checkIsCollectionMemberExpression n st) = isSpSymbol st"
  by (simp_all add: checkIsCollectionMemberExpression_def)

lemma checkIsCollectionCallExpression_frame [simp]:
  "databaseName (checkIsCollectionCallExpression n st) = databaseName st"
  "stageOperator (checkIsCollectionCallExpression n st) = stageOperator st"
  "isObjectKey (checkIsCollectionCallExpression n st) = isObjectKey st"
  "isIdentifierObjectValue (checkIsCollectionCallExpression n st) = isIdentifierObjectValue st"
  "isStage (checkIsCollectionCallExpression n st) = isStage st"
  "isStreamProcessorSymbol (checkIsCollectionCallExpression n st) = isStreamProcessorSymbol st"
  "isGlobalSymbol (checkIsCollectionCallExpression n st) = isGlobalSymbol st"
  "isCollectionName (checkIsCollectionCallExpression n st) = isCollectionName st"
  "isStreamProcessorName (checkIsCollectionCallExpression n st) = isStreamProcessorName st"
  "isAggregationCursor (checkIsCollectionCallExpression n st) = isAggregationCursor st"
  "isFindCursor (checkIsCollectionCallExpression n st) = isFindCursor st"
  "isSpSymbol (checkIsCollectionCallExpression n st) = isSpSymbol st"
  by (simp_all add: checkIsCollectionCallExpression_def)

lemma checkIsCollectionSymbol_frame [simp]:
  "databaseName (checkIsCollectionSymbol n st) = databaseName st"
  "stageOperator (checkIsCollectionSymbol n st) = stageOperator st"
  "isObjectKey (checkIsCollectionSymbol n st) = isObjectKey st"
  "isIdentifierObjectValue (checkIsCollectionSymbol n st) = isIdentifierObjectValue st"
  "isStage (checkIsCollectionSymbol n st) = isStage st"
  "isStreamProcessorSymbol (checkIsCollectionSymbol n st) = isStreamProcessorSymbol st"
  "isGlobalSymbol (checkIsCollectionSymbol n st) = isGlobalSymbol st"
  "isCollectionName (checkIsCollectionSymbol n st) = isCollectionName st"
  "isStreamProcessorName (checkIsCollectionSymbol n st) = isStreamProcessorName st"
  "isAggregationCursor (checkIsCollectionSymbol n st) = isAggregationCursor st"
  "isFindCursor (checkIsCollectionSymbol n st) = isFindCursor st"
  "isSpSymbol (checkIsCollectionSymbol n st) = isSpSymbol st"
  by (simp_all add: checkIsCollectionSymbol_def)

lemma checkIsStreamProcessorNameAsMemberExpression_frame [simp]:
  "databaseName (checkIsStreamProcessorNameAsMemberExpression n st) = databaseName st"
  "stageOperator (checkIsStreamProcessorNameAsMemberExpression n st) = stageOperator st"
  "isObjectKey (checkIsStreamProcessorNameAsMemberExpression n st) = isObjectKey st"
  "isIdentifierObjectValue (checkIsStreamProcessorNameAsMemberExpression n st) = isIdentifierObjectValue st"
  "isStage (checkIsStreamProcessorNameAsMemberExpression n st) = isStage st"
  "isCollectionSymbol (checkIsStreamProcessorNameAsMemberExpression n st) = isCollectionSymbol st"
  "isStreamProcessorSymbol (checkIsStreamProcessorNameAsMemberExpression n st) = isStreamProcessorSymbol st"
  "isGlobalSymbol (checkIsStreamProcessorNameAsMemberExpression n st) = isGlobalSymbol st"
  "isCollectionName (checkIsStreamProcessorNameAsMemberExpression n st) = isCollectionName st"
  "isAggregationCursor (checkIsStreamProcessorNameAsMemberExpression n st) = isAggregationCursor st"
  "isFindCursor (checkIsStreamProcessorNameAsMemberExpression n st) = isFindCursor st"
  by (simp_all add: checkIsStreamProcessorNameAsMemberExpression_def)

lemma checkGetStreamProcessorAsSimpleString_frame [simp]:
  "databaseName (checkGetStreamProcessorAsSimpleString n st) = databaseName st"
  "stageOperator (checkGetStreamProcessorAsSimpleString n st) = stageOperator st"
  "isObjectKey (checkGetStreamProcessorAsSimpleString n st) = isObjectKey st"
  "isIdentifierObjectValue (checkGetStreamProcessorAsSimpleString n st) = isIdentifierObjectValue st"
  "isStage (checkGetStreamProcessorAsSimpleString n st) = isStage st"
  "isCollectionSymbol (checkGetStreamProcessorAsSimpleString n st) = isCollectionSymbol st"
  "isStreamProcessorSymbol (checkGetStreamProcessorAsSimpleString n st) = isStreamProcessorSymbol st"
  "isGlobalSymbol (checkGetStreamProcessorAsSimpleString n st) = isGlobalSymbol st"
  "isCollectionName (checkGetStreamProcessorAsSimpleString n st) = isCollectionName st"
  "isAggregationCursor (checkGetStreamProcessorAsSimpleString n st) = isAggregationCursor st"
  "isFindCursor (checkGetStreamProcessorAsSimpleString n st) = isFindCursor st"
  "isSpSymbol (checkGetStreamProcessorAsSimpleString n st) = isSpSymbol st"
  by (simp_all add: checkGetStreamProcessorAsSimpleString_def)

lemma checkGetStreamProcessorAsTemplate_frame [simp]:
  "databaseName (checkGetStreamProcessorAsTemplate n st) = databaseName st"
  "stageOperator (checkGetStreamProcessorAsTemplate n st) = stageOperator st"
  "isObjectKey (checkGetStreamProcessorAsTemplate n st) = isObjectKey st"
  "isIdentifierObjectValue (checkGetStreamProcessorAsTemplate n st) = isIdentifierObjectValue st"
  "isStage (checkGetStreamProcessorAsTemplate n st) = isStage st"
  "isCollectionSymbol (checkGetStreamProcessorAsTemplate n st) = isCollectionSymbol st"
  "isStreamProcessorSymbol (checkGetStreamProcessorAsTemplate n st) = isStreamProcessorSymbol st"
  "isGlobalSymbol (checkGetStreamProcessorAsTemplate n st) = isGlobalSymbol st"
  "isCollectionName (checkGetStreamProcessorAsTemplate n st) = isCollectionName st"
  "isAggregationCursor (checkGetStreamProcessorAsTemplate n st) = isAggregationCursor st"
  "isFindCursor (checkGetStreamProcessorAsTemplate n st) = isFindCursor st"
  "isSpSymbol (checkGetStreamProcessorAsTemplate n st) = isSpSymbol st"
  by (simp_all add: checkGetStreamProcessorAsTemplate_def)

lemma checkIsStreamProcessorNameAsCallExpression_frame [simp]:
  "databaseName (checkIsStreamProcessorNameAsCallExpression n st) = databaseName st"
  "stageOperator (checkIsStreamProcessorNameAsCallExpression n st) = stageOperator st"
  "isObjectKey (checkIsStreamProcessorNameAsCallExpression n st) = isObjectKey st"
  "isIdentifierObjectValue (checkIsStreamProcessorNameAsCallExpression n st) = isIdentifierObjectValue st"
  "isStage (checkIsStreamProcessorNameAsCallExpression n st) = isStage st"
  "isCollectionSymbol (checkIsStreamProcessorNameAsCallExpression n st) = isCollectionSymbol st"
  "isStreamProcessorSymbol (checkIsStreamProcessorNameAsCallExpression n st) = isStreamProcessorSymbol st"
  "isGlobalSymbol (checkIsStreamProcessorNameAsCallExpression n st) = isGlobalSymbol st"
  "isCollectionName (checkIsStreamProcessorNameAsCallExpression n st) = isCollectionName st"
  "isAggregationCursor (checkIsStreamProcessorNameAsCallExpression n st) = isAggregationCursor st"
  "isFindCursor (checkIsStreamProcessorNameAsCallExpression n st) = isFindCursor st"
  "isSpSymbol (checkIsStreamProcessorNameAsCallExpression n st) = isSpSymbol st"
  by (simp_all add: checkIsStreamProcessorNameAsCallExpression_def)

lemma checkHasStreamProcessorNameMemberExpression_frame [simp]:
  "databaseName (checkHasStreamProcessorNameMemberExpression n st) = databaseName st"
  "stageOperator (checkHasStreamProcessorNameMemberExpression n st) = stageOperator st"
  "isObjectKey (checkHasStreamProcessorNameMemberExpression n st) = isObjectKey st"
  "isIdentifierObjectValue (checkHasStreamProcessorNameMemberExpression n st) = isIdentifierObjectValue st"
  "isStage (checkHasStreamProcessorNameMemberExpression n st) = isStage st"
  "isCollectionSymbol (checkHasStreamProcessorNameMemberExpression n st) = isCollectionSymbol st"
  "isStreamProcessorSymbol (checkHasStreamProcessorNameMemberExpression n st) = isStreamProcessorSymbol st"
  "isGlobalSymbol (checkHasStreamProcessorNameMemberExpression n st) = isGlobalSymbol st"
  "isCollectionName (checkHasStreamProcessorNameMemberExpression n st) = isCollectionName st"
  "isStreamProcessorName (checkHasStreamProcessorNameMemberExpression n st) = isStreamProcessorName st"
  "isAggregationCursor (checkHasStreamProcessorNameMemberExpression n st) = isAggregationCursor st"
  "isFindCursor (checkHasStreamProcessorNameMemberExpression n st) = isFindCursor st"
  "isSpSymbol (checkHasStreamProcessorNameMemberExpression n st) = isSpSymbol st"
  by (simp_all add: checkHasStreamProcessorNameMemberExpression_def split: node.split list.split option.split)

lemma checkHasStreamProcessorNameCallExpression_frame [simp]:
  "databaseName (checkHasStreamProcessorNameCallExpression n st) = databaseName st"
  "stageOperator (checkHasStreamProcessorNameCallExpression n st) = stageOperator st"
  "isObjectKey (checkHasStreamProcessorNameCallExpression n st) = isObjectKey st"
  "isIdentifierObjectValue (checkHasStreamProcessorNameCallExpression n st) = isIdentifierObjectValue st"
  "isStage (checkHasStreamProcessorNameCallExpression n st) = isStage st"
  "isCollectionSymbol (checkHasStreamProcessorNameCallExpression n st) = isCollectionSymbol st"
  "isStreamProcessorSymbol (checkHasStreamProcessorNameCallExpression n st) = isStreamProcessorSymbol st"
  "isGlobalSymbol (checkHasStreamProcessorNameCallExpression n st) = isGlobalSymbol st"
  "isCollectionName (checkHasStreamProcessorNameCallExpression n st) = isCollectionName st"
  "isStreamProcessorName (checkHasStreamProcessorNameCallExpression n st) = isStreamProcessorName st"
  "isAggregationCursor (checkHasStreamProcessorNameCallExpression n st) = isAggregationCursor st"
  "isFindCursor (checkHasStreamProcessorNameCallExpression n st) = isFindCursor st"
  "isSpSymbol (checkHasStreamProcessorNameCallExpression n st) = isSpSymbol st"
  by (simp_all add: checkHasStreamProcessorNameCallExpression_def split: node.split list.split option.split)

lemma checkHasStreamProcessorName_frame [simp]:
  "databaseName (checkHasStreamProcessorName n st) = databaseName st"
  "stageOperator (checkHasStreamProcessorName n st) = stageOperator st"
  "isObjectKey (checkHasStreamProcessorName n st) = isObjectKey st"
  "isIdentifierObjectValue (checkHasStreamProcessorName n st) = isIdentifierObjectValue st"
  "isStage (checkHasStreamProcessorName n st) = isStage st"
  "isCollectionSymbol (checkHasStreamProcessorName n st) = isCollectionSymbol st"
  "isStreamProcessorSymbol (checkHasStreamProcessorName n st) = isStreamProcessorSymbol st"
  "isGlobalSymbol (checkHasStreamProcessorName n st) = isGlobalSymbol st"
  "isCollectionName (checkHasStreamProcessorName n st) = isCollectionName st"
  "isStreamProcessorName (checkHasStreamProcessorName n st) = isStreamProcessorName st"
  "isAggregationCursor (checkHasStreamProcessorName n st) = isAggregationCursor st"
  "isFindCursor (checkHasStreamProcessorName n st) = isFindCursor st"
  "isSpSymbol (checkHasStreamProcessorName n st) = isSpSymbol st"
  by (simp_all add: checkHasStreamProcessorName_def)

lemma checkIsStreamProcessorMemberExpression_frame [simp]:
  "databaseName (checkIsStreamProcessorMemberExpression n st) = databaseName st"
  "stageOperator (checkIsStreamProcessorMemberExpression n st) = stageOperator st"
  "isObjectKey (checkIsStreamProcessorMemberExpression n st) = isObjectKey st"
  "isIdentifierObjectValue (checkIsStreamProcessorMemberExpression n st) = isIdentifierObjectValue st"
  "isStage (checkIsStreamProcessorMemberExpression n st) = isStage st"
  "isCollectionSymbol (checkIsStreamProcessorMemberExpression n st) = isCollectionSymbol st"
  "isGlobalSymbol (checkIsStreamProcessorMemberExpression n st) = isGlobalSymbol st"
  "isCollectionName (checkIsStreamProcessorMemberExpression n st) = isCollectionName st"
  "isStreamProcessorName (checkIsStreamProcessorMemberExpression n st) = isStreamProcessorName st"
  "isAggregationCursor (checkIsStreamProcessorMemberExpression n st) = isAggregationCursor st"
  "isFindCursor (checkIsStreamProcessorMemberExpression n st) = isFindCursor st"
  "isSpSymbol (checkIsStreamProcessorMemberExpression n st) = isSpSymbol st"
  by (simp_all add: checkIsStreamProcessorMemberExpression_def)

lemma checkIsStreamProcessorCallExpression_frame [simp]:
  "databaseName (checkIsStreamProcessorCallExpression n st) = databaseName st"
  "stageOperator (checkIsStreamProcessorCallExpression n st) = stageOperator st"
  "isObjectKey (checkIsStreamProcessorCallExpression n st) = isObjectKey st"
  "isIdentifierObjectValue (checkIsStreamProcessorCallExpression n st) = isIdentifierObjectValue st"
  "isStage (checkIsStreamProcessorCallExpression n st) = isStage st"
  "isCollectionSymbol (checkIsStreamProcessorCallExpression n st) = isCollectionSymbol st"
  "isGlobalSymbol (checkIsStreamProcessorCallExpression n st) = isGlobalSymbol st"
  "isCollectionName (checkIsStreamProcessorCallExpression n st) = isCollectionName st"
  "isStreamProcessorName (checkIsStreamProcessorCallExpression n st) = isStreamProcessorName st"
  "isAggregationCursor (checkIsStreamProcessorCallExpression n st) = isAggregationCursor st"
  "isFindCursor (checkIsStreamProcessorCallExpression n st) = isFindCursor st"
  "isSpSymbol (checkIsStreamProcessorCallExpression n st) = isSpSymbol st"
  by (simp_all add: checkIsStreamProcessorCallExpression_def)

lemma checkIsStreamProcessorSymbol_frame [simp]:
  "databaseName (checkIsStreamProcessorSymbol n st) = databaseName st"
  "stageOperator (checkIsStreamProcessorSymbol n st) = stageOperator st"
  "isObjectKey (checkIsStreamProcessorSymbol n st) = isObjectKey st"
  "isIdentifierObjectValue (checkIsStreamProcessorSymbol n st) = isIdentifierObjectValue st"
  "isStage (checkIsStreamProcessorSymbol n st) = isStage st"
  "isCollectionSymbol (checkIsStreamProcessorSymbol n st) = isCollectionSymbol st"
  "isGlobalSymbol (checkIsStreamProcessorSymbol n st) = isGlobalSymbol st"
  "isCollectionName (checkIsStreamProcessorSymbol n st) = isCollectionName st"
  "isStreamProcessorName (checkIsStreamProcessorSymbol n st) = isStreamProcessorName st"
  "isAggregationCursor (checkIsStreamProcessorSymbol n st) = isAggregationCursor st"
  "isFindCursor (checkIsStreamProcessorSymbol n st) = isFindCursor st"
  "isSpSymbol (checkIsStreamProcessorSymbol n st) = isSpSymbol st"
  by (simp_all add: checkIsStreamProcessorSymbol_def)

text \<open>The checks that loop over properties or elements.\<close>

lemma fold_frame:
  assumes "\<And>x s. x \<in> set xs \<Longrightarrow> f (h x s) = f s"
  shows "f (fold h xs s) = f s"
  using assms by (induction xs arbitrary: s) simp_all

lemmas fold_frames =
  fold_frame [where f = databaseName]
  fold_frame [where f = stageOperator]
  fold_frame [where f = isObjectKey]
  fold_frame [where f = isIdentifierObjectValue]
  fold_frame [where f = isStage]
  fold_frame [where f = isCollectionSymbol]
  fold_frame [where f = isStreamProcessorSymbol]
  fold_frame [where f = isGlobalSymbol]
  fold_frame [where f = isCollectionName]
  fold_frame [where f = isStreamProcessorName]
  fold_frame [where f = isAggregationCursor]
  fold_frame [where f = isFindCursor]
  fold_frame [where f = isSpSymbol]

lemma checkIsObjectKey_frame [simp]:
  "databaseName (checkIsObjectKey n st) = databaseName st"
  "stageOperator (checkIsObjectKey n st) = stageOperator st"
  "isIdentifierObjectValue (checkIsObjectKey n st) = isIdentifierObjectValue st"
  "isStage (checkIsObjectKey n st) = isStage st"
  "isCollectionSymbol (checkIsObjectKey n st) = isCollectionSymbol st"
  "isStreamProcessorSymbol (checkIsObjectKey n st) = isStreamProcessorSymbol st"
  "isGlobalSymbol (checkIsObjectKey n st) = isGlobalSymbol st"
  "isCollectionName (checkIsObjectKey n st) = isCollectionName st"
  "isStreamProcessorName (checkIsObjectKey n st) = isStreamProcessorName st"
  "isAggregationCursor (checkIsObjectKey n st) = isAggregationCursor st"
  "isFindCursor (checkIsObjectKey n st) = isFindCursor st"
  "isSpSymbol (checkIsObjectKey n st) = isSpSymbol st"
  by (simp_all add: checkIsObjectKey_def fold_frames split: node.split)

lemma checkIsIdentifierObjectValue_frame [simp]:
  "databaseName (checkIsIdentifierObjectValue n st) = databaseName st"
  "stageOperator (checkIsIdentifierObjectValue n st) = stageOperator st"
  "isObjectKey (checkIsIdentifierObjectValue n st) = isObjectKey st"
  "isStage (checkIsIdentifierObjectValue n st) = isStage st"
  "isCollectionSymbol (checkIsIdentifierObjectValue n st) = isCollectionSymbol st"
  "isStreamProcessorSymbol (checkIsIdentifierObjectValue n st) = isStreamProcessorSymbol st"
  "isGlobalSymbol (checkIsIdentifierObjectValue n st) = isGlobalSymbol st"
  "isCollectionName (checkIsIdentifierObjectValue n st) = isCollectionName st"
  "isStreamProcessorName (checkIsIdentifierObjectValue n st) = isStreamProcessorName st"
  "isAggregationCursor (checkIsIdentifierObjectValue n st) = isAggregationCursor st"
  "isFindCursor (checkIsIdentifierObjectValue n st) = isFindCursor st"
  "isSpSymbol (checkIsIdentifierObjectValue n st) = isSpSymbol st"
  by (simp_all add: checkIsIdentifierObjectValue_def fold_frames split: node.split)

lemma checkIsTextObjectValue_frame [simp]:
  "databaseName (checkIsTextObjectValue n st) = databaseName st"
  "stageOperator (checkIsTextObjectValue n st) = stageOperator st"
  "isObjectKey (checkIsTextObjectValue n st) = isObjectKey st"
  "isIdentifierObjectValue (checkIsTextObjectValue n st) = isIdentifierObjectValue st"
  "isStage (checkIsTextObjectValue n st) = isStage st"
  "isCollectionSymbol (checkIsTextObjectValue n st) = isCollectionSymbol st"
  "isStreamProcessorSymbol (checkIsTextObjectValue n st) = isStreamProcessorSymbol st"
  "isGlobalSymbol (checkIsTextObjectValue n st) = isGlobalSymbol st"
  "isCollectionName (checkIsTextObjectValue n st) = isCollectionName st"
  "isStreamProcessorName (checkIsTextObjectValue n st) = isStreamProcessorName st"
  "isAggregationCursor (checkIsTextObjectValue n st) = isAggregationCursor st"
  "isFindCursor (checkIsTextObjectValue n st) = isFindCursor st"
  "isSpSymbol (checkIsTextObjectValue n st) = isSpSymbol st"
  by (simp_all add: checkIsTextObjectValue_def fold_frames split: node.split)

lemma checkIsStage_frame [simp]:
  "databaseName (checkIsStage n st) = databaseName st"
  "stageOperator (checkIsStage n st) = stageOperator st"
  "isObjectKey (checkIsStage n st) = isObjectKey st"
  "isIdentifierObjectValue (checkIsStage n st) = isIdentifierObjectValue st"
  "isCollectionSymbol (checkIsStage n st) = isCollectionSymbol st"
  "isStreamProcessorSymbol (checkIsStage n st) = isStreamProcessorSymbol st"
  "isGlobalSymbol (checkIsStage n st) = isGlobalSymbol st"
  "isCollectionName (checkIsStage n st) = isCollectionName st"
  "isStreamProcessorName (checkIsStage n st) = isStreamProcessorName st"
  "isAggregationCursor (checkIsStage n st) = isAggregationCursor st"
  "isFindCursor (checkIsStage n st) = isFindCursor st"
  "isSpSymbol (checkIsStage n st) = isSpSymbol st"
  by (simp_all add: checkIsStage_def fold_frames split: node.split option.split)

lemma checkStageProperty_frame [simp]:
  "databaseName (checkStageProperty n st) = databaseName st"
  "isObjectKey (checkStageProperty n st) = isObjectKey st"
  "isIdentifierObjectValue (checkStageProperty n st) = isIdentifierObjectValue st"
  "isStage (checkStageProperty n st) = isStage st"
  "isCollectionSymbol (checkStageProperty n st) = isCollectionSymbol st"
  "isStreamProcessorSymbol (checkStageProperty n st) = isStreamProcessorSymbol st"
  "isGlobalSymbol (checkStageProperty n st) = isGlobalSymbol st"
  "isCollectionName (checkStageProperty n st) = isCollectionName st"
  "isStreamProcessorName (checkStageProperty n st) = isStreamProcessorName st"
  "isAggregationCursor (checkStageProperty n st) = isAggregationCursor st"
  "isFindCursor (checkStageProperty n st) = isFindCursor st"
  "isSpSymbol (checkStageProperty n st) = isSpSymbol st"
  by (simp_all add: checkStageProperty_def fold_frames split: node.split)

lemma checkIsStageOperator_frame [simp]:
  "databaseName (checkIsStageOperator p st) = databaseName st"
  "isObjectKey (checkIsStageOperator p st) = isObjectKey st"
  "isIdentifierObjectValue (checkIsStageOperator p st) = isIdentifierObjectValue st"
  "isStage (checkIsStageOperator p st) = isStage st"
  "isCollectionSymbol (checkIsStageOperator p st) = isCollectionSymbol st"
  "isStreamProcessorSymbol (checkIsStageOperator p st) = isStreamProcessorSymbol st"
  "isGlobalSymbol (checkIsStageOperator p st) = isGlobalSymbol st"
  "isCollectionName (checkIsStageOperator p st) = isCollectionName st"
  "isStreamProcessorName (checkIsStageOperator p st) = isStreamProcessorName st"
  "isAggregationCursor (checkIsStageOperator p st) = isAggregationCursor st"
  "isFindCursor (checkIsStageOperator p st) = isFindCursor st"
  "isSpSymbol (checkIsStageOperator p st) = isSpSymbol st"
  by (simp_all add: checkIsStageOperator_def fold_frames split: node.split option.split)

text \<open>The five visiting methods.\<close>

lemma visitCallExpression_frame [simp]:
  "stageOperator (visitCallExpression sel p st) = stageOperator st"
  "isObjectKey (visitCallExpression sel p st) = isObjectKey st"
  "isIdentifierObjectValue (visitCallExpression sel p st) = isIdentifierObjectValue st"
  "isStage (visitCallExpression sel p st) = isStage st"
  "isCollectionSymbol (visitCallExpression sel p st) = isCollectionSymbol st"
  "isStreamProcessorSymbol (visitCallExpression sel p st) = isStreamProcessorSymbol st"
  "isGlobalSymbol (visitCallExpression sel p st) = isGlobalSymbol st"
  "isAggregationCursor (visitCallExpression sel p st) = isAggregationCursor st"
  "isFindCursor (visitCallExpression sel p st) = isFindCursor st"
  "isSpSymbol (visitCallExpression sel p st) = isSpSymbol st"
  by (simp_all add: visitCallExpression_def Let_def)

lemma visitMemberExpression_frame [simp]:
  "databaseName (visitMemberExpression p st) = databaseName st"
  "stageOperator (visitMemberExpression p st) = stageOperator st"
  "isObjectKey (visitMemberExpression p st) = isObjectKey st"
  "isIdentifierObjectValue (visitMemberExpression p st) = isIdentifierObjectValue st"
  "isStage (visitMemberExpression p st) = isStage st"
  "isGlobalSymbol (visitMemberExpression p st) = isGlobalSymbol st"
  by (simp_all add: visitMemberExpression_def Let_def)

lemma visitExpressionStatement_frame [simp]:
  "databaseName (visitExpressionStatement p st) = databaseName st"
  "stageOperator (visitExpressionStatement p st) = stageOperator st"
  "isObjectKey (visitExpressionStatement p st) = isObjectKey st"
  "isIdentifierObjectValue (visitExpressionStatement p st) = isIdentifierObjectValue st"
  "isStage (visitExpressionStatement p st) = isStage st"
  "isCollectionSymbol (visitExpressionStatement p st) = isCollectionSymbol st"
  "isStreamProcessorSymbol (visitExpressionStatement p st) = isStreamProcessorSymbol st"
  "isCollectionName (visitExpressionStatement p st) = isCollectionName st"
  "isStreamProcessorName (visitExpressionStatement p st) = isStreamProcessorName st"
  "isAggregationCursor (visitExpressionStatement p st) = isAggregationCursor st"
  "isFindCursor (visitExpressionStatement p st) = isFindCursor st"
  by (simp_all add: visitExpressionStatement_def Let_def)

lemma visitObjectExpression_frame [simp]:
  "databaseName (visitObjectExpression p st) = databaseName st"
  "stageOperator (visitObjectExpression p st) = stageOperator st"
  "isStage (visitObjectExpression p st) = isStage st"
  "isCollectionSymbol (visitObjectExpression p st) = isCollectionSymbol st"
  "isStreamProcessorSymbol (visitObjectExpression p st) = isStreamProcessorSymbol st"
  "isGlobalSymbol (visitObjectExpression p st) = isGlobalSymbol st"
  "isCollectionName (visitObjectExpression p st) = isCollectionName st"
  "isStreamProcessorName (visitObjectExpression p st) = isStreamProcessorName st"
  "isAggregationCursor (visitObjectExpression p st) = isAggregationCursor st"
  "isFindCursor (visitObjectExpression p st) = isFindCursor st"
  "isSpSymbol (visitObjectExpression p st) = isSpSymbol st"
  by (simp_all add: visitObjectExpression_def Let_def)

lemma visitArrayExpression_frame [simp]:
  "databaseName (visitArrayExpression p st) = databaseName st"
  "isObjectKey (visitArrayExpression p st) = isObjectKey st"
  "isIdentifierObjectValue (visitArrayExpression p st) = isIdentifierObjectValue st"
  "isCollectionSymbol (visitArrayExpression p st) = isCollectionSymbol st"
  "isStreamProcessorSymbol (visitArrayExpression p st) = isStreamProcessorSymbol st"
  "isGlobalSymbol (visitArrayExpression p st) = isGlobalSymbol st"
  "isCollectionName (visitArrayExpression p st) = isCollectionName st"
  "isStreamProcessorName (visitArrayExpression p st) = isStreamProcessorName st"
  "isAggregationCursor (visitArrayExpression p st) = isAggregationCursor st"
  "isFindCursor (visitArrayExpression p st) = isFindCursor st"
  "isSpSymbol (visitArrayExpression p st) = isSpSymbol st"
  by (simp_all add: visitArrayExpression_def Let_def)

section \<open>The database name\<close>

lemma checkHasDatabaseName_databaseName:
  "databaseName (checkHasDatabaseName sel n st) =
     (case useDatabaseName (sel_start sel) n of None \<Rightarrow> databaseName st | Some v \<Rightarrow> Some v)"
  by (simp add: checkHasDatabaseName_def useDatabaseName_def endsBeforeSelection_def
      endsAtOrBefore_def split: node.split list.split option.split)
    (auto)

lemma useDatabaseName_not_call: "\<not> isCallExpression n \<Longrightarrow> useDatabaseName c n = None"
  by (cases n) (simp_all add: useDatabaseName_def)

lemma enter_databaseName:
  "databaseName (enter sel p st) =
     (case useDatabaseName (sel_start sel) (fst (hd p)) of
        None \<Rightarrow> databaseName st | Some v \<Rightarrow> Some v)"
  by (simp add: enter_def visitCallExpression_def Let_def checkHasDatabaseName_databaseName
      useDatabaseName_not_call split: option.split)

lemma fold_enter_databaseName:
  "databaseName (fold (enter sel) ps st) =
     (case List.map_filter (\<lambda>p. useDatabaseName (sel_start sel) (fst (hd p))) ps of
        [] \<Rightarrow> databaseName st
      | vs \<Rightarrow> Some (last vs))"
proof (induction ps arbitrary: st)
  case Nil
  then show ?case by simp
next
  case (Cons p ps)
  show ?case
    by (cases "useDatabaseName (sel_start sel) (fst (hd p))")
      (simp_all add: Cons.IH enter_databaseName split: list.split)
qed

lemma completion_databaseName:
  assumes "handleTriggerCharacter textFromEditor position = Inr injected"
    and "parse injected = Some ast"
  shows "map_sum id databaseName (parseASTForCompletion parse textFromEditor position) =
     Inr (spec_databaseName position ast)"
  using assms
  by (simp add: parseASTForCompletion_def parseAST_def fold_enter_databaseName
      spec_databaseName_def getDefaultsForCompletion_def split: list.split)

lemma inject_use_between:
  "handleTriggerCharacter ''use('a'); db.x.find(); use('b'); db.y.find();''
     \<lparr>line = 0, character = 20\<rparr> =
   Inr ''use('a'); db.x.find(TRIGGER_CHARACTER); use('b'); db.y.find();''"
  by code_simp

lemma inject_use_after:
  "handleTriggerCharacter ''use('a'); db.x.find(); use('b'); db.y.find();''
     \<lparr>line = 0, character = 45\<rparr> =
   Inr ''use('a'); db.x.find(); use('b'); db.y.find();TRIGGER_CHARACTER''"
  by code_simp

lemma spec_use_between:
  "spec_databaseName \<lparr>line = 0, character = 20\<rparr> ast_use_between = Some ''a''"
  by code_simp

lemma spec_use_after:
  "spec_databaseName \<lparr>line = 0, character = 45\<rparr> ast_use_after = Some ''b''"
  by code_simp

lemma samples_use_between:
  "babelSamples ''use('a'); db.x.find(TRIGGER_CHARACTER); use('b'); db.y.find();'' =
     Some ast_use_between"
  by code_simp

lemma samples_use_after:
  "babelSamples ''use('a'); db.x.find(); use('b'); db.y.find();TRIGGER_CHARACTER'' =
     Some ast_use_after"
  by code_simp

text \<open>
  Claim C4, as amended. When the injected text parses, the database name of the returned
  state is the argument of the last call of \<^verbatim>\<open>use\<close>, in visiting order, that has a single
  string literal as argument and ends at or before the cursor; a call that ends after the
  cursor is never taken, and there is no name when no call qualifies. When the injected
  text does not parse there is no name. For the text
  \<^verbatim>\<open>use('a'); db.x.find(); use('b'); db.y.find();\<close> the cursor at character 20, between
  the two calls of \<^verbatim>\<open>use\<close> inside the parentheses of the first \<^verbatim>\<open>find\<close>, where the
  injected text is a program, gives \<^verbatim>\<open>a\<close>, and the cursor at the end of the text gives
  \<^verbatim>\<open>b\<close>.
\<close>

theorem database_name_last_use_before_cursor:
  "(handleTriggerCharacter textFromEditor position = Inr injected \<and> parse injected = Some ast \<longrightarrow>
      map_sum id databaseName (parseASTForCompletion parse textFromEditor position) =
        Inr (spec_databaseName position ast))
   \<and> (handleTriggerCharacter textFromEditor position = Inr injected \<and> parse injected = None \<longrightarrow>
      map_sum id databaseName (parseASTForCompletion parse textFromEditor position) = Inr None)
   \<and> (parse ''use('a'); db.x.find(TRIGGER_CHARACTER); use('b'); db.y.find();'' =
        Some ast_use_between \<longrightarrow>
      map_sum id databaseName
        (parseASTForCompletion parse ''use('a'); db.x.find(); use('b'); db.y.find();''
           \<lparr>line = 0, character = 20\<rparr>) = Inr (Some ''a''))
   \<and> (parse ''use('a'); db.x.find(); use('b'); db.y.find();TRIGGER_CHARACTER'' =
        Some ast_use_after \<longrightarrow>
      map_sum id databaseName
        (parseASTForCompletion parse ''use('a'); db.x.find(); use('b'); db.y.find();''
           \<lparr>line = 0, character = 45\<rparr>) = Inr (Some ''b''))"
  using completion_databaseName [of textFromEditor position injected parse ast]
    completion_parse_failure [of textFromEditor position injected parse]
    completion_databaseName [OF inject_use_between, of parse ast_use_between]
    completion_databaseName [OF inject_use_after, of parse ast_use_after]
  by (simp add: spec_use_between spec_use_after getDefaultsForCompletion_def)

lemma inject_use_semicolon:
  "handleTriggerCharacter ''use('a'); db.x.find(); use('b'); db.y.find();''
     \<lparr>line = 0, character = 9\<rparr> =
   Inr ''use('a');TRIGGER_CHARACTER db.x.find(); use('b'); db.y.find();''"
  by code_simp

lemma samples_use_semicolon:
  "babelSamples ''use('a');TRIGGER_CHARACTER db.x.find(); use('b'); db.y.find();'' = None"
  by code_simp

theorem database_name_last_use_before_cursor_witness:
  "map_sum id databaseName
     (parseASTForCompletion babelSamples ''use('a'); db.x.find(); use('b'); db.y.find();''
        \<lparr>line = 0, character = 20\<rparr>) =
     Inr (spec_databaseName \<lparr>line = 0, character = 20\<rparr> ast_use_between)
   \<and> map_sum id databaseName
     (parseASTForCompletion babelSamples ''use('a'); db.x.find(); use('b'); db.y.find();''
        \<lparr>line = 0, character = 9\<rparr>) = Inr None
   \<and> map_sum id databaseName
     (parseASTForCompletion babelSamples ''use('a'); db.x.find(); use('b'); db.y.find();''
        \<lparr>line = 0, character = 20\<rparr>) = Inr (Some ''a'')
   \<and> map_sum id databaseName
     (parseASTForCompletion babelSamples ''use('a'); db.x.find(); use('b'); db.y.find();''
        \<lparr>line = 0, character = 45\<rparr>) = Inr (Some ''b'')"
  using database_name_last_use_before_cursor [of
      "''use('a'); db.x.find(); use('b'); db.y.find();''" "\<lparr>line = 0, character = 20\<rparr>"
      "''use('a'); db.x.find(TRIGGER_CHARACTER); use('b'); db.y.find();''"
      babelSamples ast_use_between]
    database_name_last_use_before_cursor [of
      "''use('a'); db.x.find(); use('b'); db.y.find();''" "\<lparr>line = 0, character = 9\<rparr>"
      "''use('a');TRIGGER_CHARACTER db.x.find(); use('b'); db.y.find();''"
      babelSamples ast_use_between]
    inject_use_between samples_use_between samples_use_after
    inject_use_semicolon samples_use_semicolon
  by blast

text \<open>Claim C4 as stated covers every cursor between the two calls of \<^verbatim>\<open>use\<close>. With the
  cursor right after the semicolon of the first call the placeholder is an identifier
  followed, after a space, by the expression \<^verbatim>\<open>db.x.find()\<close>; the injected text is no
  program, and the state keeps its defaults: there is no database name.\<close>

theorem cursor_after_first_use_counterexample:
  "map_sum id databaseName
     (parseASTForCompletion babelSamples ''use('a'); db.x.find(); use('b'); db.y.find();''
        \<lparr>line = 0, character = 9\<rparr>) = Inr None"
proof -
  have "parseASTForCompletion babelSamples ''use('a'); db.x.find(); use('b'); db.y.find();''
      \<lparr>line = 0, character = 9\<rparr> = Inr getDefaultsForCompletion"
    by (simp add: parseASTForCompletion_def parseAST_def inject_use_semicolon
        samples_use_semicolon)
  then show ?thesis by (simp add: getDefaultsForCompletion_def)
qed

section \<open>The stage operator\<close>

lemma lastOr_append: "lastOr (ks @ ks') d = lastOr ks' (lastOr ks d)"
  by (cases ks; cases ks') (simp_all add: lastOr_def)

lemma stageOperator_setStage: "stageOperator (setStage ks st) = lastOr ks (stageOperator st)"
  by (cases ks) (simp_all add: setStage_def lastOr_def)

lemma setStage_append: "setStage ks' (setStage ks st) = setStage (ks @ ks') st"
  by (cases ks; cases ks') (simp_all add: setStage_def)

lemma fold_setStage:
  assumes "\<And>x s. x \<in> set xs \<Longrightarrow> h x s = setStage (g x) s"
  shows "fold h xs st = setStage (concat (map g xs)) st"
  using assms
proof (induction xs arbitrary: st)
  case Nil
  then show ?case by (simp add: setStage_def)
next
  case (Cons x xs)
  then show ?case by (simp add: setStage_append)
qed

lemma fold_if_update:
  assumes "\<And>s. u (u s) = u s"
  shows "fold (\<lambda>x s. if P x then u s else s) xs st = (if \<exists>x \<in> set xs. P x then u st else st)"
  by (induction xs arbitrary: st) (simp_all add: assms)

lemma startsWith_prefix: "startsWith s p \<longleftrightarrow> prefix p s"
  by (induction s p rule: startsWith.induct) auto

lemma str_includes_sublist: "str_includes s p \<longleftrightarrow> sublist p s"
  by (induction s) (simp_all add: startsWith_prefix sublist_Cons_right)

lemma holdsPlaceholderKey_unfold:
  "holdsPlaceholderKey n \<longleftrightarrow>
     isPlaceholderKey n \<or> (\<exists>c \<in> set (children n). holdsPlaceholderKey (fst c))"
  by (subst holdsPlaceholderKey.simps)
    (simp add: isPlaceholderKey_def str_includes_sublist split: node.split)

lemma paths_holdsPlaceholderKey:
  "(\<exists>p \<in> set (paths anc c). isPlaceholderKey (fst (hd p))) \<longleftrightarrow> holdsPlaceholderKey (fst c)"
proof (induction anc c rule: paths.induct)
  case (1 anc n k)
  show ?case
    using 1 by (subst paths.simps, subst holdsPlaceholderKey_unfold) auto
qed

lemma scopeTraverse_holdsPlaceholderKey:
  "(\<exists>p \<in> set (scopeTraverse item). isPlaceholderKey (fst (hd p))) \<longleftrightarrow>
   (\<exists>c \<in> set (children item). holdsPlaceholderKey (fst c))"
  by (simp add: scopeTraverse_def paths_holdsPlaceholderKey)

lemma checkStageProperty_setStage: "checkStageProperty item st = setStage (stageNames item) st"
proof (cases item)
  case (ObjectProperty l key v)
  show ?thesis
  proof (cases key)
    case (Identifier kl name)
    show ?thesis
    proof (cases v)
      case (ObjectExpression vl properties)
      have "fold (\<lambda>path st.
                if isPlaceholderKey (fst (hd path)) then st\<lparr>stageOperator := Some name\<rparr> else st)
              (scopeTraverse item) st =
            (if \<exists>path \<in> set (scopeTraverse item). isPlaceholderKey (fst (hd path))
             then st\<lparr>stageOperator := Some name\<rparr> else st)"
        by (rule fold_if_update) simp
      with ObjectProperty Identifier ObjectExpression show ?thesis
        by (simp add: checkStageProperty_def stageNames_def setStage_def
            scopeTraverse_holdsPlaceholderKey)
    qed (simp_all add: ObjectProperty Identifier checkStageProperty_def stageNames_def
        setStage_def)
  qed (simp_all add: ObjectProperty checkStageProperty_def stageNames_def setStage_def)
qed (simp_all add: checkStageProperty_def stageNames_def setStage_def)

lemma checkIsStageOperator_setStage:
  "checkIsStageOperator p st = setStage (arrayStageNames (fst (hd p))) st"
proof (cases "fst (hd p)")
  case (ArrayExpression l elements)
  have "fold (\<lambda>item st. case item of
            Some (ObjectExpression _ properties) \<Rightarrow> fold checkStageProperty properties st
          | _ \<Rightarrow> st) elements st =
      setStage (concat (map (\<lambda>item. case item of
            Some (ObjectExpression _ properties) \<Rightarrow> concat (map stageNames properties)
          | _ \<Rightarrow> []) elements)) st"
    by (rule fold_setStage)
      (simp add: fold_setStage [where g = stageNames] checkStageProperty_setStage setStage_def
        split: option.split node.split)
  with ArrayExpression show ?thesis
    by (simp add: checkIsStageOperator_def arrayStageNames_def)
qed (simp_all add: checkIsStageOperator_def arrayStageNames_def setStage_def)

lemma arrayStageNames_not_array: "\<not> isArrayExpression n \<Longrightarrow> arrayStageNames n = []"
  by (cases n) (simp_all add: arrayStageNames_def)

lemma enter_stageOperator:
  "stageOperator (enter sel p st) = lastOr (arrayStageNames (fst (hd p))) (stageOperator st)"
proof (cases "isArrayExpression (fst (hd p))")
  case True
  then show ?thesis
    by (simp add: enter_def visitArrayExpression_def Let_def checkIsStageOperator_setStage
        stageOperator_setStage)
next
  case False
  then show ?thesis
    by (simp add: enter_def visitArrayExpression_def Let_def arrayStageNames_not_array
        lastOr_def)
qed

lemma fold_enter_stageOperator:
  "stageOperator (fold (enter sel) ps st) =
     lastOr (concat (map (\<lambda>p. arrayStageNames (fst (hd p))) ps)) (stageOperator st)"
proof (induction ps arbitrary: st)
  case Nil
  then show ?case by (simp add: lastOr_def)
next
  case (Cons p ps)
  then show ?case by (simp add: enter_stageOperator lastOr_append)
qed

lemma completion_stageOperator:
  assumes "handleTriggerCharacter textFromEditor position = Inr injected"
    and "parse injected = Some ast"
  shows "map_sum id stageOperator (parseASTForCompletion parse textFromEditor position) =
     Inr (lastOr (stageCandidates ast) None)"
proof -
  have "stageOperator getDefaultsForCompletion = None"
    by (simp add: getDefaultsForCompletion_def)
  with assms show ?thesis
    by (simp add: parseASTForCompletion_def parseAST_def fold_enter_stageOperator
        stageCandidates_def)
qed

lemma arrayStageNames_member:
  assumes "Some (ObjectExpression ol properties) \<in> set elements"
    and "ObjectProperty pl (Identifier kl name) (ObjectExpression vl inner) \<in> set properties"
    and "holdsPlaceholderKey (ObjectExpression vl inner)"
  shows "name \<in> set (arrayStageNames (ArrayExpression al elements))"
proof -
  have "name \<in> set (stageNames (ObjectProperty pl (Identifier kl name)
      (ObjectExpression vl inner)))"
    using assms(3) by (simp add: stageNames_def)
  with assms(2) have "name \<in> set (concat (map stageNames properties))"
    by auto
  with assms(1) show ?thesis
    by (auto simp: arrayStageNames_def intro!: bexI [of _ "Some (ObjectExpression ol properties)"])
qed

lemma single_candidate: "length ks = 1 \<Longrightarrow> k \<in> set ks \<Longrightarrow> lastOr ks d = Some k"
  by (cases ks) (simp_all add: lastOr_def)

lemma inject_match_key:
  "handleTriggerCharacter ''db.orders.aggregate([{$match: {qty: {$gt: 5}}}])''
     \<lparr>line = 0, character = 31\<rparr> =
   Inr ''db.orders.aggregate([{$match: {TRIGGER_CHARACTERqty: {$gt: 5}}}])''"
  by code_simp

lemma inject_match_deep:
  "handleTriggerCharacter ''db.orders.aggregate([{$match: {qty: {$gt: 5}}}])''
     \<lparr>line = 0, character = 37\<rparr> =
   Inr ''db.orders.aggregate([{$match: {qty: {TRIGGER_CHARACTER$gt: 5}}}])''"
  by code_simp

lemma inject_match_value:
  "handleTriggerCharacter ''db.orders.aggregate([{$match: {qty: {$gt: 5}}}])''
     \<lparr>line = 0, character = 42\<rparr> =
   Inr ''db.orders.aggregate([{$match: {qty: {$gt: TRIGGER_CHARACTER5}}}])''"
  by code_simp

lemma inject_match_quoted:
  "handleTriggerCharacter ''db.orders.aggregate([{'$match': {qty: {$gt: 5}}}])''
     \<lparr>line = 0, character = 33\<rparr> =
   Inr ''db.orders.aggregate([{'$match': {TRIGGER_CHARACTERqty: {$gt: 5}}}])''"
  by code_simp

lemma samples_match_key:
  "babelSamples ''db.orders.aggregate([{$match: {TRIGGER_CHARACTERqty: {$gt: 5}}}])'' =
     Some ast_match_key"
  by code_simp

lemma samples_match_deep:
  "babelSamples ''db.orders.aggregate([{$match: {qty: {TRIGGER_CHARACTER$gt: 5}}}])'' =
     Some ast_match_deep"
  by code_simp

lemma samples_match_value:
  "babelSamples ''db.orders.aggregate([{$match: {qty: {$gt: TRIGGER_CHARACTER5}}}])'' =
     Some ast_match_value"
  by code_simp

lemma samples_match_quoted:
  "babelSamples ''db.orders.aggregate([{'$match': {TRIGGER_CHARACTERqty: {$gt: 5}}}])'' =
     Some ast_match_quoted"
  by code_simp

lemma traverse_match_key:
  "fold (enter \<lparr>sel_start = \<lparr>line = 0, character = 31\<rparr>,
                sel_end = \<lparr>line = 0, character = 0\<rparr>\<rparr>)
     (traversePaths ast_match_key) getDefaultsForCompletion =
   getDefaultsForCompletion
     \<lparr>collectionName := Some ''orders'', isObjectKey := True, stageOperator := Some ''$match''\<rparr>"
  by code_simp

lemma traverse_match_value:
  "fold (enter \<lparr>sel_start = \<lparr>line = 0, character = 42\<rparr>,
                sel_end = \<lparr>line = 0, character = 0\<rparr>\<rparr>)
     (traversePaths ast_match_value) getDefaultsForCompletion =
   getDefaultsForCompletion
     \<lparr>collectionName := Some ''orders'', isIdentifierObjectValue := True\<rparr>"
  by code_simp

lemma traverse_match_quoted:
  "fold (enter \<lparr>sel_start = \<lparr>line = 0, character = 33\<rparr>,
                sel_end = \<lparr>line = 0, character = 0\<rparr>\<rparr>)
     (traversePaths ast_match_quoted) getDefaultsForCompletion =
   getDefaultsForCompletion\<lparr>collectionName := Some ''orders'', isObjectKey := True\<rparr>"
  by code_simp

text \<open>
  Claim C2, as amended. When the injected text parses and the placeholder lies in the
  identifier key of an object property nested, at any depth, inside the object-literal
  value of a property with an identifier key of an object element of an array (a pipeline
  stage), and this stage is the only candidate of the tree (no array nested inside the
  stage holds a further one), \<open>stageOperator\<close> is the key name of the stage and not an inner
  key, however deep the cursor is; \<open>stageOperator\<close> is absent when the tree has no
  candidate. For \<^verbatim>\<open>db.orders.aggregate([{$match: {qty: {$gt: 5}}}])\<close> with the cursor at
  the start of the key \<^verbatim>\<open>qty\<close> the state has \<open>stageOperator = $match\<close> and \<open>isStage\<close>
  false.
\<close>

theorem stage_operator_of_enclosing_stage:
  "(handleTriggerCharacter textFromEditor position = Inr injected \<and> parse injected = Some ast \<and>
    p \<in> set (traversePaths ast) \<and> fst (hd p) = ArrayExpression al elements \<and>
    Some (ObjectExpression ol properties) \<in> set elements \<and>
    ObjectProperty pl (Identifier kl name) (ObjectExpression vl inner) \<in> set properties \<and>
    holdsPlaceholderKey (ObjectExpression vl inner) \<and>
    length (stageCandidates ast) = 1 \<longrightarrow>
      map_sum id stageOperator (parseASTForCompletion parse textFromEditor position) =
        Inr (Some name))
   \<and> (handleTriggerCharacter textFromEditor position = Inr injected \<and> parse injected = Some ast \<and>
       stageCandidates ast = [] \<longrightarrow>
      map_sum id stageOperator (parseASTForCompletion parse textFromEditor position) = Inr None)
   \<and> (parse ''db.orders.aggregate([{$match: {TRIGGER_CHARACTERqty: {$gt: 5}}}])'' =
        Some ast_match_key \<longrightarrow>
      map_sum id (\<lambda>st. (stageOperator st, isStage st))
        (parseASTForCompletion parse ''db.orders.aggregate([{$match: {qty: {$gt: 5}}}])''
           \<lparr>line = 0, character = 31\<rparr>) = Inr (Some ''$match'', False))"
proof (intro conjI impI)
  assume a: "handleTriggerCharacter textFromEditor position = Inr injected \<and>
    parse injected = Some ast \<and>
    p \<in> set (traversePaths ast) \<and> fst (hd p) = ArrayExpression al elements \<and>
    Some (ObjectExpression ol properties) \<in> set elements \<and>
    ObjectProperty pl (Identifier kl name) (ObjectExpression vl inner) \<in> set properties \<and>
    holdsPlaceholderKey (ObjectExpression vl inner) \<and>
    length (stageCandidates ast) = 1"
  then have p: "p \<in> set (traversePaths ast)"
    and arr: "fst (hd p) = ArrayExpression al elements"
    and len: "length (stageCandidates ast) = 1"
    by simp_all
  from a have "name \<in> set (arrayStageNames (ArrayExpression al elements))"
    by (blast intro: arrayStageNames_member)
  then have "name \<in> set (arrayStageNames (fst (hd p)))"
    by (simp only: arr)
  with p have "name \<in> set (stageCandidates ast)"
    unfolding stageCandidates_def by auto
  with len have "lastOr (stageCandidates ast) None = Some name"
    by (rule single_candidate)
  with a show "map_sum id stageOperator (parseASTForCompletion parse textFromEditor position) =
      Inr (Some name)"
    by (simp add: completion_stageOperator)
next
  assume "handleTriggerCharacter textFromEditor position = Inr injected \<and>
    parse injected = Some ast \<and> stageCandidates ast = []"
  then show "map_sum id stageOperator (parseASTForCompletion parse textFromEditor position) =
      Inr None"
    by (simp add: completion_stageOperator lastOr_def)
next
  assume "parse ''db.orders.aggregate([{$match: {TRIGGER_CHARACTERqty: {$gt: 5}}}])'' =
    Some ast_match_key"
  then have "parseASTForCompletion parse ''db.orders.aggregate([{$match: {qty: {$gt: 5}}}])''
      \<lparr>line = 0, character = 31\<rparr> =
    Inr (getDefaultsForCompletion
      \<lparr>collectionName := Some ''orders'', isObjectKey := True,
        stageOperator := Some ''$match''\<rparr>)"
    by (simp add: parseASTForCompletion_def parseAST_def inject_match_key traverse_match_key)
  then show "map_sum id (\<lambda>st. (stageOperator st, isStage st))
      (parseASTForCompletion parse ''db.orders.aggregate([{$match: {qty: {$gt: 5}}}])''
         \<lparr>line = 0, character = 31\<rparr>) = Inr (Some ''$match'', False)"
    by (simp add: getDefaultsForCompletion_def)
qed

lemma path_match_deep:
  "path_match_deep \<in> set (traversePaths ast_match_deep)"
  "fst (hd path_match_deep) =
     ArrayExpression (L 1 20 1 64)
       [Some (ObjectExpression (L 1 21 1 63)
          [ObjectProperty (L 1 22 1 62) (Identifier (L 1 22 1 28) ''$match'')
             (ObjectExpression (L 1 30 1 62)
                [ObjectProperty (L 1 31 1 61) (Identifier (L 1 31 1 34) ''qty'')
                   (ObjectExpression (L 1 36 1 61)
                      [ObjectProperty (L 1 37 1 60)
                         (Identifier (L 1 37 1 57) ''TRIGGER_CHARACTER$gt'')
                         (Other ''NumericLiteral'' (L 1 59 1 60) [])])])])]"
  by code_simp+

lemma holds_match_deep:
  "holdsPlaceholderKey
     (ObjectExpression (L 1 30 1 62)
        [ObjectProperty (L 1 31 1 61) (Identifier (L 1 31 1 34) ''qty'')
           (ObjectExpression (L 1 36 1 61)
              [ObjectProperty (L 1 37 1 60)
                 (Identifier (L 1 37 1 57) ''TRIGGER_CHARACTER$gt'')
                 (Other ''NumericLiteral'' (L 1 59 1 60) [])])])"
  by code_simp

lemma candidates_match_deep: "length (stageCandidates ast_match_deep) = 1"
  by code_simp

lemma candidates_match_value: "stageCandidates ast_match_value = []"
  by code_simp

theorem stage_operator_of_enclosing_stage_witness:
  "map_sum id stageOperator
     (parseASTForCompletion babelSamples ''db.orders.aggregate([{$match: {qty: {$gt: 5}}}])''
        \<lparr>line = 0, character = 37\<rparr>) = Inr (Some ''$match'')
   \<and> map_sum id stageOperator
     (parseASTForCompletion babelSamples ''db.orders.aggregate([{$match: {qty: {$gt: 5}}}])''
        \<lparr>line = 0, character = 42\<rparr>) = Inr None
   \<and> map_sum id (\<lambda>st. (stageOperator st, isStage st))
     (parseASTForCompletion babelSamples ''db.orders.aggregate([{$match: {qty: {$gt: 5}}}])''
        \<lparr>line = 0, character = 31\<rparr>) = Inr (Some ''$match'', False)"
proof -
  have "Some (ObjectExpression (L 1 21 1 63)
          [ObjectProperty (L 1 22 1 62) (Identifier (L 1 22 1 28) ''$match'')
             (ObjectExpression (L 1 30 1 62)
                [ObjectProperty (L 1 31 1 61) (Identifier (L 1 31 1 34) ''qty'')
                   (ObjectExpression (L 1 36 1 61)
                      [ObjectProperty (L 1 37 1 60)
                         (Identifier (L 1 37 1 57) ''TRIGGER_CHARACTER$gt'')
                         (Other ''NumericLiteral'' (L 1 59 1 60) [])])])])
      \<in> set [Some (ObjectExpression (L 1 21 1 63)
          [ObjectProperty (L 1 22 1 62) (Identifier (L 1 22 1 28) ''$match'')
             (ObjectExpression (L 1 30 1 62)
                [ObjectProperty (L 1 31 1 61) (Identifier (L 1 31 1 34) ''qty'')
                   (ObjectExpression (L 1 36 1 61)
                      [ObjectProperty (L 1 37 1 60)
                         (Identifier (L 1 37 1 57) ''TRIGGER_CHARACTER$gt'')
                         (Other ''NumericLiteral'' (L 1 59 1 60) [])])])])]"
    and "ObjectProperty (L 1 22 1 62) (Identifier (L 1 22 1 28) ''$match'')
             (ObjectExpression (L 1 30 1 62)
                [ObjectProperty (L 1 31 1 61) (Identifier (L 1 31 1 34) ''qty'')
                   (ObjectExpression (L 1 36 1 61)
                      [ObjectProperty (L 1 37 1 60)
                         (Identifier (L 1 37 1 57) ''TRIGGER_CHARACTER$gt'')
                         (Other ''NumericLiteral'' (L 1 59 1 60) [])])])
      \<in> set [ObjectProperty (L 1 22 1 62) (Identifier (L 1 22 1 28) ''$match'')
             (ObjectExpression (L 1 30 1 62)
                [ObjectProperty (L 1 31 1 61) (Identifier (L 1 31 1 34) ''qty'')
                   (ObjectExpression (L 1 36 1 61)
                      [ObjectProperty (L 1 37 1 60)
                         (Identifier (L 1 37 1 57) ''TRIGGER_CHARACTER$gt'')
                         (Other ''NumericLiteral'' (L 1 59 1 60) [])])])]"
    by simp_all
  with stage_operator_of_enclosing_stage [of
      "''db.orders.aggregate([{$match: {qty: {$gt: 5}}}])''" "\<lparr>line = 0, character = 37\<rparr>"
      "''db.orders.aggregate([{$match: {qty: {TRIGGER_CHARACTER$gt: 5}}}])''"
      babelSamples ast_match_deep path_match_deep "L 1 20 1 64"
      "[Some (ObjectExpression (L 1 21 1 63)
          [ObjectProperty (L 1 22 1 62) (Identifier (L 1 22 1 28) ''$match'')
             (ObjectExpression (L 1 30 1 62)
                [ObjectProperty (L 1 31 1 61) (Identifier (L 1 31 1 34) ''qty'')
                   (ObjectExpression (L 1 36 1 61)
                      [ObjectProperty (L 1 37 1 60)
                         (Identifier (L 1 37 1 57) ''TRIGGER_CHARACTER$gt'')
                         (Other ''NumericLiteral'' (L 1 59 1 60) [])])])])]"
      "L 1 21 1 63"
      "[ObjectProperty (L 1 22 1 62) (Identifier (L 1 22 1 28) ''$match'')
             (ObjectExpression (L 1 30 1 62)
                [ObjectProperty (L 1 31 1 61) (Identifier (L 1 31 1 34) ''qty'')
                   (ObjectExpression (L 1 36 1 61)
                      [ObjectProperty (L 1 37 1 60)
                         (Identifier (L 1 37 1 57) ''TRIGGER_CHARACTER$gt'')
                         (Other ''NumericLiteral'' (L 1 59 1 60) [])])])]"
      "L 1 22 1 62" "L 1 22 1 28" "''$match''" "L 1 30 1 62"
      "[ObjectProperty (L 1 31 1 61) (Identifier (L 1 31 1 34) ''qty'')
                   (ObjectExpression (L 1 36 1 61)
                      [ObjectProperty (L 1 37 1 60)
                         (Identifier (L 1 37 1 57) ''TRIGGER_CHARACTER$gt'')
                         (Other ''NumericLiteral'' (L 1 59 1 60) [])])]"]
    stage_operator_of_enclosing_stage [of
      "''db.orders.aggregate([{$match: {qty: {$gt: 5}}}])''" "\<lparr>line = 0, character = 42\<rparr>"
      "''db.orders.aggregate([{$match: {qty: {$gt: TRIGGER_CHARACTER5}}}])''"
      babelSamples ast_match_value]
    inject_match_deep samples_match_deep path_match_deep holds_match_deep
    candidates_match_deep inject_match_value samples_match_value candidates_match_value
    samples_match_key
  show ?thesis by blast
qed

text \<open>Claim C2 as stated covers every cursor inside the value of a stage, and every
  property of an object element of an array. With the cursor in front of the \<^verbatim>\<open>5\<close> the
  placeholder is an identifier in value position, and \<open>stageOperator\<close> stays absent; and
  with the key of the stage written as a string, \<^verbatim>\<open>'$match'\<close>, and the cursor at the start
  of the key \<^verbatim>\<open>qty\<close>, it stays absent as well.\<close>

theorem stage_operator_absent_counterexample:
  "map_sum id stageOperator
     (parseASTForCompletion babelSamples ''db.orders.aggregate([{$match: {qty: {$gt: 5}}}])''
        \<lparr>line = 0, character = 42\<rparr>) = Inr None
   \<and> map_sum id stageOperator
     (parseASTForCompletion babelSamples ''db.orders.aggregate([{'$match': {qty: {$gt: 5}}}])''
        \<lparr>line = 0, character = 33\<rparr>) = Inr None"
proof -
  have "parseASTForCompletion babelSamples ''db.orders.aggregate([{$match: {qty: {$gt: 5}}}])''
      \<lparr>line = 0, character = 42\<rparr> =
    Inr (getDefaultsForCompletion
      \<lparr>collectionName := Some ''orders'', isIdentifierObjectValue := True\<rparr>)"
    by (simp add: parseASTForCompletion_def parseAST_def inject_match_value
        samples_match_value traverse_match_value)
  moreover have "parseASTForCompletion babelSamples
      ''db.orders.aggregate([{'$match': {qty: {$gt: 5}}}])'' \<lparr>line = 0, character = 33\<rparr> =
    Inr (getDefaultsForCompletion\<lparr>collectionName := Some ''orders'', isObjectKey := True\<rparr>)"
    by (simp add: parseASTForCompletion_def parseAST_def inject_match_quoted
        samples_match_quoted traverse_match_quoted)
  ultimately show ?thesis by (simp add: getDefaultsForCompletion_def)
qed

section \<open>A placeholder inside a string\<close>

lemma noIdentifierPlaceholder_child:
  "noIdentifierPlaceholder n \<Longrightarrow> c \<in> set (children n) \<Longrightarrow> noIdentifierPlaceholder (fst c)"
  by (subst (asm) noIdentifierPlaceholder.simps) blast

lemma noIdentifierPlaceholder_Identifier:
  "noIdentifierPlaceholder (Identifier l name) \<Longrightarrow> \<not> str_includes name PLACEHOLDER"
  by (subst (asm) noIdentifierPlaceholder.simps) simp

lemma noIdentifierPlaceholder_paths:
  "noIdentifierPlaceholder (fst c) \<Longrightarrow> p \<in> set (paths anc c) \<Longrightarrow>
     noIdentifierPlaceholder (fst (hd p))"
proof (induction anc c arbitrary: p rule: paths.induct)
  case (1 anc n k)
  from "1.prems"(2) consider "p = (n, k) # anc"
    | c where "c \<in> set (children n)" "p \<in> set (paths ((n, k) # anc) c)"
    by (subst (asm) paths.simps) auto
  then show ?case
  proof cases
    case 1
    with "1.prems"(1) show ?thesis by simp
  next
    case 2
    with "1.prems"(1) have "noIdentifierPlaceholder (fst c)"
      by (auto dest: noIdentifierPlaceholder_child)
    with 2 "1.IH" show ?thesis by blast
  qed
qed

lemma noIdentifierPlaceholder_key:
  "noIdentifierPlaceholder item \<Longrightarrow> \<not> isPlaceholderKey item"
proof
  assume no: "noIdentifierPlaceholder item" and key: "isPlaceholderKey item"
  from key obtain l kl name v where item: "item = ObjectProperty l (Identifier kl name) v"
    and inc: "str_includes name PLACEHOLDER"
    by (auto simp: isPlaceholderKey_def split: node.splits)
  from no item have "noIdentifierPlaceholder (Identifier kl name)"
    using noIdentifierPlaceholder_child [of item "(Identifier kl name, ''key'')"] by simp
  with inc show False by (auto dest: noIdentifierPlaceholder_Identifier)
qed

lemma checkIsObjectKey_noIdentifier:
  assumes "noIdentifierPlaceholder n"
  shows "isObjectKey (checkIsObjectKey n st) = isObjectKey st"
proof (cases n)
  case (ObjectExpression l properties)
  have "\<not> isPlaceholderKey x" if "x \<in> set properties" for x
    using noIdentifierPlaceholder_child [OF assms, of "(x, ''properties'')"] that ObjectExpression
    by (auto dest: noIdentifierPlaceholder_key)
  with ObjectExpression show ?thesis
    by (simp add: checkIsObjectKey_def fold_frames)
qed (simp_all add: checkIsObjectKey_def)

lemma checkIsStage_noIdentifier:
  assumes "noIdentifierPlaceholder n"
  shows "isStage (checkIsStage n st) = isStage st"
proof (cases n)
  case (ArrayExpression l elements)
  have "\<not> isPlaceholderKey x"
    if "Some (ObjectExpression ol properties) \<in> set elements" "x \<in> set properties"
    for ol properties x
  proof -
    from that(1) ArrayExpression
    have "(ObjectExpression ol properties, ''elements'') \<in> set (children n)"
      by force
    from noIdentifierPlaceholder_child [OF assms this]
    have "noIdentifierPlaceholder (ObjectExpression ol properties)" by simp
    from noIdentifierPlaceholder_child [OF this, of "(x, ''properties'')"] that(2)
    show ?thesis by (auto dest: noIdentifierPlaceholder_key)
  qed
  then have inner: "isStage (fold (\<lambda>item st.
        if isPlaceholderKey item then st\<lparr>isStage := True\<rparr> else st) properties s) = isStage s"
    if "Some (ObjectExpression ol properties) \<in> set elements" for ol properties s
    using that by (simp add: fold_frames)
  have outer: "isStage (case item of
        Some (ObjectExpression _ properties) \<Rightarrow>
          fold (\<lambda>item st. if isPlaceholderKey item then st\<lparr>isStage := True\<rparr> else st)
            properties s
      | _ \<Rightarrow> s) = isStage s" if "item \<in> set elements" for item s
    using that inner by (auto split: option.split node.split)
  have "isStage (fold (\<lambda>item st. case item of
        Some (ObjectExpression _ properties) \<Rightarrow>
          fold (\<lambda>item st. if isPlaceholderKey item then st\<lparr>isStage := True\<rparr> else st)
            properties st
      | _ \<Rightarrow> st) elements st) = isStage st"
    by (rule fold_frame) (rule outer, assumption)
  with ArrayExpression show ?thesis
    by (simp add: checkIsStage_def)
qed (simp_all add: checkIsStage_def)

lemma checkIsGlobalSymbol_noIdentifier:
  assumes "noIdentifierPlaceholder n"
  shows "isGlobalSymbol (checkIsGlobalSymbol n st) = isGlobalSymbol st"
proof (cases n)
  case (ExpressionStatement l e)
  show ?thesis
  proof (cases e)
    case (Identifier il name)
    from noIdentifierPlaceholder_child [OF assms, of "(e, ''expression'')"] ExpressionStatement
    have "noIdentifierPlaceholder e" by simp
    with Identifier have "\<not> str_includes name ''TRIGGER_CHARACTER''"
      by (auto dest: noIdentifierPlaceholder_Identifier simp: PLACEHOLDER_def)
    with ExpressionStatement Identifier show ?thesis
      by (simp add: checkIsGlobalSymbol_def)
  qed (simp_all add: ExpressionStatement checkIsGlobalSymbol_def)
qed (simp_all add: checkIsGlobalSymbol_def)

lemma enter_noIdentifier:
  assumes "noIdentifierPlaceholder (fst (hd p))"
  shows "isObjectKey (enter sel p st) = isObjectKey st"
    and "isStage (enter sel p st) = isStage st"
    and "isGlobalSymbol (enter sel p st) = isGlobalSymbol st"
  using assms
  by (simp_all add: enter_def visitObjectExpression_def visitArrayExpression_def
      visitExpressionStatement_def Let_def checkIsObjectKey_noIdentifier
      checkIsStage_noIdentifier checkIsGlobalSymbol_noIdentifier)

lemma fold_enter_noIdentifier:
  assumes "\<forall>p \<in> set ps. noIdentifierPlaceholder (fst (hd p))"
  shows "isObjectKey (fold (enter sel) ps st) = isObjectKey st"
    and "isStage (fold (enter sel) ps st) = isStage st"
    and "isGlobalSymbol (fold (enter sel) ps st) = isGlobalSymbol st"
  using assms by (induction ps arbitrary: st) (simp_all add: enter_noIdentifier)

lemma traversePaths_noIdentifier:
  assumes "noIdentifierPlaceholder program" and "p \<in> set (traversePaths (File program))"
  shows "noIdentifierPlaceholder (fst (hd p))"
  using assms noIdentifierPlaceholder_paths [of "(program, ''program'')" p "[]"] by simp

lemma noIdentifierPlaceholder_property:
  assumes "noIdentifierPlaceholder (MemberExpression l ob (Identifier pl name) c)"
  shows "\<not> str_includes name PLACEHOLDER"
  using noIdentifierPlaceholder_child [OF assms, of "(Identifier pl name, ''property'')"]
  by (auto dest: noIdentifierPlaceholder_Identifier)

lemma member_checks_noIdentifier:
  assumes "noIdentifierPlaceholder n"
  shows "isAggregationCursor (checkHasAggregationCall n st) = isAggregationCursor st"
    and "isFindCursor (checkHasFindCall n st) = isFindCursor st"
    and "isCollectionSymbol (checkIsCollectionSymbol n st) = isCollectionSymbol st"
    and "isStreamProcessorSymbol (checkIsStreamProcessorSymbol n st) = isStreamProcessorSymbol st"
proof -
  have "checkHasAggregationCall n st = st \<and> checkHasFindCall n st = st \<and>
      checkIsCollectionSymbol n st = st \<and> checkIsStreamProcessorSymbol n st = st"
  proof (cases n)
    case (MemberExpression l ob property c)
    show ?thesis
    proof (cases property)
      case (Identifier pl name)
      with assms MemberExpression have "\<not> str_includes name PLACEHOLDER"
        by (auto dest: noIdentifierPlaceholder_property)
      with MemberExpression Identifier show ?thesis
        by (simp add: checkHasAggregationCall_def checkHasFindCall_def
            checkIsCollectionSymbol_def checkIsCollectionMemberExpression_def
            checkIsCollectionCallExpression_def checkIsStreamProcessorSymbol_def
            checkIsStreamProcessorMemberExpression_def
            checkIsStreamProcessorCallExpression_def split: node.split)
    qed (simp_all add: MemberExpression checkHasAggregationCall_def checkHasFindCall_def
        checkIsCollectionSymbol_def checkIsCollectionMemberExpression_def
        checkIsCollectionCallExpression_def checkIsStreamProcessorSymbol_def
        checkIsStreamProcessorMemberExpression_def
        checkIsStreamProcessorCallExpression_def split: node.split)
  qed (simp_all add: checkHasAggregationCall_def checkHasFindCall_def
      checkIsCollectionSymbol_def checkIsCollectionMemberExpression_def
      checkIsCollectionCallExpression_def checkIsStreamProcessorSymbol_def
      checkIsStreamProcessorMemberExpression_def
      checkIsStreamProcessorCallExpression_def)
  then show "isAggregationCursor (checkHasAggregationCall n st) = isAggregationCursor st"
    and "isFindCursor (checkHasFindCall n st) = isFindCursor st"
    and "isCollectionSymbol (checkIsCollectionSymbol n st) = isCollectionSymbol st"
    and "isStreamProcessorSymbol (checkIsStreamProcessorSymbol n st) = isStreamProcessorSymbol st"
    by simp_all
qed

lemma checkIsIdentifierObjectValue_noIdentifier:
  assumes "noIdentifierPlaceholder n"
  shows "isIdentifierObjectValue (checkIsIdentifierObjectValue n st) = isIdentifierObjectValue st"
proof (cases n)
  case (ObjectExpression l properties)
  have "\<not> (case x of
            ObjectProperty _ _ (Identifier _ name) \<Rightarrow> str_includes name PLACEHOLDER
          | _ \<Rightarrow> False)" if "x \<in> set properties" for x
  proof (cases x)
    case (ObjectProperty pl key v)
    show ?thesis
    proof (cases v)
      case (Identifier vl name)
      from noIdentifierPlaceholder_child [OF assms, of "(x, ''properties'')"] that
        ObjectExpression
      have "noIdentifierPlaceholder x" by simp
      from noIdentifierPlaceholder_child [OF this, of "(v, ''value'')"] ObjectProperty
      have "noIdentifierPlaceholder v" by simp
      with Identifier ObjectProperty show ?thesis
        by (auto dest: noIdentifierPlaceholder_Identifier)
    qed (simp_all add: ObjectProperty)
  qed simp_all
  with ObjectExpression show ?thesis
    by (simp add: checkIsIdentifierObjectValue_def fold_frames)
qed (simp_all add: checkIsIdentifierObjectValue_def)

lemma noIdentifierPlaceholder_holds:
  "noIdentifierPlaceholder n \<Longrightarrow> \<not> holdsPlaceholderKey n"
proof (induction n rule: holdsPlaceholderKey.induct)
  case (1 n)
  from "1.prems" have "\<not> isPlaceholderKey n"
    by (rule noIdentifierPlaceholder_key)
  moreover have "\<not> holdsPlaceholderKey (fst c)" if "c \<in> set (children n)" for c
    using "1.IH" [OF that] noIdentifierPlaceholder_child [OF "1.prems" that] by simp
  ultimately show ?case
    by (subst holdsPlaceholderKey_unfold) blast
qed

lemma stageNames_noIdentifier: "noIdentifierPlaceholder item \<Longrightarrow> stageNames item = []"
  by (auto simp: stageNames_def split: node.split
      dest: noIdentifierPlaceholder_child noIdentifierPlaceholder_holds)

lemma arrayStageNames_noIdentifier:
  assumes "noIdentifierPlaceholder n"
  shows "arrayStageNames n = []"
proof (cases n)
  case (ArrayExpression l elements)
  have "stageNames x = []"
    if "Some (ObjectExpression ol properties) \<in> set elements" "x \<in> set properties"
    for ol properties x
  proof -
    from that(1) ArrayExpression
    have "(ObjectExpression ol properties, ''elements'') \<in> set (children n)"
      by force
    from noIdentifierPlaceholder_child [OF assms this]
    have "noIdentifierPlaceholder (ObjectExpression ol properties)" by simp
    from noIdentifierPlaceholder_child [OF this, of "(x, ''properties'')"] that(2)
    show ?thesis by (simp add: stageNames_noIdentifier)
  qed
  with ArrayExpression show ?thesis
    by (auto simp: arrayStageNames_def split: option.split node.split)
qed (simp_all add: arrayStageNames_def)

lemma enter_noIdentifier_more:
  assumes "noIdentifierPlaceholder (fst (hd p))"
  shows "isIdentifierObjectValue (enter sel p st) = isIdentifierObjectValue st"
    and "isCollectionSymbol (enter sel p st) = isCollectionSymbol st"
    and "isStreamProcessorSymbol (enter sel p st) = isStreamProcessorSymbol st"
    and "isAggregationCursor (enter sel p st) = isAggregationCursor st"
    and "isFindCursor (enter sel p st) = isFindCursor st"
  using assms
  by (simp_all add: enter_def visitObjectExpression_def visitMemberExpression_def Let_def
      checkIsIdentifierObjectValue_noIdentifier member_checks_noIdentifier)

lemma enter_noIdentifier_stageOperator:
  assumes "noIdentifierPlaceholder (fst (hd p))"
  shows "stageOperator (enter sel p st) = stageOperator st"
  using assms by (simp add: enter_stageOperator arrayStageNames_noIdentifier lastOr_def)

lemma fold_enter_noIdentifier_more:
  assumes "\<forall>p \<in> set ps. noIdentifierPlaceholder (fst (hd p))"
  shows "isIdentifierObjectValue (fold (enter sel) ps st) = isIdentifierObjectValue st"
    and "isCollectionSymbol (fold (enter sel) ps st) = isCollectionSymbol st"
    and "isStreamProcessorSymbol (fold (enter sel) ps st) = isStreamProcessorSymbol st"
    and "isAggregationCursor (fold (enter sel) ps st) = isAggregationCursor st"
    and "isFindCursor (fold (enter sel) ps st) = isFindCursor st"
    and "stageOperator (fold (enter sel) ps st) = stageOperator st"
  using assms
  by (induction ps arbitrary: st)
    (simp_all add: enter_noIdentifier_more enter_noIdentifier_stageOperator)

text \<open>
  Claim C6, as amended. When the injected text parses to a tree in which no identifier
  includes the placeholder, as it is when the placeholder lies inside a string or a
  template literal, the fields \<open>isObjectKey\<close>, \<open>isStage\<close>, \<open>isGlobalSymbol\<close>,
  \<open>isIdentifierObjectValue\<close>, \<open>isCollectionSymbol\<close>, \<open>isStreamProcessorSymbol\<close>,
  \<open>isAggregationCursor\<close> and \<open>isFindCursor\<close> of the returned state are false and
  \<open>stageOperator\<close> is absent: only \<open>isTextObjectValue\<close>, \<open>isCollectionName\<close>,
  \<open>isStreamProcessorName\<close>, \<open>isUseCallExpression\<close>, \<open>isDbSymbol\<close>, \<open>isSpSymbol\<close> and
  the three names can be set.
\<close>

theorem placeholder_in_string_leaves_structure:
  assumes "handleTriggerCharacter textFromEditor position = Inr injected"
    and "parse injected = Some (File program)"
    and "noIdentifierPlaceholder program"
  shows "map_sum id
      (\<lambda>st. (isObjectKey st, isStage st, isGlobalSymbol st, isIdentifierObjectValue st,
             isCollectionSymbol st, isStreamProcessorSymbol st, isAggregationCursor st,
             isFindCursor st, stageOperator st))
      (parseASTForCompletion parse textFromEditor position) =
    Inr (False, False, False, False, False, False, False, False, None)"
proof -
  let ?sel = "\<lparr>sel_start = position, sel_end = \<lparr>line = 0, character = 0\<rparr>\<rparr>"
  have all: "\<forall>p \<in> set (traversePaths (File program)). noIdentifierPlaceholder (fst (hd p))"
    using assms(3) by (blast intro: traversePaths_noIdentifier)
  note kept = fold_enter_noIdentifier [OF all, of ?sel getDefaultsForCompletion]
    fold_enter_noIdentifier_more [OF all, of ?sel getDefaultsForCompletion]
  have "isObjectKey getDefaultsForCompletion = False" "isStage getDefaultsForCompletion = False"
    "isGlobalSymbol getDefaultsForCompletion = False"
    "isIdentifierObjectValue getDefaultsForCompletion = False"
    "isCollectionSymbol getDefaultsForCompletion = False"
    "isStreamProcessorSymbol getDefaultsForCompletion = False"
    "isAggregationCursor getDefaultsForCompletion = False"
    "isFindCursor getDefaultsForCompletion = False"
    "stageOperator getDefaultsForCompletion = None"
    by (simp_all add: getDefaultsForCompletion_def)
  with kept assms(1,2) show ?thesis
    by (simp add: parseASTForCompletion_def parseAST_def)
qed

lemma inject_use_string:
  "handleTriggerCharacter ''use('a')'' \<lparr>line = 0, character = 6\<rparr> =
     Inr ''use('aTRIGGER_CHARACTER')''"
  by code_simp

lemma samples_use_string: "babelSamples ''use('aTRIGGER_CHARACTER')'' = Some ast_use_string"
  by code_simp

theorem placeholder_in_string_leaves_structure_witness:
  "map_sum id
      (\<lambda>st. (isObjectKey st, isStage st, isGlobalSymbol st, isIdentifierObjectValue st,
             isCollectionSymbol st, isStreamProcessorSymbol st, isAggregationCursor st,
             isFindCursor st, stageOperator st))
      (parseASTForCompletion babelSamples ''use('a')'' \<lparr>line = 0, character = 6\<rparr>) =
    Inr (False, False, False, False, False, False, False, False, None)"
proof -
  have "noIdentifierPlaceholder
      (Other ''Program'' (L 1 0 1 25)
        [ExpressionStatement (L 1 0 1 25)
           (CallExpression (L 1 0 1 25) (Identifier (L 1 0 1 3) ''use'')
              [StringLiteral (L 1 4 1 24) ''aTRIGGER_CHARACTER''])])"
    by code_simp
  from placeholder_in_string_leaves_structure [OF inject_use_string _ this, of babelSamples]
    samples_use_string
  show ?thesis by (simp add: ast_use_string_def)
qed

lemma inject_db_string:
  "handleTriggerCharacter ''db['a']'' \<lparr>line = 0, character = 5\<rparr> =
     Inr ''db['aTRIGGER_CHARACTER']''"
  by code_simp

lemma samples_db_string: "babelSamples ''db['aTRIGGER_CHARACTER']'' = Some ast_db_string"
  by code_simp

lemma traverse_db_string:
  "fold (enter \<lparr>sel_start = \<lparr>line = 0, character = 5\<rparr>,
                sel_end = \<lparr>line = 0, character = 0\<rparr>\<rparr>)
     (traversePaths ast_db_string) getDefaultsForCompletion =
   getDefaultsForCompletion\<lparr>isDbSymbol := True, isCollectionName := True\<rparr>"
  by code_simp

text \<open>Claim C6 as stated has \<open>isDbSymbol\<close> among the fields that stay false; for
  \<^verbatim>\<open>db['a']\<close> with the cursor inside the string it is true.\<close>

theorem placeholder_in_string_sets_isDbSymbol_counterexample:
  "map_sum id isDbSymbol
     (parseASTForCompletion babelSamples ''db['a']'' \<lparr>line = 0, character = 5\<rparr>) = Inr True"
  by (simp add: parseASTForCompletion_def parseAST_def inject_db_string samples_db_string
      traverse_db_string)

section \<open>Naming a collection or a stream processor\<close>

lemma enter_accessForm_db:
  assumes "accessForm ''db'' name (fst (hd p))" and "str_includes name PLACEHOLDER"
  shows "enter sel p st = st\<lparr>isCollectionName := True\<rparr>"
  using assms(1)
proof (cases rule: accessForm.cases)
  case member
  with assms(2) show ?thesis
    by (simp add: enter_def visitCallExpression_def visitMemberExpression_def
        visitExpressionStatement_def visitObjectExpression_def visitArrayExpression_def
        checkHasAggregationCall_def checkHasFindCall_def checkIsCollectionSymbol_def
        checkIsCollectionMemberExpression_def checkIsCollectionCallExpression_def
        checkIsCollectionNameAsMemberExpression_def checkHasCollectionName_def
        checkHasCollectionNameMemberExpression_def checkHasCollectionNameCallExpression_def
        checkIsStreamProcessorSymbol_def checkIsStreamProcessorMemberExpression_def
        checkIsStreamProcessorCallExpression_def
        checkIsStreamProcessorNameAsMemberExpression_def checkHasStreamProcessorName_def
        checkHasStreamProcessorNameMemberExpression_def
        checkHasStreamProcessorNameCallExpression_def)
next
  case computed
  with assms(2) show ?thesis
    by (simp add: enter_def visitCallExpression_def visitMemberExpression_def
        visitExpressionStatement_def visitObjectExpression_def visitArrayExpression_def
        checkHasAggregationCall_def checkHasFindCall_def checkIsCollectionSymbol_def
        checkIsCollectionMemberExpression_def checkIsCollectionCallExpression_def
        checkIsCollectionNameAsMemberExpression_def checkHasCollectionName_def
        checkHasCollectionNameMemberExpression_def checkHasCollectionNameCallExpression_def
        checkIsStreamProcessorSymbol_def checkIsStreamProcessorMemberExpression_def
        checkIsStreamProcessorCallExpression_def
        checkIsStreamProcessorNameAsMemberExpression_def checkHasStreamProcessorName_def
        checkHasStreamProcessorNameMemberExpression_def
        checkHasStreamProcessorNameCallExpression_def)
qed

lemma enter_accessForm_sp:
  assumes "accessForm ''sp'' name (fst (hd p))" and "str_includes name PLACEHOLDER"
  shows "enter sel p st = st\<lparr>isSpSymbol := True, isStreamProcessorName := True\<rparr>"
  using assms(1)
proof (cases rule: accessForm.cases)
  case member
  with assms(2) show ?thesis
    by (simp add: enter_def visitCallExpression_def visitMemberExpression_def
        visitExpressionStatement_def visitObjectExpression_def visitArrayExpression_def
        checkHasAggregationCall_def checkHasFindCall_def checkIsCollectionSymbol_def
        checkIsCollectionMemberExpression_def checkIsCollectionCallExpression_def
        checkIsCollectionNameAsMemberExpression_def checkHasCollectionName_def
        checkHasCollectionNameMemberExpression_def checkHasCollectionNameCallExpression_def
        checkIsStreamProcessorSymbol_def checkIsStreamProcessorMemberExpression_def
        checkIsStreamProcessorCallExpression_def
        checkIsStreamProcessorNameAsMemberExpression_def checkHasStreamProcessorName_def
        checkHasStreamProcessorNameMemberExpression_def
        checkHasStreamProcessorNameCallExpression_def)
next
  case computed
  with assms(2) show ?thesis
    by (simp add: enter_def visitCallExpression_def visitMemberExpression_def
        visitExpressionStatement_def visitObjectExpression_def visitArrayExpression_def
        checkHasAggregationCall_def checkHasFindCall_def checkIsCollectionSymbol_def
        checkIsCollectionMemberExpression_def checkIsCollectionCallExpression_def
        checkIsCollectionNameAsMemberExpression_def checkHasCollectionName_def
        checkHasCollectionNameMemberExpression_def checkHasCollectionNameCallExpression_def
        checkIsStreamProcessorSymbol_def checkIsStreamProcessorMemberExpression_def
        checkIsStreamProcessorCallExpression_def
        checkIsStreamProcessorNameAsMemberExpression_def checkHasStreamProcessorName_def
        checkHasStreamProcessorNameMemberExpression_def
        checkHasStreamProcessorNameCallExpression_def)
qed

lemma enter_accessorCallForm_db:
  assumes "accessorCallForm ''db'' ''getCollection'' name (fst (hd p))"
    and "str_includes name PLACEHOLDER"
  shows "enter sel p st = st\<lparr>isCollectionName := True\<rparr>"
  using assms(1)
proof (cases rule: accessorCallForm.cases)
  case call
  with assms(2) show ?thesis
    by (simp add: enter_def visitCallExpression_def visitMemberExpression_def
        visitExpressionStatement_def visitObjectExpression_def visitArrayExpression_def
        checkIsUseCall_def checkIsUseCallAsSimpleString_def checkIsUseCallAsTemplate_def
        checkIsCollectionNameAsCallExpression_def checkGetCollectionAsSimpleString_def
        checkGetCollectionAsTemplate_def checkIsStreamProcessorNameAsCallExpression_def
        checkHasDatabaseName_def split: option.split)
next
  case template
  with assms(2) show ?thesis
    by (simp add: enter_def visitCallExpression_def visitMemberExpression_def
        visitExpressionStatement_def visitObjectExpression_def visitArrayExpression_def
        checkIsUseCall_def checkIsUseCallAsSimpleString_def checkIsUseCallAsTemplate_def
        checkIsCollectionNameAsCallExpression_def checkGetCollectionAsSimpleString_def
        checkGetCollectionAsTemplate_def checkIsStreamProcessorNameAsCallExpression_def
        checkHasDatabaseName_def split: option.split)
qed

lemma enter_accessorCallForm_sp:
  assumes "accessorCallForm ''sp'' ''getProcessor'' name (fst (hd p))"
    and "str_includes name PLACEHOLDER"
  shows "enter sel p st = st\<lparr>isStreamProcessorName := True\<rparr>"
  using assms(1)
proof (cases rule: accessorCallForm.cases)
  case call
  with assms(2) show ?thesis
    by (simp add: enter_def visitCallExpression_def visitMemberExpression_def
        visitExpressionStatement_def visitObjectExpression_def visitArrayExpression_def
        checkIsUseCall_def checkIsUseCallAsSimpleString_def checkIsUseCallAsTemplate_def
        checkIsCollectionNameAsCallExpression_def
        checkIsStreamProcessorNameAsCallExpression_def
        checkGetStreamProcessorAsSimpleString_def checkGetStreamProcessorAsTemplate_def
        checkHasDatabaseName_def split: option.split)
next
  case template
  with assms(2) show ?thesis
    by (simp add: enter_def visitCallExpression_def visitMemberExpression_def
        visitExpressionStatement_def visitObjectExpression_def visitArrayExpression_def
        checkIsUseCall_def checkIsUseCallAsSimpleString_def checkIsUseCallAsTemplate_def
        checkIsCollectionNameAsCallExpression_def
        checkIsStreamProcessorNameAsCallExpression_def
        checkGetStreamProcessorAsSimpleString_def checkGetStreamProcessorAsTemplate_def
        checkHasDatabaseName_def split: option.split)
qed

lemma visitMemberExpression_isSpSymbol_mono:
  "isSpSymbol st \<Longrightarrow> isSpSymbol (visitMemberExpression p st)"
  by (simp add: visitMemberExpression_def Let_def
      checkIsStreamProcessorNameAsMemberExpression_def)

lemma visitExpressionStatement_isSpSymbol_mono:
  "isSpSymbol st \<Longrightarrow> isSpSymbol (visitExpressionStatement p st)"
  by (simp add: visitExpressionStatement_def Let_def checkIsSpSymbol_def)

lemma visitCallExpression_isCollectionName_mono:
  "isCollectionName st \<Longrightarrow> isCollectionName (visitCallExpression sel p st)"
  by (simp add: visitCallExpression_def Let_def checkIsCollectionNameAsCallExpression_def
      checkGetCollectionAsSimpleString_def checkGetCollectionAsTemplate_def)

lemma visitMemberExpression_isCollectionName_mono:
  "isCollectionName st \<Longrightarrow> isCollectionName (visitMemberExpression p st)"
  by (simp add: visitMemberExpression_def Let_def checkIsCollectionNameAsMemberExpression_def)

lemma visitCallExpression_isStreamProcessorName_mono:
  "isStreamProcessorName st \<Longrightarrow> isStreamProcessorName (visitCallExpression sel p st)"
  by (simp add: visitCallExpression_def Let_def checkIsStreamProcessorNameAsCallExpression_def
      checkGetStreamProcessorAsSimpleString_def checkGetStreamProcessorAsTemplate_def)

lemma visitMemberExpression_isStreamProcessorName_mono:
  "isStreamProcessorName st \<Longrightarrow> isStreamProcessorName (visitMemberExpression p st)"
  by (simp add: visitMemberExpression_def Let_def
      checkIsStreamProcessorNameAsMemberExpression_def)

lemma enter_naming_mono:
  "isCollectionName st \<Longrightarrow> isCollectionName (enter sel p st)"
  "isStreamProcessorName st \<Longrightarrow> isStreamProcessorName (enter sel p st)"
  "isSpSymbol st \<Longrightarrow> isSpSymbol (enter sel p st)"
  by (simp_all add: enter_def visitCallExpression_isCollectionName_mono
      visitMemberExpression_isCollectionName_mono
      visitCallExpression_isStreamProcessorName_mono
      visitMemberExpression_isStreamProcessorName_mono
      visitMemberExpression_isSpSymbol_mono visitExpressionStatement_isSpSymbol_mono)

lemma fold_enter_naming_mono:
  "isCollectionName st \<Longrightarrow> isCollectionName (fold (enter sel) ps st)"
  "isStreamProcessorName st \<Longrightarrow> isStreamProcessorName (fold (enter sel) ps st)"
  "isSpSymbol st \<Longrightarrow> isSpSymbol (fold (enter sel) ps st)"
  by (induction ps arbitrary: st) (simp_all add: enter_naming_mono)

text \<open>
  Claim C7, as amended. When the injected text parses and the cursor is inside the name, so
  that the name includes the placeholder, the forms \<^verbatim>\<open>db.name\<close>, \<^verbatim>\<open>db['name']\<close> and
  \<^verbatim>\<open>db.getCollection(...)\<close> with a single string literal or a template literal of a
  single quasi all do the same to the state when they are entered, wherever in the tree:
  they set \<open>isCollectionName\<close> and nothing else, and the returned state has
  \<open>isCollectionName = true\<close>. Each of the forms under \<^verbatim>\<open>sp\<close> and \<^verbatim>\<open>sp.getProcessor(...)\<close>
  gives \<open>isStreamProcessorName = true\<close> in the returned state, but these forms do not set
  the same flags: \<^verbatim>\<open>sp.name\<close> and \<^verbatim>\<open>sp['name']\<close> set \<open>isSpSymbol\<close> as well, which is then
  true in the returned state, and the call of \<^verbatim>\<open>sp.getProcessor\<close> sets
  \<open>isStreamProcessorName\<close> only.
\<close>

theorem naming_forms_flags:
  assumes "handleTriggerCharacter textFromEditor position = Inr injected"
    and "parse injected = Some ast"
    and "p \<in> set (traversePaths ast)"
    and "sublist PLACEHOLDER name"
  shows "(namingForm ''db'' ''getCollection'' name (fst (hd p)) \<longrightarrow>
            enter sel p st = st\<lparr>isCollectionName := True\<rparr>
          \<and> map_sum id isCollectionName
              (parseASTForCompletion parse textFromEditor position) = Inr True)
       \<and> (namingForm ''sp'' ''getProcessor'' name (fst (hd p)) \<longrightarrow>
            map_sum id isStreamProcessorName
              (parseASTForCompletion parse textFromEditor position) = Inr True)
       \<and> (accessForm ''sp'' name (fst (hd p)) \<longrightarrow>
            enter sel p st = st\<lparr>isSpSymbol := True, isStreamProcessorName := True\<rparr>
          \<and> map_sum id isSpSymbol
              (parseASTForCompletion parse textFromEditor position) = Inr True)
       \<and> (accessorCallForm ''sp'' ''getProcessor'' name (fst (hd p)) \<longrightarrow>
            enter sel p st = st\<lparr>isStreamProcessorName := True\<rparr>)"
proof -
  let ?sel = "\<lparr>sel_start = position, sel_end = \<lparr>line = 0, character = 0\<rparr>\<rparr>"
  from assms(3) obtain xs ys where split: "traversePaths ast = xs @ p # ys"
    by (auto simp: in_set_conv_decomp)
  let ?st = "fold (enter ?sel) xs getDefaultsForCompletion"
  have res: "parseASTForCompletion parse textFromEditor position =
      Inr (fold (enter ?sel) ys (enter ?sel p ?st))"
    using assms(1,2) split by (simp add: parseASTForCompletion_def parseAST_def Let_def)
  from assms(4) have inc: "str_includes name PLACEHOLDER"
    by (simp add: str_includes_sublist)
  have db: "isCollectionName (fold (enter ?sel) ys (enter ?sel p ?st))"
    if "namingForm ''db'' ''getCollection'' name (fst (hd p))"
    using that inc enter_accessForm_db [of name p ?sel ?st]
      enter_accessorCallForm_db [of name p ?sel ?st]
    by (auto simp: namingForm_def intro!: fold_enter_naming_mono)
  have sp: "isStreamProcessorName (fold (enter ?sel) ys (enter ?sel p ?st))"
    if "namingForm ''sp'' ''getProcessor'' name (fst (hd p))"
    using that inc enter_accessForm_sp [of name p ?sel ?st]
      enter_accessorCallForm_sp [of name p ?sel ?st]
    by (auto simp: namingForm_def intro!: fold_enter_naming_mono)
  have sym: "isSpSymbol (fold (enter ?sel) ys (enter ?sel p ?st))"
    if "accessForm ''sp'' name (fst (hd p))"
    using that inc enter_accessForm_sp [of name p ?sel ?st]
    by (auto intro!: fold_enter_naming_mono)
  show ?thesis
    using res db sp sym inc enter_accessForm_db [of name p sel st]
      enter_accessorCallForm_db [of name p sel st] enter_accessForm_sp [of name p sel st]
      enter_accessorCallForm_sp [of name p sel st]
    by (auto simp: namingForm_def)
qed

lemma inject_getCollection:
  "handleTriggerCharacter ''db.getCollection('a')'' \<lparr>line = 0, character = 19\<rparr> =
     Inr ''db.getCollection('aTRIGGER_CHARACTER')''"
  by code_simp

lemma samples_getCollection:
  "babelSamples ''db.getCollection('aTRIGGER_CHARACTER')'' = Some ast_getCollection"
  by code_simp

lemma inject_assign_sp_member:
  "handleTriggerCharacter ''x = sp.a'' \<lparr>line = 0, character = 8\<rparr> =
     Inr ''x = sp.aTRIGGER_CHARACTER''"
  by code_simp

lemma samples_assign_sp_member:
  "babelSamples ''x = sp.aTRIGGER_CHARACTER'' = Some ast_assign_sp_member"
  by code_simp

lemma inject_assign_sp_call:
  "handleTriggerCharacter ''x = sp.getProcessor('a')'' \<lparr>line = 0, character = 22\<rparr> =
     Inr ''x = sp.getProcessor('aTRIGGER_CHARACTER')''"
  by code_simp

lemma samples_assign_sp_call:
  "babelSamples ''x = sp.getProcessor('aTRIGGER_CHARACTER')'' = Some ast_assign_sp_call"
  by code_simp

lemma path_getCollection:
  "path_getCollection \<in> set (traversePaths ast_getCollection)"
  "fst (hd path_getCollection) =
     CallExpression (L 1 0 1 38)
       (MemberExpression (L 1 0 1 16) (Identifier (L 1 0 1 2) ''db'')
          (Identifier (L 1 3 1 16) ''getCollection'') False)
       [StringLiteral (L 1 17 1 37) ''aTRIGGER_CHARACTER'']"
  by code_simp+

lemma path_assign_sp_member:
  "path_assign_sp_member \<in> set (traversePaths ast_assign_sp_member)"
  "fst (hd path_assign_sp_member) =
     MemberExpression (L 1 4 1 25) (Identifier (L 1 4 1 6) ''sp'')
       (Identifier (L 1 7 1 25) ''aTRIGGER_CHARACTER'') False"
  by code_simp+

lemma path_assign_sp_call:
  "path_assign_sp_call \<in> set (traversePaths ast_assign_sp_call)"
  "fst (hd path_assign_sp_call) =
     CallExpression (L 1 4 1 41)
       (MemberExpression (L 1 4 1 19) (Identifier (L 1 4 1 6) ''sp'')
          (Identifier (L 1 7 1 19) ''getProcessor'') False)
       [StringLiteral (L 1 20 1 40) ''aTRIGGER_CHARACTER'']"
  by code_simp+

theorem naming_forms_flags_witness:
  "map_sum id isCollectionName
     (parseASTForCompletion babelSamples ''db.getCollection('a')''
        \<lparr>line = 0, character = 19\<rparr>) = Inr True
   \<and> map_sum id isStreamProcessorName
     (parseASTForCompletion babelSamples ''x = sp.a'' \<lparr>line = 0, character = 8\<rparr>) = Inr True
   \<and> map_sum id isSpSymbol
     (parseASTForCompletion babelSamples ''x = sp.a'' \<lparr>line = 0, character = 8\<rparr>) = Inr True
   \<and> map_sum id isStreamProcessorName
     (parseASTForCompletion babelSamples ''x = sp.getProcessor('a')''
        \<lparr>line = 0, character = 22\<rparr>) = Inr True
   \<and> enter \<lparr>sel_start = \<lparr>line = 0, character = 19\<rparr>, sel_end = \<lparr>line = 0, character = 0\<rparr>\<rparr>
       path_getCollection getDefaultsForCompletion =
     getDefaultsForCompletion\<lparr>isCollectionName := True\<rparr>
   \<and> enter \<lparr>sel_start = \<lparr>line = 0, character = 8\<rparr>, sel_end = \<lparr>line = 0, character = 0\<rparr>\<rparr>
       path_assign_sp_member getDefaultsForCompletion =
     getDefaultsForCompletion\<lparr>isSpSymbol := True, isStreamProcessorName := True\<rparr>
   \<and> enter \<lparr>sel_start = \<lparr>line = 0, character = 22\<rparr>, sel_end = \<lparr>line = 0, character = 0\<rparr>\<rparr>
       path_assign_sp_call getDefaultsForCompletion =
     getDefaultsForCompletion\<lparr>isStreamProcessorName := True\<rparr>"
proof -
  have inc: "sublist PLACEHOLDER ''aTRIGGER_CHARACTER''"
    by code_simp
  have db: "accessorCallForm ''db'' ''getCollection'' ''aTRIGGER_CHARACTER''
      (fst (hd path_getCollection))"
    unfolding path_getCollection(2) by (rule accessorCallForm.call)
  have mem: "accessForm ''sp'' ''aTRIGGER_CHARACTER'' (fst (hd path_assign_sp_member))"
    unfolding path_assign_sp_member(2) by (rule accessForm.member)
  have call: "accessorCallForm ''sp'' ''getProcessor'' ''aTRIGGER_CHARACTER''
      (fst (hd path_assign_sp_call))"
    unfolding path_assign_sp_call(2) by (rule accessorCallForm.call)
  from naming_forms_flags [where parse = babelSamples
         and sel = "\<lparr>sel_start = \<lparr>line = 0, character = 19\<rparr>,
                      sel_end = \<lparr>line = 0, character = 0\<rparr>\<rparr>"
         and st = getDefaultsForCompletion,
         OF inject_getCollection samples_getCollection path_getCollection(1) inc]
       naming_forms_flags [where parse = babelSamples
         and sel = "\<lparr>sel_start = \<lparr>line = 0, character = 8\<rparr>,
                      sel_end = \<lparr>line = 0, character = 0\<rparr>\<rparr>"
         and st = getDefaultsForCompletion,
         OF inject_assign_sp_member samples_assign_sp_member path_assign_sp_member(1) inc]
       naming_forms_flags [where parse = babelSamples
         and sel = "\<lparr>sel_start = \<lparr>line = 0, character = 22\<rparr>,
                      sel_end = \<lparr>line = 0, character = 0\<rparr>\<rparr>"
         and st = getDefaultsForCompletion,
         OF inject_assign_sp_call samples_assign_sp_call path_assign_sp_call(1) inc]
       db mem call
  show ?thesis unfolding namingForm_def by blast
qed

lemma traverse_assign_sp_member:
  "fold (enter \<lparr>sel_start = \<lparr>line = 0, character = 8\<rparr>, sel_end = \<lparr>line = 0, character = 0\<rparr>\<rparr>)
     (traversePaths ast_assign_sp_member) getDefaultsForCompletion
   = getDefaultsForCompletion\<lparr>isSpSymbol := True, isStreamProcessorName := True\<rparr>"
  by code_simp

lemma traverse_assign_sp_call:
  "fold (enter \<lparr>sel_start = \<lparr>line = 0, character = 22\<rparr>, sel_end = \<lparr>line = 0, character = 0\<rparr>\<rparr>)
     (traversePaths ast_assign_sp_call) getDefaultsForCompletion
   = getDefaultsForCompletion\<lparr>isStreamProcessorName := True\<rparr>"
  by code_simp

text \<open>Claim C7 as stated has the forms under \<^verbatim>\<open>sp\<close> set the same flags. With the cursor
  at the end of the name \<^verbatim>\<open>a\<close>, the property access on the right of \<^verbatim>\<open>x = sp.a\<close> gives
  \<open>isSpSymbol = true\<close>, and the call on the right of \<^verbatim>\<open>x = sp.getProcessor('a')\<close> gives
  \<open>isSpSymbol = false\<close>.\<close>

theorem sp_forms_isSpSymbol_counterexample:
  "map_sum id isSpSymbol
     (parseASTForCompletion babelSamples ''x = sp.a'' \<lparr>line = 0, character = 8\<rparr>) = Inr True
   \<and> map_sum id isSpSymbol
     (parseASTForCompletion babelSamples ''x = sp.getProcessor('a')''
        \<lparr>line = 0, character = 22\<rparr>) = Inr False"
proof -
  have "parseASTForCompletion babelSamples ''x = sp.a'' \<lparr>line = 0, character = 8\<rparr> =
      Inr (getDefaultsForCompletion\<lparr>isSpSymbol := True, isStreamProcessorName := True\<rparr>)"
    by (simp add: parseASTForCompletion_def parseAST_def inject_assign_sp_member
        samples_assign_sp_member traverse_assign_sp_member)
  moreover have "parseASTForCompletion babelSamples ''x = sp.getProcessor('a')''
      \<lparr>line = 0, character = 22\<rparr> =
      Inr (getDefaultsForCompletion\<lparr>isStreamProcessorName := True\<rparr>)"
    by (simp add: parseASTForCompletion_def parseAST_def inject_assign_sp_call
        samples_assign_sp_call traverse_assign_sp_call)
  ultimately show ?thesis by (simp add: getDefaultsForCompletion_def)
qed

end
